theory Spec2Isabelle
  imports Complex_Main
begin

section \<open>Exceptions\<close>

text \<open>
  The exceptions the program and the library calls it makes can raise. Every one of them is
  a subclass of Python's \<open>Exception\<close>, which is what the handlers of \<open>phantasma.py\<close> catch.
  A computation that may raise returns \<open>exn + 'a\<close>, with \<open>Inl\<close> for the exception.
\<close>

datatype exn =
    ValueError
  | TypeError
  | KeyError
  | IndexError
  | OverflowError
  | OSError
  | AttributeError
  | InvalidOperation
  | RequestException
  | JSONDecodeError

section \<open>Strings\<close>

text \<open>
  Strings are ASCII texts. \<open>is_space\<close> is \<open>str.isspace\<close> on one ASCII character:
  tab, line feed, vertical tab, form feed, carriage return, the four separators
  \<open>0x1C\<close> to \<open>0x1F\<close>, and the blank.
\<close>

definition is_space :: "char \<Rightarrow> bool" where
  "is_space c \<longleftrightarrow> c \<in> {CHR 0x09, CHR 0x0A, CHR 0x0B, CHR 0x0C, CHR 0x0D,
                       CHR 0x1C, CHR 0x1D, CHR 0x1E, CHR 0x1F, CHR 0x20}"

text \<open>\<open>str.strip()\<close>: leading and trailing white space removed.\<close>

definition strip :: "string \<Rightarrow> string" where
  "strip s = rev (dropWhile is_space (rev (dropWhile is_space s)))"

text \<open>
  \<open>int(str)\<close> and \<open>float(str)\<close> skip a narrower set around an ASCII text, the white
  space of C's \<open>isspace\<close>: tab, line feed, vertical tab, form feed, carriage return and the
  blank. The separators \<open>0x1C\<close> to \<open>0x1F\<close> are not skipped and make the text invalid.
\<close>

definition is_c_space :: "char \<Rightarrow> bool" where
  "is_c_space c \<longleftrightarrow> c \<in> {CHR 0x09, CHR 0x0A, CHR 0x0B, CHR 0x0C, CHR 0x0D, CHR 0x20}"

definition c_strip :: "string \<Rightarrow> string" where
  "c_strip s = rev (dropWhile is_c_space (rev (dropWhile is_c_space s)))"

definition digit_val :: "char \<Rightarrow> nat option" where
  "digit_val c =
     (let n = (of_char c :: nat) in if 48 \<le> n \<and> n \<le> 57 then Some (n - 48) else None)"

definition is_digit :: "char \<Rightarrow> bool" where
  "is_digit c \<longleftrightarrow> digit_val c \<noteq> None"

definition nat_of_digits :: "string \<Rightarrow> nat" where
  "nat_of_digits ds = foldl (\<lambda>n c. 10 * n + (case digit_val c of None \<Rightarrow> 0 | Some d \<Rightarrow> d)) 0 ds"

text \<open>ASCII case conversion, as \<open>str.lower()\<close> and \<open>str.upper()\<close> do on ASCII text.\<close>

definition lower_char :: "char \<Rightarrow> char" where
  "lower_char c =
     (let n = (of_char c :: nat) in if 65 \<le> n \<and> n \<le> 90 then char_of (n + 32) else c)"

definition upper_char :: "char \<Rightarrow> char" where
  "upper_char c =
     (let n = (of_char c :: nat) in if 97 \<le> n \<and> n \<le> 122 then char_of (n - 32) else c)"

definition lower :: "string \<Rightarrow> string" where
  "lower s = map lower_char s"

definition upper :: "string \<Rightarrow> string" where
  "upper s = map upper_char s"

text \<open>An optional sign in front of a numeric literal: \<open>True\<close> for a minus sign.\<close>

fun parse_sign :: "string \<Rightarrow> bool \<times> string" where
  "parse_sign [] = (False, [])"
| "parse_sign (c # cs) =
     (if c = CHR ''-'' then (True, cs)
      else if c = CHR ''+'' then (False, cs)
      else (False, c # cs))"

text \<open>
  The unsigned decimal literal shared by \<open>Decimal(str)\<close> and \<open>float(str)\<close>: digits with an
  optional point, at least one digit in all, and an optional exponent. The result is the
  coefficient and the power of ten.
\<close>

definition parse_decimal_literal :: "string \<Rightarrow> (nat \<times> int) option" where
  "parse_decimal_literal s =
     (let ip = takeWhile is_digit s;
          r1 = dropWhile is_digit s;
          fp = (case r1 of [] \<Rightarrow> [] | c # t \<Rightarrow> if c = CHR ''.'' then takeWhile is_digit t else []);
          r2 = (case r1 of [] \<Rightarrow> [] | c # t \<Rightarrow> if c = CHR ''.'' then dropWhile is_digit t else r1)
      in if ip = [] \<and> fp = [] then None
         else (case r2 of
                 [] \<Rightarrow> Some (nat_of_digits (ip @ fp), - int (length fp))
               | e # r3 \<Rightarrow>
                   if e = CHR ''e'' \<or> e = CHR ''E'' then
                     (let (neg, r4) = parse_sign r3;
                          ed = takeWhile is_digit r4;
                          r5 = dropWhile is_digit r4
                      in if ed = [] \<or> r5 \<noteq> [] then None
                         else Some (nat_of_digits (ip @ fp),
                                    (if neg then - int (nat_of_digits ed) else int (nat_of_digits ed))
                                      - int (length fp)))
                   else None))"

text \<open>The value \<open>c * 10 ^ e\<close> of a coefficient and a power of ten.\<close>

definition scale10 :: "nat \<Rightarrow> int \<Rightarrow> rat" where
  "scale10 c e = (if 0 \<le> e then of_nat c * 10 ^ nat e else of_nat c / 10 ^ nat (- e))"

text \<open>
  Underscores in \<open>int(str)\<close> and \<open>float(str)\<close>: one underscore may stand between two
  digits and nowhere else. The result is the text without them, or \<open>None\<close>.
\<close>

fun strip_underscores :: "char option \<Rightarrow> string \<Rightarrow> string option" where
  "strip_underscores prev [] = (if prev = Some CHR ''_'' then None else Some [])"
| "strip_underscores prev (c # cs) =
     (if c = CHR ''_'' then
        (case prev of
           None \<Rightarrow> None
         | Some p \<Rightarrow> if is_digit p then strip_underscores (Some c) cs else None)
      else if prev = Some CHR ''_'' \<and> \<not> is_digit c then None
      else map_option ((#) c) (strip_underscores (Some c) cs))"

section \<open>Python scalars\<close>

text \<open>
  A Python \<open>float\<close> is not-a-number, an infinity (\<open>True\<close> for the negative one) or a finite
  value. Which rationals are binary64 values is left to the rounding function of the
  platform below.
\<close>

datatype pyfloat = FNaN | FInf bool | FFin rat

text \<open>
  A \<open>Decimal\<close> is modelled by its numerical value: a finite value of unbounded precision,
  an infinity (\<open>True\<close> for the negative one) or a NaN. The representation (trailing zeros,
  the sign of zero, a NaN's payload) is not kept, nor are the exponent limits of the
  implementation.
\<close>

datatype decimal = DFin rat | DInf bool | DNaN

text \<open>
  A \<open>datetime\<close>: the wall-clock reading in microseconds and the zone, \<open>None\<close> for a naive
  value, otherwise the offset from UTC in seconds. A pandas timestamp is such a value or
  \<open>NaT\<close>.
\<close>

record datetime =
  wall :: int
  tzinfo :: "int option"

datatype tstamp = NaT | Stamp datetime

text \<open>The scalar values that reach the conversions: JSON scalars and datetimes.\<close>

datatype pyval =
    PNone
  | PInt int
  | PFloat pyfloat
  | PStr string
  | PDatetime datetime

text \<open>
  What the program takes from its platform and cannot be computed here: rounding a
  rational to the nearest binary64 value, \<open>str\<close> of a finite float and of a datetime,
  the local wall-clock reading of an epoch value (\<open>datetime.fromtimestamp\<close>, which
  raises out of range), \<open>datetime.timestamp()\<close>, and the date parser \<open>pd.to_datetime\<close>
  on strings.
\<close>

record platform =
  rnd :: "rat \<Rightarrow> pyfloat"
  float_str :: "rat \<Rightarrow> string"
  datetime_str :: "datetime \<Rightarrow> string"
  localtime :: "rat \<Rightarrow> exn + int"
  timestamp_of :: "datetime \<Rightarrow> exn + rat"
  to_datetime :: "string \<Rightarrow> exn + tstamp"

subsection \<open>\<open>str\<close>\<close>

fun str_nat :: "nat \<Rightarrow> string" where
  "str_nat n =
     (if n < 10 then [char_of (48 + n)]
      else str_nat (n div 10) @ [char_of (48 + n mod 10)])"

definition str_int :: "int \<Rightarrow> string" where
  "str_int i = (if i < 0 then CHR ''-'' # str_nat (nat (- i)) else str_nat (nat i))"

fun py_str :: "platform \<Rightarrow> pyval \<Rightarrow> string" where
  "py_str pf PNone = ''None''"
| "py_str pf (PInt i) = str_int i"
| "py_str pf (PFloat FNaN) = ''nan''"
| "py_str pf (PFloat (FInf neg)) = (if neg then ''-inf'' else ''inf'')"
| "py_str pf (PFloat (FFin q)) = float_str pf q"
| "py_str pf (PStr s) = s"
| "py_str pf (PDatetime d) = datetime_str pf d"

subsection \<open>\<open>Decimal\<close>\<close>

text \<open>
  \<open>Decimal(s)\<close> for a string: white space is stripped, every underscore is dropped, and
  the rest is a signed decimal literal, an infinity, or a (signalling) NaN with an optional
  payload of digits, in any letter case. Anything else raises \<open>InvalidOperation\<close>.
\<close>

definition Decimal_of_str :: "string \<Rightarrow> exn + decimal" where
  "Decimal_of_str s =
     (let (neg, body) = parse_sign (filter (\<lambda>c. c \<noteq> CHR ''_'') (strip s));
          l = lower body
      in if l = ''inf'' \<or> l = ''infinity'' then Inr (DInf neg)
         else if take 3 l = ''nan'' \<and> list_all is_digit (drop 3 l) then Inr DNaN
         else if take 4 l = ''snan'' \<and> list_all is_digit (drop 4 l) then Inr DNaN
         else (case parse_decimal_literal body of
                 None \<Rightarrow> Inl InvalidOperation
               | Some (c, e) \<Rightarrow> Inr (DFin ((if neg then - 1 else 1) * scale10 c e))))"

text \<open>
  \<open>Decimal(v)\<close>: an integer and a float convert exactly, a string is parsed, anything else
  is a \<open>TypeError\<close>.
\<close>

fun Decimal :: "pyval \<Rightarrow> exn + decimal" where
  "Decimal (PInt i) = Inr (DFin (of_int i))"
| "Decimal (PFloat FNaN) = Inr DNaN"
| "Decimal (PFloat (FInf neg)) = Inr (DInf neg)"
| "Decimal (PFloat (FFin q)) = Inr (DFin q)"
| "Decimal (PStr s) = Decimal_of_str s"
| "Decimal PNone = Inl TypeError"
| "Decimal (PDatetime d) = Inl TypeError"

text \<open>
  The ordering comparisons of \<open>Decimal\<close>: with a NaN on either side they raise
  \<open>InvalidOperation\<close>; the infinities lie below and above every finite value.
\<close>

fun dec_less :: "decimal \<Rightarrow> decimal \<Rightarrow> exn + bool" where
  "dec_less DNaN _ = Inl InvalidOperation"
| "dec_less _ DNaN = Inl InvalidOperation"
| "dec_less (DFin a) (DFin b) = Inr (a < b)"
| "dec_less (DFin a) (DInf neg) = Inr (\<not> neg)"
| "dec_less (DInf neg) (DFin b) = Inr neg"
| "dec_less (DInf n1) (DInf n2) = Inr (n1 \<and> \<not> n2)"

fun dec_ge :: "decimal \<Rightarrow> decimal \<Rightarrow> exn + bool" where
  "dec_ge DNaN _ = Inl InvalidOperation"
| "dec_ge _ DNaN = Inl InvalidOperation"
| "dec_ge (DFin a) (DFin b) = Inr (a \<ge> b)"
| "dec_ge (DFin a) (DInf neg) = Inr neg"
| "dec_ge (DInf neg) (DFin b) = Inr (\<not> neg)"
| "dec_ge (DInf n1) (DInf n2) = Inr (n2 \<or> \<not> n1)"

subsection \<open>\<open>float\<close> and \<open>int\<close>\<close>

text \<open>
  \<open>float(s)\<close> for a string: C white space is stripped, underscores are checked and dropped,
  and the rest is a signed infinity, a signed NaN or a signed decimal literal, which is
  rounded to binary64. Anything else raises \<open>ValueError\<close>.
\<close>

definition float_of_str :: "platform \<Rightarrow> string \<Rightarrow> exn + pyfloat" where
  "float_of_str pf s =
     (case strip_underscores None (c_strip s) of
        None \<Rightarrow> Inl ValueError
      | Some t \<Rightarrow>
          (let (neg, body) = parse_sign t;
               l = lower body
           in if l = ''inf'' \<or> l = ''infinity'' then Inr (FInf neg)
              else if l = ''nan'' then Inr FNaN
              else (case parse_decimal_literal body of
                      None \<Rightarrow> Inl ValueError
                    | Some (c, e) \<Rightarrow> Inr (rnd pf ((if neg then - 1 else 1) * scale10 c e)))))"

text \<open>
  \<open>float(v)\<close>: an integer too large for binary64 raises \<open>OverflowError\<close>, \<open>None\<close> and a
  datetime raise \<open>TypeError\<close>.
\<close>

fun py_float :: "platform \<Rightarrow> pyval \<Rightarrow> exn + pyfloat" where
  "py_float pf (PInt i) =
     (case rnd pf (of_int i) of FInf neg \<Rightarrow> Inl OverflowError | f \<Rightarrow> Inr f)"
| "py_float pf (PFloat f) = Inr f"
| "py_float pf (PStr s) = float_of_str pf s"
| "py_float pf PNone = Inl TypeError"
| "py_float pf (PDatetime d) = Inl TypeError"

text \<open>Truncation towards zero, as \<open>int\<close> of a finite float.\<close>

definition trunc :: "rat \<Rightarrow> int" where
  "trunc q = (if 0 \<le> q then \<lfloor>q\<rfloor> else \<lceil>q\<rceil>)"

text \<open>
  \<open>int(s)\<close> for a string, base ten: C white space is stripped, underscores are checked and
  dropped, and the rest is an optional sign and at least one digit.
\<close>

definition int_of_str :: "string \<Rightarrow> exn + int" where
  "int_of_str s =
     (case strip_underscores None (c_strip s) of
        None \<Rightarrow> Inl ValueError
      | Some t \<Rightarrow>
          (let (neg, body) = parse_sign t
           in if body \<noteq> [] \<and> list_all is_digit body
              then Inr (if neg then - int (nat_of_digits body) else int (nat_of_digits body))
              else Inl ValueError))"

fun py_int :: "pyval \<Rightarrow> exn + int" where
  "py_int (PInt i) = Inr i"
| "py_int (PFloat FNaN) = Inl ValueError"
| "py_int (PFloat (FInf neg)) = Inl OverflowError"
| "py_int (PFloat (FFin q)) = Inr (trunc q)"
| "py_int (PStr s) = int_of_str s"
| "py_int PNone = Inl TypeError"
| "py_int (PDatetime d) = Inl TypeError"

text \<open>\<open>pd.isna\<close> on a scalar: \<open>None\<close> and the float NaN are missing values.\<close>

fun isna :: "pyval \<Rightarrow> bool" where
  "isna PNone = True"
| "isna (PFloat FNaN) = True"
| "isna _ = False"

section \<open>The type handler (\<open>type_handlers.py\<close>)\<close>

text \<open>\<open>datetime.replace(tzinfo=None)\<close>; on \<open>NaT\<close> it gives \<open>NaT\<close>.\<close>

fun replace_tzinfo_None :: "tstamp \<Rightarrow> tstamp" where
  "replace_tzinfo_None NaT = NaT"
| "replace_tzinfo_None (Stamp d) = Stamp (d\<lparr>tzinfo := None\<rparr>)"

text \<open>
  \<open>datetime.fromtimestamp(value)\<close> without a zone: the naive local time of an epoch
  value. A NaN raises \<open>ValueError\<close>, an infinity \<open>OverflowError\<close>, and a value out of the
  platform's range what the platform raises.
\<close>

fun fromtimestamp :: "platform \<Rightarrow> pyfloat \<Rightarrow> exn + tstamp" where
  "fromtimestamp pf FNaN = Inl ValueError"
| "fromtimestamp pf (FInf neg) = Inl OverflowError"
| "fromtimestamp pf (FFin q) =
     (case localtime pf q of
        Inl e \<Rightarrow> Inl e
      | Inr w \<Rightarrow> Inr (Stamp \<lparr>wall = w, tzinfo = None\<rparr>))"

text \<open>
  \<open>StrictTypeHandler.to_timestamp\<close>. A datetime loses its zone; a number goes through
  \<open>fromtimestamp\<close>, outside the \<open>try\<close>; anything else is parsed by \<open>pd.to_datetime\<close> and
  loses its zone, and every failure there becomes a \<open>ValueError\<close>. \<open>pd.to_datetime(None)\<close>
  is \<open>None\<close>, which has no \<open>replace\<close>.
\<close>

fun to_timestamp :: "platform \<Rightarrow> pyval \<Rightarrow> exn + tstamp" where
  "to_timestamp pf (PDatetime d) = Inr (replace_tzinfo_None (Stamp d))"
| "to_timestamp pf (PInt i) = fromtimestamp pf (FFin (of_int i))"
| "to_timestamp pf (PFloat f) = fromtimestamp pf f"
| "to_timestamp pf (PStr s) =
     (case to_datetime pf s of
        Inl e \<Rightarrow> Inl ValueError
      | Inr ts \<Rightarrow> Inr (replace_tzinfo_None ts))"
| "to_timestamp pf PNone = Inl ValueError"

text \<open>\<open>StrictTypeHandler.to_decimal\<close>.\<close>

definition to_decimal :: "platform \<Rightarrow> pyval \<Rightarrow> exn + decimal" where
  "to_decimal pf v =
     (if isna v then Inr (DFin 0)
      else (case Decimal_of_str (py_str pf v) of
              Inl e \<Rightarrow> Inl ValueError
            | Inr d \<Rightarrow> Inr d))"

text \<open>\<open>StrictTypeHandler.to_float\<close>.\<close>

definition to_float :: "platform \<Rightarrow> pyval \<Rightarrow> exn + pyfloat" where
  "to_float pf v =
     (if isna v then Inr (FFin 0)
      else (case py_float pf v of
              Inl e \<Rightarrow> Inl ValueError
            | Inr f \<Rightarrow> Inr f))"

text \<open>\<open>StrictTypeHandler.to_int\<close>: \<open>int(float(str(value)))\<close>, every failure a \<open>ValueError\<close>.\<close>

definition to_int :: "platform \<Rightarrow> pyval \<Rightarrow> exn + int" where
  "to_int pf v =
     (case float_of_str pf (py_str pf v) of
        Inl e \<Rightarrow> Inl ValueError
      | Inr f \<Rightarrow>
          (case py_int (PFloat f) of
             Inl e \<Rightarrow> Inl ValueError
           | Inr i \<Rightarrow> Inr i))"

subsection \<open>Token information\<close>

text \<open>
  The dictionary handed to \<open>format_token_info\<close>: the five keys that \<open>fetch_token_info\<close>
  sets, and the three optional ones.
\<close>

record token_data =
  td_created_timestamp :: pyval
  td_decimals :: pyval
  td_symbol :: pyval
  td_name :: pyval
  td_supply :: pyval
  td_creators :: "pyval list option"
  td_involved :: "pyval list option"
  td_early_transfers :: "pyval option"

record symbol_formats =
  sf_base :: string
  sf_lunar :: string
  sf_ccxt :: string
  sf_lower :: string

record token_info =
  created_timestamp :: tstamp
  decimals :: int
  symbol :: string
  formats :: symbol_formats
  name :: string
  token_supply :: decimal
  creators :: "string list option"
  involved :: "string list option"
  early_transfers :: "pyval option"

definition format_token_info :: "platform \<Rightarrow> token_data \<Rightarrow> exn + token_info" where
  "format_token_info pf data =
     (let base_symbol = strip (py_str pf (td_symbol data))
      in case to_timestamp pf (td_created_timestamp data) of
           Inl e \<Rightarrow> Inl e
         | Inr ts \<Rightarrow>
             (case to_int pf (td_decimals data) of
                Inl e \<Rightarrow> Inl e
              | Inr dec \<Rightarrow>
                  (case to_decimal pf (td_supply data) of
                     Inl e \<Rightarrow> Inl e
                   | Inr sv \<Rightarrow>
                       Inr \<lparr>created_timestamp = ts,
                            decimals = dec,
                            symbol = base_symbol,
                            formats = \<lparr>sf_base = base_symbol,
                                       sf_lunar = upper base_symbol,
                                       sf_ccxt = upper base_symbol @ ''/USDT'',
                                       sf_lower = lower base_symbol\<rparr>,
                            name = strip (py_str pf (td_name data)),
                            token_supply = sv,
                            creators = map_option (map (\<lambda>a. strip (py_str pf a))) (td_creators data),
                            involved = map_option (map (\<lambda>a. strip (py_str pf a))) (td_involved data),
                            early_transfers = td_early_transfers data\<rparr>)))"

subsection \<open>Tables\<close>

text \<open>
  A data frame built from a list of dictionaries is the list of its rows, each column
  holding the values as they were put in. The frame of the empty list has no columns:
  reading a column of it raises \<open>KeyError\<close>. \<open>Series.apply\<close> with a function that may raise
  stops at the first exception.
\<close>

fun series_apply :: "('a \<Rightarrow> exn + 'b) \<Rightarrow> 'a list \<Rightarrow> exn + 'b list" where
  "series_apply f [] = Inr []"
| "series_apply f (x # xs) =
     (case f x of
        Inl e \<Rightarrow> Inl e
      | Inr y \<Rightarrow> (case series_apply f xs of Inl e \<Rightarrow> Inl e | Inr ys \<Rightarrow> Inr (y # ys)))"

text \<open>\<open>Series.dt.tz_localize(None)\<close>: the zone is removed, the local time kept.\<close>

definition tz_localize_None :: "tstamp list \<Rightarrow> tstamp list" where
  "tz_localize_None col = map replace_tzinfo_None col"

record holder_dict =
  hd_owner_address :: pyval
  hd_balance :: pyval

record holder =
  owner_address :: string
  balance :: decimal

definition format_holders_df :: "platform \<Rightarrow> holder_dict list \<Rightarrow> exn + holder list" where
  "format_holders_df pf df =
     (if df = [] then Inl KeyError
      else (case series_apply (to_decimal pf) (map hd_balance df) of
              Inl e \<Rightarrow> Inl e
            | Inr bs \<Rightarrow>
                Inr (map (\<lambda>(r, b). \<lparr>owner_address = strip (py_str pf (hd_owner_address r)),
                                     balance = b\<rparr>)
                       (zip df bs))))"

record historical_holder_dict =
  hh_timestamp :: pyval
  hh_owner_address :: pyval
  hh_balance :: pyval

record historical_holder =
  h_timestamp :: tstamp
  h_owner_address :: string
  h_balance :: decimal

definition format_historical_holders_df ::
  "platform \<Rightarrow> historical_holder_dict list \<Rightarrow> exn + historical_holder list" where
  "format_historical_holders_df pf df =
     (if df = [] then Inl KeyError
      else (case series_apply (to_timestamp pf) (map hh_timestamp df) of
              Inl e \<Rightarrow> Inl e
            | Inr ts \<Rightarrow>
                (case series_apply (to_decimal pf) (map hh_balance df) of
                   Inl e \<Rightarrow> Inl e
                 | Inr bs \<Rightarrow>
                     Inr (map (\<lambda>(r, t, b). \<lparr>h_timestamp = t,
                                             h_owner_address = strip (py_str pf (hh_owner_address r)),
                                             h_balance = b\<rparr>)
                            (zip df (zip ts bs))))))"

record price_dict =
  pd_timestamp :: pyval
  pd_average_price :: pyval
  pd_close_price :: pyval
  pd_volume :: pyval

record price_point =
  p_timestamp :: tstamp
  average_price :: pyfloat
  close_price :: pyfloat
  volume :: decimal

definition format_prices_df :: "platform \<Rightarrow> price_dict list \<Rightarrow> exn + price_point list" where
  "format_prices_df pf df =
     (if df = [] then Inl KeyError
      else (case series_apply (to_timestamp pf) (map pd_timestamp df) of
              Inl e \<Rightarrow> Inl e
            | Inr ts \<Rightarrow>
                (case series_apply (to_float pf) (map pd_average_price df) of
                   Inl e \<Rightarrow> Inl e
                 | Inr av \<Rightarrow>
                     (case series_apply (to_float pf) (map pd_close_price df) of
                        Inl e \<Rightarrow> Inl e
                      | Inr cl \<Rightarrow>
                          (case series_apply (to_decimal pf) (map pd_volume df) of
                             Inl e \<Rightarrow> Inl e
                           | Inr vs \<Rightarrow>
                               Inr (map (\<lambda>(t, a, c, v). \<lparr>p_timestamp = t,
                                                          average_price = a,
                                                          close_price = c,
                                                          volume = v\<rparr>)
                                      (zip (tz_localize_None ts) (zip av (zip cl vs)))))))))"

record transfer_dict =
  tr_timestamp :: pyval
  tr_from_address :: pyval
  tr_to_address :: pyval
  tr_quantity :: pyval
  tr_transaction_hash :: pyval

record transfer =
  timestamp :: tstamp
  from_address :: string
  to_address :: string
  quantity :: decimal
  transaction_hash :: string

definition format_transfers_df :: "platform \<Rightarrow> transfer_dict list \<Rightarrow> exn + transfer list" where
  "format_transfers_df pf df =
     (if df = [] then Inl KeyError
      else (case series_apply (to_timestamp pf) (map tr_timestamp df) of
              Inl e \<Rightarrow> Inl e
            | Inr ts \<Rightarrow>
                (case series_apply (to_decimal pf) (map tr_quantity df) of
                   Inl e \<Rightarrow> Inl e
                 | Inr qs \<Rightarrow>
                     Inr (map (\<lambda>(r, t, q). \<lparr>timestamp = t,
                                             from_address = strip (py_str pf (tr_from_address r)),
                                             to_address = strip (py_str pf (tr_to_address r)),
                                             quantity = q,
                                             transaction_hash =
                                               strip (py_str pf (tr_transaction_hash r))\<rparr>)
                            (zip df (zip (tz_localize_None ts) qs))))))"

section \<open>The explorer client (\<open>phantasma.py\<close>)\<close>

subsection \<open>Transport\<close>

text \<open>
  The JSON bodies of the explorer, in the one shape per endpoint that the program reads:
  an object with the list \<open>addresses\<close>, \<open>tokens\<close>, \<open>events\<close> or \<open>history_prices\<close>. Reading
  another key of a body raises \<open>KeyError\<close>. The scalar fields the program converts are
  kept as raw JSON scalars.
\<close>

record balance_json =
  amount :: pyval
  bal_token_symbol :: string

record address_json =
  address :: string
  address_name :: string
  balances :: "balance_json list"

record token_json =
  create_event :: "pyval option"
  tk_decimals :: pyval
  tk_symbol :: pyval
  tk_name :: pyval
  current_supply :: pyval

record event_json =
  ev_address :: string
  ev_date :: pyval
  ev_value :: pyval
  ev_transaction_hash :: string

record price_json =
  pr_date :: pyval
  pr_usd :: pyval
  pr_volume :: "pyval option"

datatype response =
    Addresses "address_json list"
  | Tokens "token_json list"
  | Events "event_json list"
  | HistoryPrices "price_json list"

text \<open>
  \<open>requests.get(url, params)\<close> acts on the world outside the program: it takes the state
  of the world and returns the new one with its result, an exception or a response with
  its status code and what \<open>response.json()\<close> gives.
\<close>

record http_response =
  status_code :: int
  json :: "exn + response"

type_synonym params = "(string \<times> pyval) list"

type_synonym 'w transport = "'w \<Rightarrow> string \<Rightarrow> params \<Rightarrow> (exn + http_response) \<times> 'w"

definition base_url :: string where
  "base_url = ''https://api-explorer.phantasma.info/api/v1''"

definition make_request :: "'w transport \<Rightarrow> 'w \<Rightarrow> string \<Rightarrow> params \<Rightarrow> (exn + response) \<times> 'w" where
  "make_request get w endpoint ps =
     (case get w (base_url @ ''/'' @ endpoint) ps of
        (Inl e, w') \<Rightarrow> (Inl e, w')
      | (Inr resp, w') \<Rightarrow>
          if status_code resp \<noteq> 200 then (Inl ValueError, w') else (json resp, w'))"

definition get_symbol_by_token_address ::
  "'w transport \<Rightarrow> 'w \<Rightarrow> string \<Rightarrow> (exn + string) \<times> 'w" where
  "get_symbol_by_token_address get w token_address =
     (case make_request get w ''addresses'' [(''address'', PStr token_address)] of
        (Inl e, w') \<Rightarrow> (Inl e, w')
      | (Inr results, w') \<Rightarrow>
          (case results of
             Addresses result \<Rightarrow>
               (case result of
                  [] \<Rightarrow> (Inl ValueError, w')
                | a # _ \<Rightarrow> (Inr (address_name a), w'))
           | _ \<Rightarrow> (Inl KeyError, w')))"

text \<open>
  \<open>except Exception as e: ...; return None\<close>: the exception is logged and the operation
  returns \<open>None\<close>.
\<close>

definition except_return_None :: "exn + 'a \<Rightarrow> 'a option" where
  "except_return_None r = (case r of Inl e \<Rightarrow> None | Inr x \<Rightarrow> Some x)"

definition page_limit :: nat where
  "page_limit = 20000"

subsection \<open>\<open>fetch_token_info\<close>\<close>

definition fetch_token_info_try ::
  "platform \<Rightarrow> 'w transport \<Rightarrow> string \<Rightarrow> 'w \<Rightarrow> (exn + token_info) \<times> 'w" where
  "fetch_token_info_try pf get token_address w =
     (case get_symbol_by_token_address get w token_address of
        (Inl e, w1) \<Rightarrow> (Inl e, w1)
      | (Inr token_symbol, w1) \<Rightarrow>
          (case make_request get w1 ''tokens''
                  [(''symbol'', PStr token_symbol), (''create_event'', PInt 1)] of
             (Inl e, w2) \<Rightarrow> (Inl e, w2)
           | (Inr results, w2) \<Rightarrow>
               (case results of
                  Tokens [] \<Rightarrow> (Inl IndexError, w2)
                | Tokens (result # _) \<Rightarrow>
                    (case (case create_event result of
                             None \<Rightarrow> Inr 0
                           | Some creation_date \<Rightarrow> py_int creation_date) of
                       Inl e \<Rightarrow> (Inl e, w2)
                     | Inr created_ts \<Rightarrow>
                         (format_token_info pf
                            \<lparr>td_created_timestamp = PInt created_ts,
                             td_decimals = tk_decimals result,
                             td_symbol = PStr (py_str pf (tk_symbol result)),
                             td_name = PStr (py_str pf (tk_name result)),
                             td_supply = current_supply result,
                             td_creators = None,
                             td_involved = None,
                             td_early_transfers = None\<rparr>, w2))
                | _ \<Rightarrow> (Inl KeyError, w2))))"

definition fetch_token_info ::
  "platform \<Rightarrow> 'w transport \<Rightarrow> string \<Rightarrow> 'w \<Rightarrow> token_info option \<times> 'w" where
  "fetch_token_info pf get token_address w =
     (case fetch_token_info_try pf get token_address w of
        (r, w') \<Rightarrow> (except_return_None r, w'))"

subsection \<open>\<open>fetch_holders\<close>\<close>

definition holders_params :: "nat \<Rightarrow> string \<Rightarrow> params" where
  "holders_params offset token_symbol =
     [(''offset'', PInt (int offset)), (''limit'', PInt (int page_limit)),
      (''contract'', PStr token_symbol), (''with_balance'', PInt 1)]"

text \<open>
  The balance of a holder: the amount of the first entry of its balances whose token has
  the symbol, \<open>'0'\<close> when there is none.
\<close>

definition holder_balance :: "string \<Rightarrow> address_json \<Rightarrow> pyval" where
  "holder_balance token_symbol holder =
     (case find (\<lambda>b. bal_token_symbol b = token_symbol) (balances holder) of
        None \<Rightarrow> PStr ''0''
      | Some b \<Rightarrow> amount b)"

text \<open>The \<open>for\<close> loop over the holders of one page, appending to \<open>all_holders\<close>.\<close>

fun holders_page ::
  "string \<Rightarrow> decimal \<Rightarrow> address_json list \<Rightarrow> holder_dict list \<Rightarrow> exn + holder_dict list" where
  "holders_page token_symbol min_balance [] all_holders = Inr all_holders"
| "holders_page token_symbol min_balance (holder # rest) all_holders =
     (let balance = holder_balance token_symbol holder
      in case Decimal balance of
           Inl e \<Rightarrow> Inl e
         | Inr d \<Rightarrow>
             (case dec_ge d min_balance of
                Inl e \<Rightarrow> Inl e
              | Inr keep \<Rightarrow>
                  holders_page token_symbol min_balance rest
                    (if keep
                     then all_holders @ [\<lparr>hd_owner_address = PStr (address holder),
                                           hd_balance = balance\<rparr>]
                     else all_holders)))"

text \<open>
  The \<open>while True\<close> loop. It need not end: \<open>None\<close> stands for a run that never returns.
\<close>

partial_function (option) holders_loop ::
  "'w transport \<Rightarrow> string \<Rightarrow> decimal \<Rightarrow> nat \<Rightarrow> holder_dict list \<Rightarrow> 'w
     \<Rightarrow> ((exn + holder_dict list) \<times> 'w) option" where
  "holders_loop get token_symbol min_balance offset all_holders w =
     (case make_request get w ''addresses'' (holders_params offset token_symbol) of
        (Inl e, w') \<Rightarrow> Some (Inl e, w')
      | (Inr result, w') \<Rightarrow>
          (case result of
             Addresses addresses \<Rightarrow>
               if addresses = [] then Some (Inr all_holders, w')
               else (case holders_page token_symbol min_balance addresses all_holders of
                       Inl e \<Rightarrow> Some (Inl e, w')
                     | Inr all_holders' \<Rightarrow>
                         if length addresses < page_limit then Some (Inr all_holders', w')
                         else holders_loop get token_symbol min_balance (offset + page_limit)
                                all_holders' w')
           | _ \<Rightarrow> Some (Inl KeyError, w')))"

definition fetch_holders_try ::
  "platform \<Rightarrow> 'w transport \<Rightarrow> string \<Rightarrow> decimal \<Rightarrow> 'w
     \<Rightarrow> ((exn + holder list) \<times> 'w) option" where
  "fetch_holders_try pf get token_address min_balance w =
     (case get_symbol_by_token_address get w token_address of
        (Inl e, w1) \<Rightarrow> Some (Inl e, w1)
      | (Inr token_symbol, w1) \<Rightarrow>
          (case holders_loop get token_symbol min_balance 0 [] w1 of
             None \<Rightarrow> None
           | Some (Inl e, w2) \<Rightarrow> Some (Inl e, w2)
           | Some (Inr all_holders, w2) \<Rightarrow> Some (format_holders_df pf all_holders, w2)))"

definition fetch_holders ::
  "platform \<Rightarrow> 'w transport \<Rightarrow> string \<Rightarrow> decimal \<Rightarrow> 'w \<Rightarrow> (holder list option \<times> 'w) option" where
  "fetch_holders pf get token_address min_balance w =
     (case fetch_holders_try pf get token_address min_balance w of
        None \<Rightarrow> None
      | Some (r, w') \<Rightarrow> Some (except_return_None r, w'))"

subsection \<open>\<open>fetch_transfers\<close> and \<open>fetch_early_transfers\<close>\<close>

text \<open>\<open>int(d.timestamp()) if d else None\<close>, a date bound of the request.\<close>

definition date_param :: "platform \<Rightarrow> datetime option \<Rightarrow> exn + pyval" where
  "date_param pf d =
     (case d of
        None \<Rightarrow> Inr PNone
      | Some dt \<Rightarrow>
          (case timestamp_of pf dt of
             Inl e \<Rightarrow> Inl e
           | Inr q \<Rightarrow> Inr (PInt (trunc q))))"

definition events_params :: "string \<Rightarrow> pyval \<Rightarrow> pyval \<Rightarrow> nat \<Rightarrow> string \<Rightarrow> params" where
  "events_params event_kind date_greater date_less offset token_symbol =
     [(''event_kind'', PStr event_kind),
      (''date_greater'', date_greater), (''date_less'', date_less),
      (''offset'', PInt (int offset)), (''limit'', PInt (int page_limit)),
      (''contract'', PStr token_symbol), (''with_event_data'', PInt 1)]"

text \<open>The dictionary appended for a pair of events; \<open>int(event_send['date'])\<close> may raise.\<close>

definition transfer_of :: "event_json \<Rightarrow> event_json \<Rightarrow> exn + transfer_dict" where
  "transfer_of event_send event_receive =
     (case py_int (ev_date event_send) of
        Inl e \<Rightarrow> Inl e
      | Inr ts \<Rightarrow>
          Inr \<lparr>tr_timestamp = PInt ts,
               tr_from_address = PStr (ev_address event_send),
               tr_to_address = PStr (ev_address event_receive),
               tr_quantity = ev_value event_send,
               tr_transaction_hash = PStr (ev_transaction_hash event_send)\<rparr>)"

text \<open>
  The address filter of \<open>fetch_transfers\<close>: \<open>True\<close> when it skips the pair. \<open>None\<close> and the
  empty set are both false in \<open>if addresses:\<close>.
\<close>

definition address_filter_skips ::
  "string set option \<Rightarrow> bool \<Rightarrow> event_json \<Rightarrow> event_json \<Rightarrow> bool" where
  "address_filter_skips addresses from_address_only event_send event_receive =
     (case addresses of
        None \<Rightarrow> False
      | Some A \<Rightarrow>
          if A = {} then False
          else if from_address_only then ev_address event_send \<notin> A
          else \<not> (ev_address event_send \<in> A \<or> ev_address event_receive \<in> A))"

text \<open>
  The \<open>for index, event_send in enumerate(...)\<close> loop of \<open>fetch_transfers\<close> over one page.
  Reading the receive list at an index it does not have raises \<open>IndexError\<close>.
\<close>

fun transfers_page ::
  "string set option \<Rightarrow> bool \<Rightarrow> decimal \<Rightarrow> nat \<Rightarrow> event_json list \<Rightarrow> event_json list
     \<Rightarrow> transfer_dict list \<Rightarrow> exn + transfer_dict list" where
  "transfers_page addresses from_address_only min_value index [] receives all_transfers =
     Inr all_transfers"
| "transfers_page addresses from_address_only min_value index (event_send # rest) receives
     all_transfers =
     (if index < length receives then
        (let event_receive = receives ! index
         in case Decimal (ev_value event_send) of
              Inl e \<Rightarrow> Inl e
            | Inr v \<Rightarrow>
                (case dec_less v min_value of
                   Inl e \<Rightarrow> Inl e
                 | Inr below \<Rightarrow>
                     if below then
                       transfers_page addresses from_address_only min_value (index + 1) rest
                         receives all_transfers
                     else if address_filter_skips addresses from_address_only event_send
                               event_receive then
                       transfers_page addresses from_address_only min_value (index + 1) rest
                         receives all_transfers
                     else
                       (case transfer_of event_send event_receive of
                          Inl e \<Rightarrow> Inl e
                        | Inr t \<Rightarrow>
                            transfers_page addresses from_address_only min_value (index + 1)
                              rest receives (all_transfers @ [t]))))
      else Inl IndexError)"

text \<open>
  \<open>Decimal(0.005)\<close>: the literal \<open>0.005\<close> is a binary64 float, and \<open>Decimal\<close> of a float is
  its exact value, \<open>5764607523034235 / 2 ^ 60\<close>.
\<close>

definition float_0_005 :: pyfloat where
  "float_0_005 = FFin (5764607523034235 / 2 ^ 60)"

text \<open>
  The same loop in \<open>fetch_early_transfers\<close>. The value is converted only when the symbol is
  \<open>KCAL\<close>, as \<open>and\<close> evaluates its right operand only then.
\<close>

fun early_transfers_page ::
  "string \<Rightarrow> nat \<Rightarrow> event_json list \<Rightarrow> event_json list
     \<Rightarrow> transfer_dict list \<Rightarrow> exn + transfer_dict list" where
  "early_transfers_page token_symbol index [] receives all_transfers = Inr all_transfers"
| "early_transfers_page token_symbol index (event_send # rest) receives all_transfers =
     (if index < length receives then
        (let event_receive = receives ! index
         in case (if token_symbol = ''KCAL''
                  then (case Decimal (ev_value event_send) of
                          Inl e \<Rightarrow> Inl e
                        | Inr v \<Rightarrow>
                            (case Decimal (PFloat float_0_005) of
                               Inl e \<Rightarrow> Inl e
                             | Inr threshold \<Rightarrow> dec_less v threshold))
                  else Inr False) of
              Inl e \<Rightarrow> Inl e
            | Inr skip \<Rightarrow>
                if skip then
                  early_transfers_page token_symbol (index + 1) rest receives all_transfers
                else
                  (case transfer_of event_send event_receive of
                     Inl e \<Rightarrow> Inl e
                   | Inr t \<Rightarrow>
                       early_transfers_page token_symbol (index + 1) rest receives
                         (all_transfers @ [t])))
      else Inl IndexError)"

text \<open>
  The \<open>while True\<close> loop of both operations, which differ in the loop over a page only:
  \<open>page\<close> is that loop. In \<open>not a or not b\<close> the receive list is read only when the send
  list is not empty.
\<close>

partial_function (option) events_loop ::
  "'w transport
     \<Rightarrow> (event_json list \<Rightarrow> event_json list \<Rightarrow> transfer_dict list \<Rightarrow> exn + transfer_dict list)
     \<Rightarrow> pyval \<Rightarrow> pyval \<Rightarrow> string \<Rightarrow> nat \<Rightarrow> transfer_dict list \<Rightarrow> 'w
     \<Rightarrow> ((exn + transfer_dict list) \<times> 'w) option" where
  "events_loop get page date_greater date_less token_symbol offset all_transfers w =
     (case make_request get w ''events''
             (events_params ''TokenSend'' date_greater date_less offset token_symbol) of
        (Inl e, w1) \<Rightarrow> Some (Inl e, w1)
      | (Inr result_send, w1) \<Rightarrow>
          (case make_request get w1 ''events''
                  (events_params ''TokenReceive'' date_greater date_less offset token_symbol) of
             (Inl e, w2) \<Rightarrow> Some (Inl e, w2)
           | (Inr result_receive, w2) \<Rightarrow>
               (case result_send of
                  Events sends \<Rightarrow>
                    if sends = [] then Some (Inr all_transfers, w2)
                    else
                      (case result_receive of
                         Events receives \<Rightarrow>
                           if receives = [] then Some (Inr all_transfers, w2)
                           else
                             (case page sends receives all_transfers of
                                Inl e \<Rightarrow> Some (Inl e, w2)
                              | Inr all_transfers' \<Rightarrow>
                                  if length sends < page_limit
                                  then Some (Inr all_transfers', w2)
                                  else events_loop get page date_greater date_less token_symbol
                                         (offset + page_limit) all_transfers' w2)
                       | _ \<Rightarrow> Some (Inl KeyError, w2))
                | _ \<Rightarrow> Some (Inl KeyError, w2))))"

text \<open>
  What both operations do inside their \<open>try\<close>: resolve the symbol, build the date bounds,
  run the loop from offset \<open>0\<close> with the empty list, and format the rows.
\<close>

definition fetch_events_try ::
  "platform \<Rightarrow> 'w transport
     \<Rightarrow> (string \<Rightarrow> event_json list \<Rightarrow> event_json list \<Rightarrow> transfer_dict list
           \<Rightarrow> exn + transfer_dict list)
     \<Rightarrow> string \<Rightarrow> datetime option \<Rightarrow> datetime option \<Rightarrow> 'w
     \<Rightarrow> ((exn + transfer list) \<times> 'w) option" where
  "fetch_events_try pf get page token_address start_date end_date w =
     (case get_symbol_by_token_address get w token_address of
        (Inl e, w1) \<Rightarrow> Some (Inl e, w1)
      | (Inr token_symbol, w1) \<Rightarrow>
          (case date_param pf start_date of
             Inl e \<Rightarrow> Some (Inl e, w1)
           | Inr date_greater \<Rightarrow>
               (case date_param pf end_date of
                  Inl e \<Rightarrow> Some (Inl e, w1)
                | Inr date_less \<Rightarrow>
                    (case events_loop get (page token_symbol) date_greater date_less
                            token_symbol 0 [] w1 of
                       None \<Rightarrow> None
                     | Some (Inl e, w2) \<Rightarrow> Some (Inl e, w2)
                     | Some (Inr all_transfers, w2) \<Rightarrow>
                         Some (format_transfers_df pf all_transfers, w2)))))"

definition fetch_transfers ::
  "platform \<Rightarrow> 'w transport \<Rightarrow> string \<Rightarrow> string set option \<Rightarrow> datetime option
     \<Rightarrow> datetime option \<Rightarrow> bool \<Rightarrow> decimal \<Rightarrow> 'w \<Rightarrow> (transfer list option \<times> 'w) option" where
  "fetch_transfers pf get token_address addresses start_date end_date from_address_only
     min_value w =
     (case fetch_events_try pf get
             (\<lambda>token_symbol. transfers_page addresses from_address_only min_value 0)
             token_address start_date end_date w of
        None \<Rightarrow> None
      | Some (r, w') \<Rightarrow> Some (except_return_None r, w'))"

definition fetch_early_transfers ::
  "platform \<Rightarrow> 'w transport \<Rightarrow> string \<Rightarrow> datetime option \<Rightarrow> datetime option \<Rightarrow> 'w
     \<Rightarrow> (transfer list option \<times> 'w) option" where
  "fetch_early_transfers pf get token_address start_date end_date w =
     (case fetch_events_try pf get (\<lambda>token_symbol. early_transfers_page token_symbol 0)
             token_address start_date end_date w of
        None \<Rightarrow> None
      | Some (r, w') \<Rightarrow> Some (except_return_None r, w'))"

subsection \<open>\<open>fetch_prices\<close>\<close>

fun prices_rows :: "price_json list \<Rightarrow> price_dict list \<Rightarrow> exn + price_dict list" where
  "prices_rows [] prices = Inr prices"
| "prices_rows (price_point # rest) prices =
     (case py_int (pr_date price_point) of
        Inl e \<Rightarrow> Inl e
      | Inr ts \<Rightarrow>
          prices_rows rest
            (prices @ [\<lparr>pd_timestamp = PInt ts,
                        pd_average_price = pr_usd price_point,
                        pd_close_price = pr_usd price_point,
                        pd_volume = (case pr_volume price_point of
                                       None \<Rightarrow> PStr ''0''
                                     | Some v \<Rightarrow> v)\<rparr>]))"

definition fetch_prices_try ::
  "platform \<Rightarrow> 'w transport \<Rightarrow> string \<Rightarrow> 'w \<Rightarrow> (exn + price_point list) \<times> 'w" where
  "fetch_prices_try pf get token_address w =
     (case get_symbol_by_token_address get w token_address of
        (Inl e, w1) \<Rightarrow> (Inl e, w1)
      | (Inr token_symbol, w1) \<Rightarrow>
          (case make_request get w1 ''historyPrices'' [(''symbol'', PStr token_symbol)] of
             (Inl e, w2) \<Rightarrow> (Inl e, w2)
           | (Inr result, w2) \<Rightarrow>
               (case result of
                  HistoryPrices history_prices \<Rightarrow>
                    (case prices_rows history_prices [] of
                       Inl e \<Rightarrow> (Inl e, w2)
                     | Inr prices \<Rightarrow> (format_prices_df pf prices, w2))
                | _ \<Rightarrow> (Inl KeyError, w2))))"

definition fetch_prices ::
  "platform \<Rightarrow> 'w transport \<Rightarrow> string \<Rightarrow> 'w \<Rightarrow> price_point list option \<times> 'w" where
  "fetch_prices pf get token_address w =
     (case fetch_prices_try pf get token_address w of
        (r, w') \<Rightarrow> (except_return_None r, w'))"

section \<open>Observers and concrete inputs\<close>

text \<open>The zone of a timestamp; \<open>NaT\<close> has none.\<close>

fun tz_of :: "tstamp \<Rightarrow> int option" where
  "tz_of NaT = None"
| "tz_of (Stamp d) = tzinfo d"

text \<open>
  A transport that counts the requests made through it: the world is paired with the
  number of calls of \<open>get\<close> so far.
\<close>

definition counting :: "'w transport \<Rightarrow> ('w \<times> nat) transport" where
  "counting get = (\<lambda>(w, n) url ps. case get w url ps of (r, w') \<Rightarrow> (r, (w', Suc n)))"

text \<open>
  A platform on UTC whose date parser reads every text as one fixed instant in the zone
  one hour east of UTC, for evaluating the model at concrete inputs.
\<close>

definition utc_platform :: platform where
  "utc_platform =
     \<lparr>rnd = FFin,
      float_str = (\<lambda>q. ''0.5''),
      datetime_str = (\<lambda>d. ''2024-01-01 00:00:00''),
      localtime = (\<lambda>q. Inr (trunc (q * 1000000))),
      timestamp_of = (\<lambda>d. Inr (of_int (wall d) / 1000000)),
      to_datetime = (\<lambda>s. Inr (Stamp \<lparr>wall = 1704067200000000, tzinfo = Some 3600\<rparr>))\<rparr>"

text \<open>
  An explorer that answers every request with status 200: the token address resolves to
  \<open>symb\<close>; the first page (offset \<open>0\<close>) of holders is \<open>holders\<close>, of send events \<open>sends\<close> and
  of receive events \<open>receives\<close>, and every later page is empty; \<open>tokens\<close> and
  \<open>historyPrices\<close> hold \<open>toks\<close> and \<open>points\<close>. The world is not changed.
\<close>

definition ok_response :: "response \<Rightarrow> exn + http_response" where
  "ok_response body = Inr \<lparr>status_code = 200, json = Inr body\<rparr>"

definition explorer ::
  "string \<Rightarrow> address_json list \<Rightarrow> event_json list \<Rightarrow> event_json list \<Rightarrow> token_json list
     \<Rightarrow> price_json list \<Rightarrow> nat transport" where
  "explorer symb holders sends receives toks points w url ps =
     (if url = base_url @ ''/addresses'' then
        (case map_of ps ''address'' of
           Some a \<Rightarrow>
             (ok_response (Addresses [\<lparr>address = ''P2K'', address_name = symb, balances = []\<rparr>]), w)
         | None \<Rightarrow>
             if map_of ps ''offset'' = Some (PInt 0)
             then (ok_response (Addresses holders), w)
             else (ok_response (Addresses []), w))
      else if url = base_url @ ''/events'' then
        (if map_of ps ''offset'' = Some (PInt 0) then
           (if map_of ps ''event_kind'' = Some (PStr ''TokenSend'')
            then (ok_response (Events sends), w)
            else (ok_response (Events receives), w))
         else (ok_response (Events []), w))
      else if url = base_url @ ''/tokens'' then (ok_response (Tokens toks), w)
      else (ok_response (HistoryPrices points), w))"

text \<open>A transport on which every request fails.\<close>

definition unreachable :: "nat transport" where
  "unreachable w url ps = (Inl RequestException, w)"

text \<open>The pair of events of the specification's example.\<close>

definition send_A :: event_json where
  "send_A = \<lparr>ev_address = ''A'', ev_date = PInt 100, ev_value = PStr ''5'',
             ev_transaction_hash = ''h1''\<rparr>"

definition receive_B :: event_json where
  "receive_B = \<lparr>ev_address = ''B'', ev_date = PInt 100, ev_value = PStr ''5'',
                ev_transaction_hash = ''h1''\<rparr>"

definition transfer_A_B :: transfer where
  "transfer_A_B =
     \<lparr>timestamp = Stamp \<lparr>wall = 100000000, tzinfo = None\<rparr>,
      from_address = ''A'', to_address = ''B'', quantity = DFin 5,
      transaction_hash = ''h1''\<rparr>"

text \<open>A price point without a volume, and its row in the table.\<close>

definition point_half :: price_json where
  "point_half = \<lparr>pr_date = PInt 100, pr_usd = PFloat (FFin (1 / 2)), pr_volume = None\<rparr>"

definition price_half :: price_point where
  "price_half =
     \<lparr>p_timestamp = Stamp \<lparr>wall = 100000000, tzinfo = None\<rparr>,
      average_price = FFin (1 / 2), close_price = FFin (1 / 2), volume = DFin 0\<rparr>"

text \<open>A datetime two hours east of UTC.\<close>

definition aware_datetime :: datetime where
  "aware_datetime = \<lparr>wall = 1700000000000000, tzinfo = Some 7200\<rparr>"

text \<open>
  Two holders: one with a balance of \<open>5\<close> of \<open>SOUL\<close> listed after a balance of another
  token, one with no balance of \<open>SOUL\<close>.
\<close>

definition holder_5 :: address_json where
  "holder_5 =
     \<lparr>address = ''P2KA'', address_name = ''anonymous'',
      balances = [\<lparr>amount = PStr ''7'', bal_token_symbol = ''KCAL''\<rparr>,
                  \<lparr>amount = PStr ''5'', bal_token_symbol = ''SOUL''\<rparr>]\<rparr>"

definition holder_none :: address_json where
  "holder_none =
     \<lparr>address = ''P2KB'', address_name = ''anonymous'',
      balances = [\<lparr>amount = PStr ''7'', bal_token_symbol = ''KCAL''\<rparr>]\<rparr>"

text \<open>The dictionary \<open>fetch_transfers\<close> appends for the pair of the example.\<close>

definition dict_A_B :: transfer_dict where
  "dict_A_B =
     \<lparr>tr_timestamp = PInt 100, tr_from_address = PStr ''A'', tr_to_address = PStr ''B'',
      tr_quantity = PStr ''5'', tr_transaction_hash = PStr ''h1''\<rparr>"

text \<open>
  The state of the page loop of \<open>fetch_transfers\<close> and \<open>fetch_early_transfers\<close> (offset,
  accumulated records, world) after \<open>n\<close> more full pages, each processed without an
  exception: the state in which the loop makes the requests of the next page. \<open>None\<close> when
  the loop does not get that far.
\<close>

fun events_after_pages ::
  "'w transport
     \<Rightarrow> (event_json list \<Rightarrow> event_json list \<Rightarrow> transfer_dict list \<Rightarrow> exn + transfer_dict list)
     \<Rightarrow> pyval \<Rightarrow> pyval \<Rightarrow> string \<Rightarrow> nat \<Rightarrow> nat \<times> transfer_dict list \<times> 'w
     \<Rightarrow> (nat \<times> transfer_dict list \<times> 'w) option" where
  "events_after_pages get page date_greater date_less token_symbol 0 state = Some state"
| "events_after_pages get page date_greater date_less token_symbol (Suc n)
     (offset, all_transfers, w) =
     (case make_request get w ''events''
             (events_params ''TokenSend'' date_greater date_less offset token_symbol) of
        (Inr (Events sends), w1) \<Rightarrow>
          (case make_request get w1 ''events''
                  (events_params ''TokenReceive'' date_greater date_less offset token_symbol) of
             (Inr (Events receives), w2) \<Rightarrow>
               if sends = [] \<or> receives = [] \<or> length sends < page_limit then None
               else (case page sends receives all_transfers of
                       Inr all_transfers' \<Rightarrow>
                         events_after_pages get page date_greater date_less token_symbol n
                           (offset + page_limit, all_transfers', w2)
                     | Inl e \<Rightarrow> None)
           | _ \<Rightarrow> None)
      | _ \<Rightarrow> None)"

text \<open>A send event of value \<open>0.005\<close>, and one whose value is not a number.\<close>

definition send_0_005 :: event_json where
  "send_0_005 = \<lparr>ev_address = ''A'', ev_date = PInt 100, ev_value = PStr ''0.005'',
                 ev_transaction_hash = ''h2''\<rparr>"

definition send_malformed :: event_json where
  "send_malformed = \<lparr>ev_address = ''A'', ev_date = PInt 100, ev_value = PStr ''abc'',
                     ev_transaction_hash = ''h3''\<rparr>"

text \<open>An explorer that knows no token: every body is an empty list of addresses.\<close>

definition unknown_token :: "nat transport" where
  "unknown_token w url ps = (ok_response (Addresses []), w)"

text \<open>
  Whether a pair passes both filters of \<open>fetch_transfers\<close>: its send value converts to a
  decimal that compares with \<open>min_value\<close> and is not below it, and the address filter does
  not skip it.
\<close>

definition passes_filters ::
  "string set option \<Rightarrow> bool \<Rightarrow> decimal \<Rightarrow> event_json \<Rightarrow> event_json \<Rightarrow> bool" where
  "passes_filters addresses from_address_only min_value event_send event_receive \<longleftrightarrow>
     (case Decimal (ev_value event_send) of
        Inl e \<Rightarrow> False
      | Inr v \<Rightarrow> dec_less v min_value = Inr False)
     \<and> \<not> address_filter_skips addresses from_address_only event_send event_receive"

text \<open>
  A second pair of events, with a date given as text, a send event whose date is not a
  number, and the rows of the two pairs.
\<close>

definition send_C :: event_json where
  "send_C = \<lparr>ev_address = ''C'', ev_date = PStr ''200'', ev_value = PStr ''50'',
             ev_transaction_hash = ''h4''\<rparr>"

definition receive_D :: event_json where
  "receive_D = \<lparr>ev_address = ''D'', ev_date = PStr ''200'', ev_value = PStr ''50'',
                ev_transaction_hash = ''h4''\<rparr>"

definition send_bad_date :: event_json where
  "send_bad_date = \<lparr>ev_address = ''A'', ev_date = PStr ''abc'', ev_value = PStr ''5'',
                    ev_transaction_hash = ''h5''\<rparr>"

definition dict_C_D :: transfer_dict where
  "dict_C_D =
     \<lparr>tr_timestamp = PInt 200, tr_from_address = PStr ''C'', tr_to_address = PStr ''D'',
      tr_quantity = PStr ''50'', tr_transaction_hash = PStr ''h4''\<rparr>"

definition transfer_C_D :: transfer where
  "transfer_C_D =
     \<lparr>timestamp = Stamp \<lparr>wall = 200000000, tzinfo = None\<rparr>,
      from_address = ''C'', to_address = ''D'', quantity = DFin 50,
      transaction_hash = ''h4''\<rparr>"

text \<open>
  Whether \<open>fetch_holders\<close> keeps a holder: its balance converts to a decimal that compares
  with \<open>min_balance\<close> and is at least \<open>min_balance\<close>.
\<close>

definition keeps_holder :: "string \<Rightarrow> decimal \<Rightarrow> address_json \<Rightarrow> bool" where
  "keeps_holder token_symbol min_balance holder \<longleftrightarrow>
     (case Decimal (holder_balance token_symbol holder) of
        Inl e \<Rightarrow> False
      | Inr d \<Rightarrow> dec_ge d min_balance = Inr True)"

text \<open>
  The state of the page loop of \<open>fetch_holders\<close> (offset, accumulated records, world) after
  \<open>n\<close> more full pages, each processed without an exception. \<open>None\<close> when the loop does not
  get that far.
\<close>

fun holders_after_pages ::
  "'w transport \<Rightarrow> string \<Rightarrow> decimal \<Rightarrow> nat \<Rightarrow> nat \<times> holder_dict list \<times> 'w
     \<Rightarrow> (nat \<times> holder_dict list \<times> 'w) option" where
  "holders_after_pages get token_symbol min_balance 0 state = Some state"
| "holders_after_pages get token_symbol min_balance (Suc n) (offset, all_holders, w) =
     (case make_request get w ''addresses'' (holders_params offset token_symbol) of
        (Inr (Addresses addresses), w') \<Rightarrow>
          if length addresses < page_limit then None
          else (case holders_page token_symbol min_balance addresses all_holders of
                  Inr all_holders' \<Rightarrow>
                    holders_after_pages get token_symbol min_balance n
                      (offset + page_limit, all_holders', w')
                | Inl e \<Rightarrow> None)
      | _ \<Rightarrow> None)"

text \<open>
  A holder whose balance of \<open>SOUL\<close> is not a number, and the rows of the table for the two
  holders above.
\<close>

definition holder_malformed :: address_json where
  "holder_malformed =
     \<lparr>address = ''P2KC'', address_name = ''anonymous'',
      balances = [\<lparr>amount = PStr ''abc'', bal_token_symbol = ''SOUL''\<rparr>]\<rparr>"

definition holder_row_5 :: holder where
  "holder_row_5 = \<lparr>owner_address = ''P2KA'', balance = DFin 5\<rparr>"

definition holder_row_0 :: holder where
  "holder_row_0 = \<lparr>owner_address = ''P2KB'', balance = DFin 0\<rparr>"

section \<open>Properties\<close>

subsection \<open>Missing values in the scalar conversions\<close>

lemma float_of_str_nan: "float_of_str pf ''nan'' = Inr FNaN"
  by (simp add: float_of_str_def c_strip_def is_c_space_def lower_def lower_char_def
      is_digit_def digit_val_def)

lemma float_of_str_None: "float_of_str pf ''None'' = Inl ValueError"
  by (simp add: float_of_str_def c_strip_def is_c_space_def lower_def lower_char_def
      is_digit_def digit_val_def parse_decimal_literal_def)

lemma isna_cases: "isna v \<longleftrightarrow> v = PNone \<or> v = PFloat FNaN"
  by (cases v rule: isna.cases) simp_all

text \<open>
  Claim C10. On a missing value (\<open>None\<close> or the float NaN) \<open>to_int\<close> raises the conversion
  error, while \<open>to_decimal\<close> gives the decimal zero and \<open>to_float\<close> gives \<open>0.0\<close>. For the
  NaN the float parse of \<open>to_int\<close> succeeds (\<open>str\<close> gives \<open>nan\<close>, which \<open>float\<close> reads back)
  and it is the truncation to an integer that fails.
\<close>

theorem to_int_has_no_missing_default:
  "isna v \<Longrightarrow>
     to_int pf v = Inl ValueError
     \<and> to_decimal pf v = Inr (DFin 0)
     \<and> to_float pf v = Inr (FFin 0)
     \<and> float_of_str pf (py_str pf (PFloat FNaN)) = Inr FNaN
     \<and> py_int (PFloat FNaN) = Inl ValueError"
  by (auto simp: isna_cases to_int_def to_decimal_def to_float_def float_of_str_nan
      float_of_str_None)

theorem to_int_has_no_missing_default_witness:
  "isna (PFloat FNaN)
     \<and> to_int utc_platform (PFloat FNaN) = Inl ValueError
     \<and> to_decimal utc_platform (PFloat FNaN) = Inr (DFin 0)
     \<and> to_float utc_platform (PFloat FNaN) = Inr (FFin 0)"
  using to_int_has_no_missing_default [of "PFloat FNaN" utc_platform] by simp

subsection \<open>Evaluation at the concrete inputs\<close>

lemma Decimal_of_str_5: "Decimal_of_str ''5'' = Inr (DFin 5)"
  by (simp add: Decimal_of_str_def strip_def is_space_def lower_def lower_char_def
      parse_decimal_literal_def is_digit_def digit_val_def nat_of_digits_def scale10_def)

lemma Decimal_of_str_0: "Decimal_of_str ''0'' = Inr (DFin 0)"
  by (simp add: Decimal_of_str_def strip_def is_space_def lower_def lower_char_def
      parse_decimal_literal_def is_digit_def digit_val_def nat_of_digits_def scale10_def)

lemma Decimal_of_str_abc: "Decimal_of_str ''abc'' = Inl InvalidOperation"
  by (simp add: Decimal_of_str_def strip_def is_space_def lower_def lower_char_def
      parse_decimal_literal_def is_digit_def digit_val_def)

lemma to_decimal_5: "to_decimal pf (PStr ''5'') = Inr (DFin 5)"
  by (simp add: to_decimal_def Decimal_of_str_5)

lemma to_decimal_0: "to_decimal pf (PStr ''0'') = Inr (DFin 0)"
  by (simp add: to_decimal_def Decimal_of_str_0)

lemma make_request_explorer_resolve:
  "make_request (explorer symb hs ss rs toks pts) w ''addresses'' [(''address'', PStr a)]
     = (Inr (Addresses [\<lparr>address = ''P2K'', address_name = symb, balances = []\<rparr>]), w)"
  by (simp add: make_request_def explorer_def ok_response_def)

lemma get_symbol_explorer:
  "get_symbol_by_token_address (explorer symb hs ss rs toks pts) w a = (Inr symb, w)"
  by (simp add: get_symbol_by_token_address_def make_request_explorer_resolve)

lemma make_request_explorer_events:
  "make_request (explorer symb hs ss rs toks pts) w ''events'' (events_params k dg dl 0 symb')
     = (Inr (Events (if k = ''TokenSend'' then ss else rs)), w)"
  by (simp add: make_request_def explorer_def ok_response_def events_params_def)

lemma make_request_explorer_prices:
  "make_request (explorer symb hs ss rs toks pts) w ''historyPrices'' ps
     = (Inr (HistoryPrices pts), w)"
  by (simp add: make_request_def explorer_def ok_response_def)

lemma transfers_page_A_B:
  "transfers_page None False (DFin 0) 0 [send_A] [receive_B] [] =
     Inr [\<lparr>tr_timestamp = PInt 100, tr_from_address = PStr ''A'', tr_to_address = PStr ''B'',
           tr_quantity = PStr ''5'', tr_transaction_hash = PStr ''h1''\<rparr>]"
  by (simp add: send_A_def receive_B_def Decimal_of_str_5 address_filter_skips_def
      transfer_of_def Let_def)

lemma early_transfers_page_A_B:
  "early_transfers_page ''SOUL'' 0 [send_A] [receive_B] [] =
     Inr [\<lparr>tr_timestamp = PInt 100, tr_from_address = PStr ''A'', tr_to_address = PStr ''B'',
           tr_quantity = PStr ''5'', tr_transaction_hash = PStr ''h1''\<rparr>]"
  by (simp add: send_A_def receive_B_def transfer_of_def Let_def)

lemma format_transfers_df_A_B:
  "format_transfers_df utc_platform
     [\<lparr>tr_timestamp = PInt 100, tr_from_address = PStr ''A'', tr_to_address = PStr ''B'',
       tr_quantity = PStr ''5'', tr_transaction_hash = PStr ''h1''\<rparr>] = Inr [transfer_A_B]"
  by (simp add: format_transfers_df_def to_decimal_5 utc_platform_def trunc_def
      tz_localize_None_def strip_def is_space_def transfer_A_B_def)

lemma events_loop_A_B:
  "events_loop (explorer symb hs [send_A] [receive_B] toks pts)
     (transfers_page None False (DFin 0) 0) PNone PNone symb 0 [] w =
   Some (Inr [\<lparr>tr_timestamp = PInt 100, tr_from_address = PStr ''A'',
               tr_to_address = PStr ''B'', tr_quantity = PStr ''5'',
               tr_transaction_hash = PStr ''h1''\<rparr>], w)"
  by (subst events_loop.simps)
     (simp add: make_request_explorer_events transfers_page_A_B page_limit_def
       del: transfers_page.simps)

lemma events_loop_early_A_B:
  "events_loop (explorer ''SOUL'' hs [send_A] [receive_B] toks pts)
     (early_transfers_page ''SOUL'' 0) PNone PNone ''SOUL'' 0 [] w =
   Some (Inr [\<lparr>tr_timestamp = PInt 100, tr_from_address = PStr ''A'',
               tr_to_address = PStr ''B'', tr_quantity = PStr ''5'',
               tr_transaction_hash = PStr ''h1''\<rparr>], w)"
  by (subst events_loop.simps)
     (simp add: make_request_explorer_events early_transfers_page_A_B page_limit_def
       del: early_transfers_page.simps)

lemma fetch_transfers_A_B:
  "fetch_transfers utc_platform (explorer symb hs [send_A] [receive_B] toks pts) a None None None
     False (DFin 0) w = Some (Some [transfer_A_B], w)"
  by (simp add: fetch_transfers_def fetch_events_try_def get_symbol_explorer date_param_def
      events_loop_A_B format_transfers_df_A_B except_return_None_def)

lemma fetch_early_transfers_A_B:
  "fetch_early_transfers utc_platform (explorer ''SOUL'' hs [send_A] [receive_B] toks pts) a
     None None w = Some (Some [transfer_A_B], w)"
  by (simp add: fetch_early_transfers_def fetch_events_try_def get_symbol_explorer
      date_param_def events_loop_early_A_B format_transfers_df_A_B except_return_None_def)

lemma format_prices_df_half:
  "format_prices_df utc_platform
     [\<lparr>pd_timestamp = PInt 100, pd_average_price = PFloat (FFin (1 / 2)),
       pd_close_price = PFloat (FFin (1 / 2)), pd_volume = PStr ''0''\<rparr>] = Inr [price_half]"
  by (simp add: format_prices_df_def to_decimal_0 to_float_def utc_platform_def trunc_def
      tz_localize_None_def price_half_def)

lemma fetch_prices_half:
  "fetch_prices utc_platform (explorer symb hs ss rs toks [point_half]) a w
     = (Some [price_half], w)"
  by (simp add: fetch_prices_def fetch_prices_try_def get_symbol_explorer
      make_request_explorer_prices point_half_def format_prices_df_half
      except_return_None_def)

lemma format_historical_holders_df_aware:
  "format_historical_holders_df utc_platform
     [\<lparr>hh_timestamp = PDatetime aware_datetime, hh_owner_address = PStr '' P2K '',
       hh_balance = PStr ''5''\<rparr>]
   = Inr [\<lparr>h_timestamp = Stamp \<lparr>wall = 1700000000000000, tzinfo = None\<rparr>,
           h_owner_address = ''P2K'', h_balance = DFin 5\<rparr>]"
  by (simp add: format_historical_holders_df_def to_decimal_5 aware_datetime_def
      strip_def is_space_def)

subsection \<open>Time zones\<close>

lemma tz_of_replace_tzinfo_None: "tz_of (replace_tzinfo_None ts) = None"
  by (cases ts) simp_all

lemma fromtimestamp_naive: "fromtimestamp pf f = Inr ts \<Longrightarrow> tz_of ts = None"
  by (cases f) (auto split: sum.splits)

lemma to_timestamp_naive: "to_timestamp pf v = Inr ts \<Longrightarrow> tz_of ts = None"
  by (cases v) (auto simp: tz_of_replace_tzinfo_None dest: fromtimestamp_naive split: sum.splits)

lemma series_apply_Inr:
  "series_apply f xs = Inr ys \<Longrightarrow> list_all2 (\<lambda>x y. f x = Inr y) xs ys"
  by (induction xs arbitrary: ys) (auto split: sum.splits)

lemma series_apply_length: "series_apply f xs = Inr ys \<Longrightarrow> length ys = length xs"
  by (drule series_apply_Inr) (simp add: list_all2_lengthD)

lemma series_to_timestamp_naive:
  assumes "series_apply (to_timestamp pf) xs = Inr ts"
  shows "\<forall>t\<in>set ts. tz_of t = None"
proof -
  have "list_all2 (\<lambda>x y. to_timestamp pf x = Inr y) xs ts"
    using assms by (rule series_apply_Inr)
  then show ?thesis
    by (induction rule: list_all2_induct) (auto dest: to_timestamp_naive)
qed

lemma tz_localize_None_naive: "\<forall>t\<in>set (tz_localize_None col). tz_of t = None"
  by (auto simp: tz_localize_None_def tz_of_replace_tzinfo_None)

lemma in_zip3_middle: "(r, t, q) \<in> set (zip xs (zip ts qs)) \<Longrightarrow> t \<in> set ts"
  by (blast dest: set_zip_rightD set_zip_leftD)

lemma format_transfers_df_naive:
  assumes "format_transfers_df pf df = Inr tt"
  shows "\<forall>r\<in>set tt. tz_of (timestamp r) = None"
proof -
  from assms obtain ts qs where
    tt: "tt = map (\<lambda>(r, t, q). \<lparr>timestamp = t,
                     from_address = strip (py_str pf (tr_from_address r)),
                     to_address = strip (py_str pf (tr_to_address r)),
                     quantity = q,
                     transaction_hash = strip (py_str pf (tr_transaction_hash r))\<rparr>)
                (zip df (zip (tz_localize_None ts) qs))"
    by (auto simp: format_transfers_df_def split: if_splits sum.splits)
  show ?thesis
    unfolding tt using tz_localize_None_naive [of ts]
    by (auto dest: in_zip3_middle)
qed

lemma format_prices_df_naive:
  assumes "format_prices_df pf df = Inr pt"
  shows "\<forall>r\<in>set pt. tz_of (p_timestamp r) = None"
proof -
  from assms obtain ts av cl vs where
    pt: "pt = map (\<lambda>(t, a, c, v). \<lparr>p_timestamp = t, average_price = a,
                                    close_price = c, volume = v\<rparr>)
                (zip (tz_localize_None ts) (zip av (zip cl vs)))"
    by (auto simp: format_prices_df_def split: if_splits sum.splits)
  show ?thesis
    unfolding pt using tz_localize_None_naive [of ts]
    by (auto dest!: set_zip_leftD)
qed

lemma format_historical_holders_df_naive:
  assumes "format_historical_holders_df pf df = Inr ht"
  shows "\<forall>r\<in>set ht. tz_of (h_timestamp r) = None"
proof -
  from assms obtain ts bs where
    ts: "series_apply (to_timestamp pf) (map hh_timestamp df) = Inr ts" and
    ht: "ht = map (\<lambda>(r, t, b). \<lparr>h_timestamp = t,
                     h_owner_address = strip (py_str pf (hh_owner_address r)),
                     h_balance = b\<rparr>)
                (zip df (zip ts bs))"
    by (auto simp: format_historical_holders_df_def split: if_splits sum.splits)
  show ?thesis
    unfolding ht using series_to_timestamp_naive [OF ts]
    by (auto dest: in_zip3_middle)
qed

lemma except_return_None_Some: "except_return_None r = Some x \<longleftrightarrow> r = Inr x"
  by (cases r) (simp_all add: except_return_None_def)

lemma fetch_events_try_Inr:
  "fetch_events_try pf get page a sd ed w = Some (Inr t, w') \<Longrightarrow>
     \<exists>rows. format_transfers_df pf rows = Inr t"
  by (auto simp: fetch_events_try_def split: prod.splits sum.splits option.splits)

lemma fetch_transfers_Some:
  "fetch_transfers pf get a A sd ed fo mv w = Some (Some t, w') \<Longrightarrow>
     \<exists>rows. format_transfers_df pf rows = Inr t"
  by (auto simp: fetch_transfers_def except_return_None_Some
      split: option.splits prod.splits dest: fetch_events_try_Inr)

lemma fetch_early_transfers_Some:
  "fetch_early_transfers pf get a sd ed w = Some (Some t, w') \<Longrightarrow>
     \<exists>rows. format_transfers_df pf rows = Inr t"
  by (auto simp: fetch_early_transfers_def except_return_None_Some
      split: option.splits prod.splits dest: fetch_events_try_Inr)

lemma fetch_prices_Some:
  "fetch_prices pf get a w = (Some t, w') \<Longrightarrow>
     \<exists>rows. format_prices_df pf rows = Inr t"
  by (auto simp: fetch_prices_def fetch_prices_try_def except_return_None_Some
      split: option.splits prod.splits sum.splits response.splits)

text \<open>
  Claim C6. Whatever \<open>to_timestamp\<close> returns carries no time zone, for every platform and
  every date parser; a datetime and a parsed text keep their wall-clock reading and lose
  only the zone (stripped, not converted). Every timestamp of a table that
  \<open>format_transfers_df\<close>, \<open>format_prices_df\<close> or \<open>format_historical_holders_df\<close> returns, and
  so of every table that \<open>fetch_transfers\<close>, \<open>fetch_early_transfers\<close> or \<open>fetch_prices\<close>
  returns, carries no time zone.
\<close>

theorem timestamps_are_timezone_naive:
  "(to_timestamp pf v = Inr ts \<longrightarrow> tz_of ts = None)
   \<and> to_timestamp pf (PDatetime d) = Inr (Stamp \<lparr>wall = wall d, tzinfo = None\<rparr>)
   \<and> (to_datetime pf s = Inr (Stamp d') \<longrightarrow>
        to_timestamp pf (PStr s) = Inr (Stamp \<lparr>wall = wall d', tzinfo = None\<rparr>))
   \<and> (format_transfers_df pf tdf = Inr tt \<longrightarrow> (\<forall>r\<in>set tt. tz_of (timestamp r) = None))
   \<and> (format_prices_df pf pdf = Inr pt \<longrightarrow> (\<forall>r\<in>set pt. tz_of (p_timestamp r) = None))
   \<and> (format_historical_holders_df pf hdf = Inr ht \<longrightarrow>
        (\<forall>r\<in>set ht. tz_of (h_timestamp r) = None))
   \<and> (fetch_transfers pf get a A sd ed fo mv w = Some (Some tt', w') \<longrightarrow>
        (\<forall>r\<in>set tt'. tz_of (timestamp r) = None))
   \<and> (fetch_early_transfers pf get a sd ed w = Some (Some tt'', w'') \<longrightarrow>
        (\<forall>r\<in>set tt''. tz_of (timestamp r) = None))
   \<and> (fetch_prices pf get a w = (Some pt', w''') \<longrightarrow>
        (\<forall>r\<in>set pt'. tz_of (p_timestamp r) = None))"
proof (intro conjI impI)
  show "to_timestamp pf (PDatetime d) = Inr (Stamp \<lparr>wall = wall d, tzinfo = None\<rparr>)"
    by simp
next
  assume "to_datetime pf s = Inr (Stamp d')"
  then show "to_timestamp pf (PStr s) = Inr (Stamp \<lparr>wall = wall d', tzinfo = None\<rparr>)"
    by simp
next
  assume "fetch_transfers pf get a A sd ed fo mv w = Some (Some tt', w')"
  then show "\<forall>r\<in>set tt'. tz_of (timestamp r) = None"
    by (blast dest: fetch_transfers_Some format_transfers_df_naive)
next
  assume "fetch_early_transfers pf get a sd ed w = Some (Some tt'', w'')"
  then show "\<forall>r\<in>set tt''. tz_of (timestamp r) = None"
    by (blast dest: fetch_early_transfers_Some format_transfers_df_naive)
next
  assume "fetch_prices pf get a w = (Some pt', w''')"
  then show "\<forall>r\<in>set pt'. tz_of (p_timestamp r) = None"
    by (blast dest: fetch_prices_Some format_prices_df_naive)
qed (auto dest: to_timestamp_naive format_transfers_df_naive format_prices_df_naive
      format_historical_holders_df_naive)

theorem timestamps_are_timezone_naive_witness:
  "to_timestamp utc_platform (PDatetime aware_datetime)
     = Inr (Stamp \<lparr>wall = 1700000000000000, tzinfo = None\<rparr>)
   \<and> tz_of (Stamp \<lparr>wall = 1700000000000000, tzinfo = None\<rparr>) = None
   \<and> to_datetime utc_platform ''2024-01-01T01:00:00+01:00''
       = Inr (Stamp \<lparr>wall = 1704067200000000, tzinfo = Some 3600\<rparr>)
   \<and> to_timestamp utc_platform (PStr ''2024-01-01T01:00:00+01:00'')
       = Inr (Stamp \<lparr>wall = 1704067200000000, tzinfo = None\<rparr>)
   \<and> format_historical_holders_df utc_platform
        [\<lparr>hh_timestamp = PDatetime aware_datetime, hh_owner_address = PStr '' P2K '',
          hh_balance = PStr ''5''\<rparr>]
       = Inr [\<lparr>h_timestamp = Stamp \<lparr>wall = 1700000000000000, tzinfo = None\<rparr>,
               h_owner_address = ''P2K'', h_balance = DFin 5\<rparr>]
   \<and> fetch_transfers utc_platform (explorer ''SOUL'' [] [send_A] [receive_B] [] [point_half])
        ''P2K'' None None None False (DFin 0) (0::nat) = Some (Some [transfer_A_B], (0::nat))
   \<and> fetch_early_transfers utc_platform
        (explorer ''SOUL'' [] [send_A] [receive_B] [] [point_half]) ''P2K'' None None (0::nat)
       = Some (Some [transfer_A_B], (0::nat))
   \<and> map (\<lambda>r. tz_of (timestamp r)) [transfer_A_B] = [None]
   \<and> fetch_prices utc_platform (explorer ''SOUL'' [] [send_A] [receive_B] [] [point_half])
        ''P2K'' (0::nat) = (Some [price_half], (0::nat))
   \<and> map (\<lambda>r. tz_of (p_timestamp r)) [price_half] = [None]"
proof -
  let ?get = "explorer ''SOUL'' [] [send_A] [receive_B] [] [point_half]"
  have parsed: "to_datetime utc_platform ''2024-01-01T01:00:00+01:00''
      = Inr (Stamp \<lparr>wall = 1704067200000000, tzinfo = Some 3600\<rparr>)"
    by (simp add: utc_platform_def)
  note inst = timestamps_are_timezone_naive
    [where pf = utc_platform and v = "PDatetime aware_datetime"
       and ts = "Stamp \<lparr>wall = 1700000000000000, tzinfo = None\<rparr>"
       and d = aware_datetime
       and s = "''2024-01-01T01:00:00+01:00''"
       and d' = "\<lparr>wall = 1704067200000000, tzinfo = Some 3600\<rparr>"
       and get = ?get and a = "''P2K''" and A = None and sd = None and ed = None
       and fo = False and mv = "DFin 0" and w = "(0::nat)"
       and tt' = "[transfer_A_B]" and w' = "(0::nat)"
       and tt'' = "[transfer_A_B]" and w'' = "(0::nat)"
       and pt' = "[price_half]" and w''' = "(0::nat)"]
  show ?thesis
    using inst parsed fetch_transfers_A_B [of "''SOUL''" "[]" "[]" "[point_half]" "''P2K''" "(0::nat)"]
      fetch_early_transfers_A_B [of "[]" "[]" "[point_half]" "''P2K''" "(0::nat)"]
      fetch_prices_half [of "''SOUL''" "[]" "[send_A]" "[receive_B]" "[]" "''P2K''" "(0::nat)"]
      format_historical_holders_df_aware
    by (simp add: aware_datetime_def)
qed

subsection \<open>Empty results\<close>

lemma format_holders_df_nonempty: "format_holders_df pf df = Inr t \<Longrightarrow> t \<noteq> []"
  by (auto simp: format_holders_df_def split: if_splits sum.splits dest!: series_apply_length)

lemma format_transfers_df_nonempty: "format_transfers_df pf df = Inr t \<Longrightarrow> t \<noteq> []"
  by (auto simp: format_transfers_df_def tz_localize_None_def split: if_splits sum.splits
      dest!: series_apply_length)

lemma format_prices_df_nonempty: "format_prices_df pf df = Inr t \<Longrightarrow> t \<noteq> []"
  by (auto simp: format_prices_df_def tz_localize_None_def split: if_splits sum.splits
      dest!: series_apply_length)

lemma fetch_holders_Some:
  "fetch_holders pf get a mb w = Some (Some t, w') \<Longrightarrow>
     \<exists>rows. format_holders_df pf rows = Inr t"
  by (auto simp: fetch_holders_def fetch_holders_try_def except_return_None_Some
      split: option.splits prod.splits sum.splits)

text \<open>
  Claim C8. Formatting the frame of an empty record list raises \<open>KeyError\<close>, so when the
  list accumulated by \<open>fetch_holders\<close>, \<open>fetch_transfers\<close>, \<open>fetch_early_transfers\<close> or
  \<open>fetch_prices\<close> is empty at the end of the loop the operation returns \<open>None\<close>; and no
  operation ever returns an empty table, so an empty result and a failed fetch look the
  same to the caller.
\<close>

theorem empty_accumulation_returns_None:
  "format_holders_df pf [] = Inl KeyError
   \<and> format_transfers_df pf [] = Inl KeyError
   \<and> format_prices_df pf [] = Inl KeyError
   \<and> (get_symbol_by_token_address get w a = (Inr symb, w1)
        \<and> holders_loop get symb mb 0 [] w1 = Some (Inr [], w2)
        \<longrightarrow> fetch_holders pf get a mb w = Some (None, w2))
   \<and> (get_symbol_by_token_address get w a = (Inr symb, w1)
        \<and> date_param pf sd = Inr dg \<and> date_param pf ed = Inr dl
        \<and> events_loop get (transfers_page A fo mv 0) dg dl symb 0 [] w1 = Some (Inr [], w2)
        \<longrightarrow> fetch_transfers pf get a A sd ed fo mv w = Some (None, w2))
   \<and> (get_symbol_by_token_address get w a = (Inr symb, w1)
        \<and> date_param pf sd = Inr dg \<and> date_param pf ed = Inr dl
        \<and> events_loop get (early_transfers_page symb 0) dg dl symb 0 [] w1 = Some (Inr [], w2)
        \<longrightarrow> fetch_early_transfers pf get a sd ed w = Some (None, w2))
   \<and> (get_symbol_by_token_address get w a = (Inr symb, w1)
        \<and> make_request get w1 ''historyPrices'' [(''symbol'', PStr symb)]
            = (Inr (HistoryPrices []), w2)
        \<longrightarrow> fetch_prices pf get a w = (None, w2))
   \<and> (fetch_holders pf get a mb w = Some (Some ht, w3) \<longrightarrow> ht \<noteq> [])
   \<and> (fetch_transfers pf get a A sd ed fo mv w = Some (Some tt, w4) \<longrightarrow> tt \<noteq> [])
   \<and> (fetch_early_transfers pf get a sd ed w = Some (Some et, w5) \<longrightarrow> et \<noteq> [])
   \<and> (fetch_prices pf get a w = (Some pt, w6) \<longrightarrow> pt \<noteq> [])"
proof (intro conjI impI)
  show "format_holders_df pf [] = Inl KeyError" by (simp add: format_holders_df_def)
  show "format_transfers_df pf [] = Inl KeyError" by (simp add: format_transfers_df_def)
  show "format_prices_df pf [] = Inl KeyError" by (simp add: format_prices_df_def)
next
  assume "get_symbol_by_token_address get w a = (Inr symb, w1)
        \<and> holders_loop get symb mb 0 [] w1 = Some (Inr [], w2)"
  then show "fetch_holders pf get a mb w = Some (None, w2)"
    by (simp add: fetch_holders_def fetch_holders_try_def format_holders_df_def
        except_return_None_def)
next
  assume "get_symbol_by_token_address get w a = (Inr symb, w1)
        \<and> date_param pf sd = Inr dg \<and> date_param pf ed = Inr dl
        \<and> events_loop get (transfers_page A fo mv 0) dg dl symb 0 [] w1 = Some (Inr [], w2)"
  then show "fetch_transfers pf get a A sd ed fo mv w = Some (None, w2)"
    by (simp add: fetch_transfers_def fetch_events_try_def format_transfers_df_def
        except_return_None_def)
next
  assume "get_symbol_by_token_address get w a = (Inr symb, w1)
        \<and> date_param pf sd = Inr dg \<and> date_param pf ed = Inr dl
        \<and> events_loop get (early_transfers_page symb 0) dg dl symb 0 [] w1 = Some (Inr [], w2)"
  then show "fetch_early_transfers pf get a sd ed w = Some (None, w2)"
    by (simp add: fetch_early_transfers_def fetch_events_try_def format_transfers_df_def
        except_return_None_def)
next
  assume "get_symbol_by_token_address get w a = (Inr symb, w1)
        \<and> make_request get w1 ''historyPrices'' [(''symbol'', PStr symb)]
            = (Inr (HistoryPrices []), w2)"
  then show "fetch_prices pf get a w = (None, w2)"
    by (simp add: fetch_prices_def fetch_prices_try_def format_prices_df_def
        except_return_None_def)
next
  assume "fetch_holders pf get a mb w = Some (Some ht, w3)"
  then show "ht \<noteq> []"
    by (blast dest: fetch_holders_Some format_holders_df_nonempty)
next
  assume "fetch_transfers pf get a A sd ed fo mv w = Some (Some tt, w4)"
  then show "tt \<noteq> []"
    by (blast dest: fetch_transfers_Some format_transfers_df_nonempty)
next
  assume "fetch_early_transfers pf get a sd ed w = Some (Some et, w5)"
  then show "et \<noteq> []"
    by (blast dest: fetch_early_transfers_Some format_transfers_df_nonempty)
next
  assume "fetch_prices pf get a w = (Some pt, w6)"
  then show "pt \<noteq> []"
    by (blast dest: fetch_prices_Some format_prices_df_nonempty)
qed

lemma make_request_explorer_holders:
  "make_request (explorer symb hs ss rs toks pts) w ''addresses'' (holders_params off symb')
     = (Inr (Addresses (if off = 0 then hs else [])), w)"
  by (simp add: make_request_def explorer_def ok_response_def holders_params_def)

lemma holders_loop_nothing:
  "holders_loop (explorer symb [] ss rs toks pts) symb' mb 0 [] w = Some (Inr [], w)"
  by (subst holders_loop.simps) (simp add: make_request_explorer_holders)

lemma transfers_page_filtered:
  "transfers_page None False (DFin 10) 0 [send_A] [receive_B] [] = Inr []"
  by (simp add: send_A_def receive_B_def Decimal_of_str_5 Let_def)

lemma events_loop_filtered:
  "events_loop (explorer symb hs [send_A] [receive_B] toks pts)
     (transfers_page None False (DFin 10) 0) PNone PNone symb 0 [] w = Some (Inr [], w)"
  by (subst events_loop.simps)
     (simp add: make_request_explorer_events transfers_page_filtered page_limit_def
       del: transfers_page.simps)

lemma events_loop_nothing:
  "events_loop (explorer symb hs [] rs toks pts) page dg dl symb' 0 [] w = Some (Inr [], w)"
  by (subst events_loop.simps) (simp add: make_request_explorer_events)

theorem empty_accumulation_returns_None_witness:
  "holders_loop (explorer ''SOUL'' [] [send_A] [receive_B] [] []) ''SOUL'' (DFin 0) 0 [] (0::nat)
     = Some (Inr [], (0::nat))
   \<and> fetch_holders utc_platform (explorer ''SOUL'' [] [send_A] [receive_B] [] []) ''P2K''
        (DFin 0) (0::nat) = Some (None, (0::nat))
   \<and> events_loop (explorer ''SOUL'' [] [send_A] [receive_B] [] [])
        (transfers_page None False (DFin 10) 0) PNone PNone ''SOUL'' 0 [] (0::nat) = Some (Inr [], (0::nat))
   \<and> fetch_transfers utc_platform (explorer ''SOUL'' [] [send_A] [receive_B] [] []) ''P2K''
        None None None False (DFin 10) (0::nat) = Some (None, (0::nat))
   \<and> fetch_early_transfers utc_platform (explorer ''SOUL'' [] [] [] [] []) ''P2K''
        None None (0::nat) = Some (None, (0::nat))
   \<and> fetch_prices utc_platform (explorer ''SOUL'' [] [send_A] [receive_B] [] []) ''P2K'' (0::nat)
       = (None, (0::nat))"
proof -
  let ?get = "explorer ''SOUL'' [] [send_A] [receive_B] [] []"
  note inst = empty_accumulation_returns_None
    [where pf = utc_platform and get = ?get and w = "(0::nat)" and a = "''P2K''"
       and symb = "''SOUL''" and ?w1.0 = "(0::nat)" and ?w2.0 = "(0::nat)" and mb = "DFin 0"
       and sd = None and ed = None and dg = PNone and dl = PNone
       and A = None and fo = False and mv = "DFin 10"]
  note inst_early = empty_accumulation_returns_None
    [where pf = utc_platform and get = "explorer ''SOUL'' [] [] [] [] []" and w = "(0::nat)"
       and a = "''P2K''" and symb = "''SOUL''" and ?w1.0 = "(0::nat)" and ?w2.0 = "(0::nat)"
       and sd = None and ed = None and dg = PNone and dl = PNone]
  show ?thesis
    using inst inst_early
    by (simp add: get_symbol_explorer holders_loop_nothing events_loop_filtered
        events_loop_nothing make_request_explorer_prices date_param_def)
qed

subsection \<open>Holders\<close>

lemma holder_balance_default:
  assumes "\<forall>b\<in>set (balances h). bal_token_symbol b \<noteq> symb"
  shows "holder_balance symb h = PStr ''0''"
proof -
  have "find (\<lambda>b. bal_token_symbol b = symb) (balances h) = None"
    using assms by (simp add: find_None_iff)
  then show ?thesis by (simp add: holder_balance_def)
qed

lemma find_first_match:
  "\<forall>x\<in>set pre. \<not> P x \<Longrightarrow> P b \<Longrightarrow> find P (pre @ b # post) = Some b"
  by (induction pre) simp_all

lemma holder_balance_first:
  "balances h = pre @ b # post \<Longrightarrow> bal_token_symbol b = symb \<Longrightarrow>
     \<forall>b'\<in>set pre. bal_token_symbol b' \<noteq> symb \<Longrightarrow> holder_balance symb h = amount b"
  by (simp add: holder_balance_def find_first_match)

lemma holder_balance_5: "holder_balance ''SOUL'' holder_5 = PStr ''5''"
  by (simp add: holder_balance_def holder_5_def)

subsection \<open>Pagination\<close>

lemma make_request_counting:
  "make_request (counting get) (w, n) endpoint ps =
     (case make_request get w endpoint ps of (r, w') \<Rightarrow> (r, (w', Suc n)))"
  by (simp add: make_request_def counting_def split: prod.splits sum.splits)

lemma holders_page_accepts_all:
  "\<forall>h\<in>set hs. \<exists>d. Decimal (holder_balance symb h) = Inr d \<and> dec_ge d mb = Inr True \<Longrightarrow>
     holders_page symb mb hs acc =
       Inr (acc @ map (\<lambda>h. \<lparr>hd_owner_address = PStr (address h),
                              hd_balance = holder_balance symb h\<rparr>) hs)"
  by (induction hs arbitrary: acc) (auto simp: Let_def)

lemma holders_loop_last_page:
  assumes "make_request get w ''addresses'' (holders_params offset symb)
             = (Inr (Addresses page), w')"
    and "holders_page symb mb page acc = Inr acc'"
    and "length page < 20000"
  shows "holders_loop get symb mb offset acc w = Some (Inr acc', w')"
  using assms
  by (subst holders_loop.simps) (auto simp: page_limit_def)

lemma holders_loop_empty_page:
  assumes "make_request get w ''addresses'' (holders_params offset symb)
             = (Inr (Addresses []), w')"
  shows "holders_loop get symb mb offset acc w = Some (Inr acc, w')"
  using assms by (subst holders_loop.simps) simp

lemma holders_loop_full_page:
  assumes "make_request get w ''addresses'' (holders_params offset symb)
             = (Inr (Addresses page), w')"
    and "holders_page symb mb page acc = Inr acc'"
    and "20000 \<le> length page"
  shows "holders_loop get symb mb offset acc w
           = holders_loop get symb mb (offset + 20000) acc' w'"
  using assms
  by (subst holders_loop.simps) (auto simp: page_limit_def)

text \<open>
  Claim C3. The page loop of \<open>fetch_holders\<close>, with the page limit 20000 and a minimum
  balance that every holder of the page meets, on any transport: when the page has
  exactly 20000 records and the next page has none, the loop returns after exactly two
  requests with exactly the 20000 records of the page; when the page has fewer than 20000
  records, it returns after exactly one request with exactly the records of the page;
  and when the page has 20000 records or more, the loop goes on with the offset raised by
  20000, the records appended and the world the request left.
\<close>

theorem holders_pagination_terminates:
  assumes first: "make_request get w0 ''addresses'' (holders_params offset symb)
                    = (Inr (Addresses page1), w1)"
    and accept: "\<forall>h\<in>set page1. \<exists>d. Decimal (holder_balance symb h) = Inr d
                                      \<and> dec_ge d mb = Inr True"
    and rows: "rows = map (\<lambda>h. \<lparr>hd_owner_address = PStr (address h),
                                  hd_balance = holder_balance symb h\<rparr>) page1"
  shows "(length page1 = 20000
            \<and> make_request get w1 ''addresses'' (holders_params (offset + 20000) symb)
                = (Inr (Addresses []), w2)
          \<longrightarrow> holders_loop (counting get) symb mb offset [] (w0, 0)
                = Some (Inr rows, (w2, 2))
              \<and> length rows = 20000)
       \<and> (length page1 < 20000
          \<longrightarrow> holders_loop (counting get) symb mb offset [] (w0, 0)
                = Some (Inr rows, (w1, 1))
              \<and> length rows = length page1)
       \<and> (20000 \<le> length page1
          \<longrightarrow> holders_loop get symb mb offset acc w0
                = holders_loop get symb mb (offset + 20000) (acc @ rows) w1)"
proof -
  have page: "holders_page symb mb page1 acc' = Inr (acc' @ rows)" for acc'
    unfolding rows using accept by (rule holders_page_accepts_all)
  have first_c: "make_request (counting get) (w0, n) ''addresses'' (holders_params offset symb)
                   = (Inr (Addresses page1), (w1, Suc n))" for n
    using first by (simp add: make_request_counting)
  have one: "holders_loop (counting get) symb mb offset [] (w0, 0)
               = Some (Inr rows, (w1, 1))"
    if "length page1 < 20000"
    using holders_loop_last_page [OF first_c page that] by simp
  have two: "holders_loop (counting get) symb mb offset [] (w0, 0)
               = Some (Inr rows, (w2, 2))"
    if len: "length page1 = 20000"
      and second: "make_request get w1 ''addresses'' (holders_params (offset + 20000) symb)
                     = (Inr (Addresses []), w2)"
  proof -
    have second_c: "make_request (counting get) (w1, Suc 0) ''addresses''
                      (holders_params (offset + 20000) symb) = (Inr (Addresses []), (w2, 2))"
      using second by (simp add: make_request_counting numeral_2_eq_2)
    have "holders_loop (counting get) symb mb offset [] (w0, 0)
            = holders_loop (counting get) symb mb (offset + 20000) rows (w1, Suc 0)"
      using holders_loop_full_page [OF first_c page] len by simp
    also have "\<dots> = Some (Inr rows, (w2, 2))"
      using second_c by (rule holders_loop_empty_page)
    finally show ?thesis .
  qed
  have step: "holders_loop get symb mb offset acc w0
                = holders_loop get symb mb (offset + 20000) (acc @ rows) w1"
    if "20000 \<le> length page1"
    using holders_loop_full_page [OF first page that] .
  have len: "length rows = length page1"
    by (simp add: rows)
  show ?thesis
    using one two step len by auto
qed

theorem holders_pagination_terminates_witness:
  "holders_loop (counting (explorer ''SOUL'' (replicate 20000 holder_5) [] [] [] []))
       ''SOUL'' (DFin 0) 0 [] ((0::nat), 0)
     = Some (Inr (replicate 20000 \<lparr>hd_owner_address = PStr ''P2KA'', hd_balance = PStr ''5''\<rparr>),
             ((0::nat), 2))
   \<and> length (replicate 20000 \<lparr>hd_owner_address = PStr ''P2KA'', hd_balance = PStr ''5''\<rparr>)
       = 20000
   \<and> holders_loop (counting (explorer ''SOUL'' (replicate 15000 holder_5) [] [] [] []))
       ''SOUL'' (DFin 0) 0 [] ((0::nat), 0)
     = Some (Inr (replicate 15000 \<lparr>hd_owner_address = PStr ''P2KA'', hd_balance = PStr ''5''\<rparr>),
             ((0::nat), 1))
   \<and> length (replicate 15000 \<lparr>hd_owner_address = PStr ''P2KA'', hd_balance = PStr ''5''\<rparr>)
       = 15000"
proof -
  let ?row = "\<lparr>hd_owner_address = PStr ''P2KA'', hd_balance = PStr ''5''\<rparr>"
  have addr: "address holder_5 = ''P2KA''"
    by (simp add: holder_5_def)
  have accept: "\<forall>h\<in>set (replicate n holder_5).
      \<exists>d. Decimal (holder_balance ''SOUL'' h) = Inr d \<and> dec_ge d (DFin 0) = Inr True" for n
    by (simp add: holder_balance_5 Decimal_of_str_5)
  have rows: "replicate n ?row
      = map (\<lambda>h. \<lparr>hd_owner_address = PStr (address h),
                    hd_balance = holder_balance ''SOUL'' h\<rparr>) (replicate n holder_5)" for n
    by (simp add: holder_balance_5 addr)
  have full: "make_request (explorer ''SOUL'' (replicate 20000 holder_5) [] [] [] []) (0::nat)
      ''addresses'' (holders_params 0 ''SOUL'') = (Inr (Addresses (replicate 20000 holder_5)), (0::nat))"
    by (simp add: make_request_explorer_holders)
  have short: "make_request (explorer ''SOUL'' (replicate 15000 holder_5) [] [] [] []) (0::nat)
      ''addresses'' (holders_params 0 ''SOUL'') = (Inr (Addresses (replicate 15000 holder_5)), (0::nat))"
    by (simp add: make_request_explorer_holders)
  have second_page: "make_request (explorer ''SOUL'' (replicate 20000 holder_5) [] [] [] []) (0::nat)
      ''addresses'' (holders_params (0 + 20000) ''SOUL'') = (Inr (Addresses []), (0::nat))"
    by (simp add: make_request_explorer_holders)
  have len: "length (replicate 20000 holder_5) = 20000"
    by simp
  from second_page len holders_pagination_terminates [OF full accept rows, where ?w2.0 = 0 and acc = "[]"]
  have scenario1: "holders_loop (counting (explorer ''SOUL'' (replicate 20000 holder_5) [] [] [] []))
       ''SOUL'' (DFin 0) 0 [] ((0::nat), 0) = Some (Inr (replicate 20000 ?row), ((0::nat), 2))"
    by simp
  have less: "length (replicate 15000 holder_5) < 20000"
    by simp
  from less holders_pagination_terminates [OF short accept rows, where ?w2.0 = 0 and acc = "[]"]
  have scenario2: "holders_loop (counting (explorer ''SOUL'' (replicate 15000 holder_5) [] [] [] []))
       ''SOUL'' (DFin 0) 0 [] ((0::nat), 0) = Some (Inr (replicate 15000 ?row), ((0::nat), 1))"
    by simp
  from scenario1 scenario2 show ?thesis by simp
qed

subsection \<open>Pages of events\<close>

lemma transfers_page_zip:
  assumes "\<forall>s\<in>set sends. Decimal (ev_value s) = Inr (DFin (val s))
                             \<and> py_int (ev_date s) = Inr (ts s)"
  shows "transfers_page addresses fo (DFin m) index sends receives acc =
           (if sends = [] \<or> index + length sends \<le> length receives
            then Inr (acc @ map (\<lambda>(s, r). \<lparr>tr_timestamp = PInt (ts s),
                                            tr_from_address = PStr (ev_address s),
                                            tr_to_address = PStr (ev_address r),
                                            tr_quantity = ev_value s,
                                            tr_transaction_hash = PStr (ev_transaction_hash s)\<rparr>)
                           (filter (\<lambda>(s, r). \<not> val s < m
                                               \<and> \<not> address_filter_skips addresses fo s r)
                              (zip sends (drop index receives))))
            else Inl IndexError)"
  using assms
proof (induction sends arbitrary: index acc)
  case Nil
  then show ?case by simp
next
  case (Cons s rest)
  show ?case
  proof (cases "index < length receives")
    case False
    then show ?thesis by simp
  next
    case True
    have dr: "drop index receives = receives ! index # drop (Suc index) receives"
      using True by (simp add: Cons_nth_drop_Suc)
    have conv: "Decimal (ev_value s) = Inr (DFin (val s))" "py_int (ev_date s) = Inr (ts s)"
      using Cons.prems by simp_all
    have rest: "\<forall>s\<in>set rest. Decimal (ev_value s) = Inr (DFin (val s))
                             \<and> py_int (ev_date s) = Inr (ts s)"
      using Cons.prems by simp
    note IH = Cons.IH [OF rest, of "Suc index"]
    show ?thesis
      using True conv
      by (auto simp: Let_def transfer_of_def IH dr)
  qed
qed

lemma events_loop_stops:
  assumes "make_request get w ''events'' (events_params ''TokenSend'' dg dl offset symb)
             = (Inr (Events ss), w1)"
    and "make_request get w1 ''events'' (events_params ''TokenReceive'' dg dl offset symb)
             = (Inr (Events rs), w2)"
    and "ss = [] \<or> rs = []"
  shows "events_loop get page dg dl symb offset all_transfers w = Some (Inr all_transfers, w2)"
  using assms by (subst events_loop.simps) auto

lemma events_after_pages_loop:
  "events_after_pages get page dg dl symb n (offset, acc, w) = Some (offset', acc', w') \<Longrightarrow>
     events_loop get page dg dl symb offset acc w = events_loop get page dg dl symb offset' acc' w'"
proof (induction n arbitrary: offset acc w)
  case 0
  then show ?case by simp
next
  case (Suc n)
  from Suc.prems obtain sends w1 receives w2 acc1 where
    s: "make_request get w ''events'' (events_params ''TokenSend'' dg dl offset symb)
          = (Inr (Events sends), w1)" and
    r: "make_request get w1 ''events'' (events_params ''TokenReceive'' dg dl offset symb)
          = (Inr (Events receives), w2)" and
    ne: "sends \<noteq> []" "receives \<noteq> []" "\<not> length sends < page_limit" and
    p: "page sends receives acc = Inr acc1" and
    rest: "events_after_pages get page dg dl symb n (offset + page_limit, acc1, w2)
             = Some (offset', acc', w')"
    by (auto split: prod.splits sum.splits response.splits if_splits)
  have "events_loop get page dg dl symb offset acc w
          = events_loop get page dg dl symb (offset + page_limit) acc1 w2"
    using s r ne p by (subst events_loop.simps) simp
  also have "\<dots> = events_loop get page dg dl symb offset' acc' w'"
    using rest by (rule Suc.IH)
  finally show ?case .
qed

lemma transfers_page_sound:
  "transfers_page addresses fo mv index sends receives acc = Inr out \<Longrightarrow>
     (sends = [] \<or> index + length sends \<le> length receives)
     \<and> (\<exists>rows. out = acc @ rows
            \<and> list_all2 (\<lambda>(s, r) t. transfer_of s r = Inr t)
                 (filter (\<lambda>(s, r). passes_filters addresses fo mv s r)
                    (zip sends (drop index receives)))
                 rows)"
proof (induction sends arbitrary: index acc)
  case Nil
  then show ?case by simp
next
  case (Cons s rest)
  have idx: "index < length receives"
    using Cons.prems by (auto split: if_splits)
  have dr: "drop index receives = receives ! index # drop (Suc index) receives"
    using idx by (simp add: Cons_nth_drop_Suc)
  from Cons.prems idx obtain v below where
    v: "Decimal (ev_value s) = Inr v" and below: "dec_less v mv = Inr below"
    by (auto simp: Let_def split: sum.splits)
  let ?r = "receives ! index"
  show ?case
  proof (cases "passes_filters addresses fo mv s ?r")
    case False
    then have skip: "below \<or> address_filter_skips addresses fo s ?r"
      using v below by (auto simp: passes_filters_def)
    have "transfers_page addresses fo mv (Suc index) rest receives acc = Inr out"
      using Cons.prems idx v below skip by (auto simp: Let_def split: if_splits)
    from Cons.IH [OF this] show ?thesis
      using idx False by (auto simp: dr)
  next
    case True
    then have keep: "\<not> below" "\<not> address_filter_skips addresses fo s ?r"
      using v below by (auto simp: passes_filters_def)
    from Cons.prems idx v below keep obtain t where
      t: "transfer_of s ?r = Inr t" and
      rest: "transfers_page addresses fo mv (Suc index) rest receives (acc @ [t]) = Inr out"
      by (auto simp: Let_def split: sum.splits)
    from Cons.IH [OF rest] show ?thesis
      using idx True t by (auto simp: dr)
  qed
qed


lemma transfers_page_returns:
  assumes "\<forall>s\<in>set sends. \<exists>v below. Decimal (ev_value s) = Inr v \<and> dec_less v mv = Inr below"
    and "\<forall>(s, r)\<in>set (zip sends (drop index receives)).
           passes_filters addresses fo mv s r \<longrightarrow> py_int (ev_date s) = Inr (ts s)"
    and "sends = [] \<or> index + length sends \<le> length receives"
  shows "transfers_page addresses fo mv index sends receives acc =
           Inr (acc @ map (\<lambda>(s, r). \<lparr>tr_timestamp = PInt (ts s),
                                          tr_from_address = PStr (ev_address s),
                                          tr_to_address = PStr (ev_address r),
                                          tr_quantity = ev_value s,
                                          tr_transaction_hash = PStr (ev_transaction_hash s)\<rparr>)
                         (filter (\<lambda>(s, r). passes_filters addresses fo mv s r)
                            (zip sends (drop index receives))))"
  using assms
proof (induction sends arbitrary: index acc)
  case Nil
  then show ?case by simp
next
  case (Cons s rest)
  have idx: "index < length receives"
    using Cons.prems(3) by simp
  have dr: "drop index receives = receives ! index # drop (Suc index) receives"
    using idx by (simp add: Cons_nth_drop_Suc)
  from Cons.prems(1) obtain v below where
    v: "Decimal (ev_value s) = Inr v" and below: "dec_less v mv = Inr below"
    by auto
  let ?r = "receives ! index"
  have pf: "passes_filters addresses fo mv s ?r
              \<longleftrightarrow> \<not> below \<and> \<not> address_filter_skips addresses fo s ?r"
    using v below by (simp add: passes_filters_def)
  have date: "passes_filters addresses fo mv s ?r \<longrightarrow> py_int (ev_date s) = Inr (ts s)"
    using Cons.prems(2) by (simp add: dr)
  have rest1: "\<forall>s\<in>set rest. \<exists>v below. Decimal (ev_value s) = Inr v \<and> dec_less v mv = Inr below"
    using Cons.prems(1) by simp
  have rest2: "\<forall>(s, r)\<in>set (zip rest (drop (Suc index) receives)).
                 passes_filters addresses fo mv s r \<longrightarrow> py_int (ev_date s) = Inr (ts s)"
    using Cons.prems(2) by (simp add: dr)
  have rest3: "rest = [] \<or> Suc index + length rest \<le> length receives"
    using Cons.prems(3) by simp
  note IH = Cons.IH [OF rest1 rest2 rest3]
  show ?case
  proof (cases "passes_filters addresses fo mv s ?r")
    case True
    with date have d: "py_int (ev_date s) = Inr (ts s)"
      by simp
    show ?thesis
      using True idx v below pf d
      by (simp add: Let_def transfer_of_def IH dr)
  next
    case False
    then show ?thesis
      using idx v below pf
      by (auto simp: Let_def IH dr)
  qed
qed

lemma transfer_of_fields:
  "transfer_of s r = Inr t \<Longrightarrow>
     (\<exists>ts. py_int (ev_date s) = Inr ts \<and> tr_timestamp t = PInt ts)
     \<and> tr_from_address t = PStr (ev_address s)
     \<and> tr_to_address t = PStr (ev_address r)
     \<and> tr_quantity t = ev_value s
     \<and> tr_transaction_hash t = PStr (ev_transaction_hash s)"
  by (auto simp: transfer_of_def split: sum.splits)

lemma series_apply_list_all2:
  "series_apply f xs = Inr ys \<Longrightarrow> list_all2 (\<lambda>x y. f x = Inr y) xs ys"
  by (induction xs arbitrary: ys) (auto split: sum.splits)

lemma format_transfers_df_rows:
  assumes "format_transfers_df pf df = Inr table"
  shows "list_all2
           (\<lambda>d t. (\<exists>ts. to_timestamp pf (tr_timestamp d) = Inr ts
                         \<and> timestamp t = replace_tzinfo_None ts)
                   \<and> from_address t = strip (py_str pf (tr_from_address d))
                   \<and> to_address t = strip (py_str pf (tr_to_address d))
                   \<and> to_decimal pf (tr_quantity d) = Inr (quantity t)
                   \<and> transaction_hash t = strip (py_str pf (tr_transaction_hash d)))
           df table"
proof -
  from assms obtain ts qs where
    ts: "series_apply (to_timestamp pf) (map tr_timestamp df) = Inr ts" and
    qs: "series_apply (to_decimal pf) (map tr_quantity df) = Inr qs" and
    table: "table = map (\<lambda>(r, t, q). \<lparr>timestamp = t,
                                        from_address = strip (py_str pf (tr_from_address r)),
                                        to_address = strip (py_str pf (tr_to_address r)),
                                        quantity = q,
                                        transaction_hash =
                                          strip (py_str pf (tr_transaction_hash r))\<rparr>)
                    (zip df (zip (tz_localize_None ts) qs))"
    by (auto simp: format_transfers_df_def split: if_splits sum.splits)
  have lts: "list_all2 (\<lambda>x y. to_timestamp pf x = Inr y) (map tr_timestamp df) ts"
    using ts by (rule series_apply_list_all2)
  have lqs: "list_all2 (\<lambda>x y. to_decimal pf x = Inr y) (map tr_quantity df) qs"
    using qs by (rule series_apply_list_all2)
  have len: "length ts = length df" "length qs = length df"
    using lts lqs by (auto dest: list_all2_lengthD)
  show ?thesis
    unfolding list_all2_conv_all_nth
  proof (rule conjI; (intro allI impI)?)
    show "length df = length table"
      using len by (simp add: table tz_localize_None_def)
  next
    fix i
    assume i: "i < length df"
    have "to_timestamp pf (tr_timestamp (df ! i)) = Inr (ts ! i)"
      using lts i by (auto simp: list_all2_conv_all_nth)
    moreover have "to_decimal pf (tr_quantity (df ! i)) = Inr (qs ! i)"
      using lqs i by (auto simp: list_all2_conv_all_nth)
    ultimately show
      "(\<exists>ts. to_timestamp pf (tr_timestamp (df ! i)) = Inr ts
             \<and> timestamp (table ! i) = replace_tzinfo_None ts)
       \<and> from_address (table ! i) = strip (py_str pf (tr_from_address (df ! i)))
       \<and> to_address (table ! i) = strip (py_str pf (tr_to_address (df ! i)))
       \<and> to_decimal pf (tr_quantity (df ! i)) = Inr (quantity (table ! i))
       \<and> transaction_hash (table ! i) = strip (py_str pf (tr_transaction_hash (df ! i)))"
      using i len by (simp add: table tz_localize_None_def)
  qed
qed

lemma fetch_transfers_last_page:
  assumes "get_symbol_by_token_address get w0 token_address = (Inr symb, wa)"
    and "date_param pf start_date = Inr dg" and "date_param pf end_date = Inr dl"
    and "events_after_pages get (transfers_page addresses from_address_only min_value 0) dg dl
           symb n (0, [], wa) = Some (offset, acc, w)"
    and "make_request get w ''events'' (events_params ''TokenSend'' dg dl offset symb)
           = (Inr (Events sends), wb)"
    and "make_request get wb ''events'' (events_params ''TokenReceive'' dg dl offset symb)
           = (Inr (Events receives), wc)"
    and "sends \<noteq> []" and "receives \<noteq> []" and "length sends < page_limit"
  shows "fetch_transfers pf get token_address addresses start_date end_date from_address_only
           min_value w0
         = Some (case transfers_page addresses from_address_only min_value 0 sends receives acc
                 of Inl e \<Rightarrow> None
                  | Inr rows \<Rightarrow> except_return_None (format_transfers_df pf rows), wc)"
proof -
  have "events_loop get (transfers_page addresses from_address_only min_value 0) dg dl symb 0 []
          wa
        = events_loop get (transfers_page addresses from_address_only min_value 0) dg dl symb
            offset acc w"
    using assms(4) by (rule events_after_pages_loop)
  also have "\<dots> = Some (transfers_page addresses from_address_only min_value 0 sends receives
                          acc, wc)"
    using assms(5-9)
    by (subst events_loop.simps) (simp split: sum.splits del: transfers_page.simps)
  finally show ?thesis
    using assms(1-3)
    by (simp add: fetch_transfers_def fetch_events_try_def except_return_None_def
        split: sum.splits del: transfers_page.simps)
qed

lemma fetch_transfers_table_rows:
  assumes page: "transfers_page addresses from_address_only min_value 0 sends receives acc
                   = Inr rows"
    and table: "format_transfers_df pf rows = Inr table"
  shows "\<exists>earlier latest. table = earlier @ latest \<and> length earlier = length acc
           \<and> list_all2
                (\<lambda>(s, r) t.
                    (\<exists>n st. py_int (ev_date s) = Inr n
                            \<and> to_timestamp pf (PInt n) = Inr st
                            \<and> timestamp t = replace_tzinfo_None st)
                    \<and> from_address t = strip (ev_address s)
                    \<and> to_address t = strip (ev_address r)
                    \<and> to_decimal pf (ev_value s) = Inr (quantity t)
                    \<and> transaction_hash t = strip (ev_transaction_hash s))
                (filter (\<lambda>(s, r). passes_filters addresses from_address_only min_value s r)
                   (zip sends receives))
                latest"
proof -
  from transfers_page_sound [OF page] obtain new where
    rows: "rows = acc @ new" and
    rel: "list_all2 (\<lambda>(s, r) t. transfer_of s r = Inr t)
            (filter (\<lambda>(s, r). passes_filters addresses from_address_only min_value s r)
               (zip sends receives)) new"
    by auto
  from format_transfers_df_rows [OF table] rows obtain earlier latest where
    split: "table = earlier @ latest" "length earlier = length acc" and
    formatted: "list_all2
           (\<lambda>d t. (\<exists>ts. to_timestamp pf (tr_timestamp d) = Inr ts
                         \<and> timestamp t = replace_tzinfo_None ts)
                   \<and> from_address t = strip (py_str pf (tr_from_address d))
                   \<and> to_address t = strip (py_str pf (tr_to_address d))
                   \<and> to_decimal pf (tr_quantity d) = Inr (quantity t)
                   \<and> transaction_hash t = strip (py_str pf (tr_transaction_hash d)))
           new latest"
    by (auto simp: list_all2_append1)
  have "list_all2
          (\<lambda>(s, r) t.
              (\<exists>n st. py_int (ev_date s) = Inr n
                      \<and> to_timestamp pf (PInt n) = Inr st
                      \<and> timestamp t = replace_tzinfo_None st)
              \<and> from_address t = strip (ev_address s)
              \<and> to_address t = strip (ev_address r)
              \<and> to_decimal pf (ev_value s) = Inr (quantity t)
              \<and> transaction_hash t = strip (ev_transaction_hash s))
          (filter (\<lambda>(s, r). passes_filters addresses from_address_only min_value s r)
             (zip sends receives))
          latest"
    using rel formatted
    by (rule list_all2_trans [rotated]) (auto dest!: transfer_of_fields)
  with split show ?thesis
    by blast
qed

text \<open>
  Claim C1. A page of \<open>fetch_transfers\<close> pairs the send event at each index with the receive
  event at the same index. Whenever the loop over a page returns, the rows it has appended
  are those of the pairs that pass the filters, in order, and each row takes its timestamp
  (the integer of the send event's date), source address, quantity and transaction hash
  from the send event and its destination address from the receive event. The loop does
  return, with exactly these rows, when every send value converts to a decimal that
  compares with \<open>min_value\<close>, the date of every pair that passes the filters converts, and
  the receive list is at least as long as the send list. The page loop returns what it has
  accumulated as soon as the send list or the receive list of a page is empty. When,
  after any number of full pages, a page with fewer than 20000 send events has both lists
  non-empty, \<open>fetch_transfers\<close> returns the table formatted from what was accumulated and
  the rows of that page (\<open>None\<close> when the page or the formatting raises), and a returned
  table ends with one row for each pair of the page that passes the filters, in order,
  holding the converted fields of that pair.
\<close>

theorem transfers_paired_by_position:
  "(transfers_page addresses from_address_only min_value 0 sends receives all_transfers = Inr out
      \<longrightarrow> (sends = [] \<or> length sends \<le> length receives)
          \<and> (\<exists>rows. out = all_transfers @ rows
                 \<and> list_all2
                      (\<lambda>(s, r) t.
                          (\<exists>ts. py_int (ev_date s) = Inr ts \<and> tr_timestamp t = PInt ts)
                          \<and> tr_from_address t = PStr (ev_address s)
                          \<and> tr_to_address t = PStr (ev_address r)
                          \<and> tr_quantity t = ev_value s
                          \<and> tr_transaction_hash t = PStr (ev_transaction_hash s))
                      (filter (\<lambda>(s, r). passes_filters addresses from_address_only min_value s r)
                         (zip sends receives))
                      rows))
   \<and> ((\<forall>s\<in>set sends. \<exists>v below. Decimal (ev_value s) = Inr v
                                     \<and> dec_less v min_value = Inr below)
       \<and> (\<forall>(s, r)\<in>set (zip sends receives).
              passes_filters addresses from_address_only min_value s r
              \<longrightarrow> py_int (ev_date s) = Inr (ts s))
       \<and> length sends \<le> length receives
       \<longrightarrow> transfers_page addresses from_address_only min_value 0 sends receives all_transfers
           = Inr (all_transfers
                  @ map (\<lambda>(s, r). \<lparr>tr_timestamp = PInt (ts s),
                                     tr_from_address = PStr (ev_address s),
                                     tr_to_address = PStr (ev_address r),
                                     tr_quantity = ev_value s,
                                     tr_transaction_hash = PStr (ev_transaction_hash s)\<rparr>)
                      (filter (\<lambda>(s, r). passes_filters addresses from_address_only min_value
                                          s r)
                         (zip sends receives))))
   \<and> (\<forall>i. i < length sends \<and> i < length receives
          \<longrightarrow> zip sends receives ! i = (sends ! i, receives ! i))
   \<and> (make_request get w ''events'' (events_params ''TokenSend'' dg dl offset symb)
         = (Inr (Events ss), w1)
       \<and> make_request get w1 ''events'' (events_params ''TokenReceive'' dg dl offset symb)
         = (Inr (Events rs), w2)
       \<and> (ss = [] \<or> rs = [])
       \<longrightarrow> events_loop get page dg dl symb offset all_transfers w
           = Some (Inr all_transfers, w2))
   \<and> (get_symbol_by_token_address get w0 token_address = (Inr symb, wa)
       \<and> date_param pf start_date = Inr dg \<and> date_param pf end_date = Inr dl
       \<and> events_after_pages get (transfers_page addresses from_address_only min_value 0) dg dl
           symb n (0, [], wa) = Some (offset, acc, w)
       \<and> make_request get w ''events'' (events_params ''TokenSend'' dg dl offset symb)
         = (Inr (Events sends), wb)
       \<and> make_request get wb ''events'' (events_params ''TokenReceive'' dg dl offset symb)
         = (Inr (Events receives), wc)
       \<and> sends \<noteq> [] \<and> receives \<noteq> [] \<and> length sends < page_limit
       \<longrightarrow> fetch_transfers pf get token_address addresses start_date end_date
             from_address_only min_value w0
           = Some (case transfers_page addresses from_address_only min_value 0 sends receives acc
                   of Inl e \<Rightarrow> None
                    | Inr rows \<Rightarrow> except_return_None (format_transfers_df pf rows), wc)
          \<and> (\<forall>table w'.
                fetch_transfers pf get token_address addresses start_date end_date
                  from_address_only min_value w0 = Some (Some table, w')
                \<longrightarrow> (\<exists>earlier latest.
                       table = earlier @ latest \<and> length earlier = length acc
                       \<and> list_all2
                            (\<lambda>(s, r) t.
                                (\<exists>n st. py_int (ev_date s) = Inr n
                                        \<and> to_timestamp pf (PInt n) = Inr st
                                        \<and> timestamp t = replace_tzinfo_None st)
                                \<and> from_address t = strip (ev_address s)
                                \<and> to_address t = strip (ev_address r)
                                \<and> to_decimal pf (ev_value s) = Inr (quantity t)
                                \<and> transaction_hash t = strip (ev_transaction_hash s))
                            (filter (\<lambda>(s, r). passes_filters addresses from_address_only
                                                min_value s r)
                               (zip sends receives))
                            latest)))"
proof (intro conjI impI)
  assume ret: "transfers_page addresses from_address_only min_value 0 sends receives
                 all_transfers = Inr out"
  from transfers_page_sound [OF ret]
  show "sends = [] \<or> length sends \<le> length receives"
    by simp
  from transfers_page_sound [OF ret] obtain rows where
    out: "out = all_transfers @ rows" and
    rel: "list_all2 (\<lambda>(s, r) t. transfer_of s r = Inr t)
            (filter (\<lambda>(s, r). passes_filters addresses from_address_only min_value s r)
               (zip sends receives)) rows"
    by auto
  have "list_all2
          (\<lambda>(s, r) t.
              (\<exists>ts. py_int (ev_date s) = Inr ts \<and> tr_timestamp t = PInt ts)
              \<and> tr_from_address t = PStr (ev_address s)
              \<and> tr_to_address t = PStr (ev_address r)
              \<and> tr_quantity t = ev_value s
              \<and> tr_transaction_hash t = PStr (ev_transaction_hash s))
          (filter (\<lambda>(s, r). passes_filters addresses from_address_only min_value s r)
             (zip sends receives)) rows"
    using rel
    by (rule list_all2_mono) (auto dest: transfer_of_fields)
  with out show "\<exists>rows. out = all_transfers @ rows
                 \<and> list_all2
                      (\<lambda>(s, r) t.
                          (\<exists>ts. py_int (ev_date s) = Inr ts \<and> tr_timestamp t = PInt ts)
                          \<and> tr_from_address t = PStr (ev_address s)
                          \<and> tr_to_address t = PStr (ev_address r)
                          \<and> tr_quantity t = ev_value s
                          \<and> tr_transaction_hash t = PStr (ev_transaction_hash s))
                      (filter (\<lambda>(s, r). passes_filters addresses from_address_only min_value s r)
                         (zip sends receives))
                      rows"
    by blast
next
  assume h: "(\<forall>s\<in>set sends. \<exists>v below. Decimal (ev_value s) = Inr v
                                     \<and> dec_less v min_value = Inr below)
       \<and> (\<forall>(s, r)\<in>set (zip sends receives).
              passes_filters addresses from_address_only min_value s r
              \<longrightarrow> py_int (ev_date s) = Inr (ts s))
       \<and> length sends \<le> length receives"
  show "transfers_page addresses from_address_only min_value 0 sends receives all_transfers
           = Inr (all_transfers
                  @ map (\<lambda>(s, r). \<lparr>tr_timestamp = PInt (ts s),
                                     tr_from_address = PStr (ev_address s),
                                     tr_to_address = PStr (ev_address r),
                                     tr_quantity = ev_value s,
                                     tr_transaction_hash = PStr (ev_transaction_hash s)\<rparr>)
                      (filter (\<lambda>(s, r). passes_filters addresses from_address_only min_value
                                          s r)
                         (zip sends receives)))"
    using transfers_page_returns
      [of sends min_value 0 receives addresses from_address_only ts all_transfers] h
    by simp
next
  show "\<forall>i. i < length sends \<and> i < length receives
          \<longrightarrow> zip sends receives ! i = (sends ! i, receives ! i)"
    by simp
next
  assume "make_request get w ''events'' (events_params ''TokenSend'' dg dl offset symb)
         = (Inr (Events ss), w1)
       \<and> make_request get w1 ''events'' (events_params ''TokenReceive'' dg dl offset symb)
         = (Inr (Events rs), w2)
       \<and> (ss = [] \<or> rs = [])"
  then show "events_loop get page dg dl symb offset all_transfers w
           = Some (Inr all_transfers, w2)"
    by (blast intro: events_loop_stops)
next
  assume h: "get_symbol_by_token_address get w0 token_address = (Inr symb, wa)
       \<and> date_param pf start_date = Inr dg \<and> date_param pf end_date = Inr dl
       \<and> events_after_pages get (transfers_page addresses from_address_only min_value 0) dg dl
           symb n (0, [], wa) = Some (offset, acc, w)
       \<and> make_request get w ''events'' (events_params ''TokenSend'' dg dl offset symb)
         = (Inr (Events sends), wb)
       \<and> make_request get wb ''events'' (events_params ''TokenReceive'' dg dl offset symb)
         = (Inr (Events receives), wc)
       \<and> sends \<noteq> [] \<and> receives \<noteq> [] \<and> length sends < page_limit"
  then have last: "fetch_transfers pf get token_address addresses start_date end_date
             from_address_only min_value w0
           = Some (case transfers_page addresses from_address_only min_value 0 sends receives acc
                   of Inl e \<Rightarrow> None
                    | Inr rows \<Rightarrow> except_return_None (format_transfers_df pf rows), wc)"
    by (intro fetch_transfers_last_page [where wb = wb and w = w and n = n and offset = offset])
       blast+
  then show "fetch_transfers pf get token_address addresses start_date end_date
             from_address_only min_value w0
           = Some (case transfers_page addresses from_address_only min_value 0 sends receives acc
                   of Inl e \<Rightarrow> None
                    | Inr rows \<Rightarrow> except_return_None (format_transfers_df pf rows), wc)" .
  show "\<forall>table w'.
          fetch_transfers pf get token_address addresses start_date end_date
            from_address_only min_value w0 = Some (Some table, w')
          \<longrightarrow> (\<exists>earlier latest.
                 table = earlier @ latest \<and> length earlier = length acc
                 \<and> list_all2
                      (\<lambda>(s, r) t.
                          (\<exists>n st. py_int (ev_date s) = Inr n
                                  \<and> to_timestamp pf (PInt n) = Inr st
                                  \<and> timestamp t = replace_tzinfo_None st)
                          \<and> from_address t = strip (ev_address s)
                          \<and> to_address t = strip (ev_address r)
                          \<and> to_decimal pf (ev_value s) = Inr (quantity t)
                          \<and> transaction_hash t = strip (ev_transaction_hash s))
                      (filter (\<lambda>(s, r). passes_filters addresses from_address_only
                                          min_value s r)
                         (zip sends receives))
                      latest)"
  proof (intro allI impI)
    fix table w'
    assume ret: "fetch_transfers pf get token_address addresses start_date end_date
                   from_address_only min_value w0 = Some (Some table, w')"
    with last obtain rows where
      page: "transfers_page addresses from_address_only min_value 0 sends receives acc
               = Inr rows"
      and table: "format_transfers_df pf rows = Inr table"
      by (auto simp: except_return_None_def split: sum.splits)
    then show "\<exists>earlier latest.
                 table = earlier @ latest \<and> length earlier = length acc
                 \<and> list_all2
                      (\<lambda>(s, r) t.
                          (\<exists>n st. py_int (ev_date s) = Inr n
                                  \<and> to_timestamp pf (PInt n) = Inr st
                                  \<and> timestamp t = replace_tzinfo_None st)
                          \<and> from_address t = strip (ev_address s)
                          \<and> to_address t = strip (ev_address r)
                          \<and> to_decimal pf (ev_value s) = Inr (quantity t)
                          \<and> transaction_hash t = strip (ev_transaction_hash s))
                      (filter (\<lambda>(s, r). passes_filters addresses from_address_only
                                          min_value s r)
                         (zip sends receives))
                      latest"
      by (rule fetch_transfers_table_rows)
  qed
qed

lemma Decimal_of_str_50: "Decimal_of_str ''50'' = Inr (DFin 50)"
  by (simp add: Decimal_of_str_def strip_def is_space_def lower_def lower_char_def
      parse_decimal_literal_def is_digit_def digit_val_def nat_of_digits_def scale10_def)

lemma int_of_str_200: "int_of_str ''200'' = Inr 200"
  by (simp add: int_of_str_def c_strip_def is_c_space_def is_digit_def digit_val_def
      nat_of_digits_def)

lemma int_of_str_abc: "int_of_str ''abc'' = Inl ValueError"
  by (simp add: int_of_str_def c_strip_def is_c_space_def is_digit_def digit_val_def)

lemma passes_filters_A: "passes_filters None False (DFin 0) send_A r"
  by (simp add: passes_filters_def send_A_def Decimal_of_str_5 address_filter_skips_def)

lemma passes_filters_C: "passes_filters None False (DFin m) send_C r \<longleftrightarrow> m \<le> 50"
  by (auto simp: passes_filters_def send_C_def Decimal_of_str_50 address_filter_skips_def)

lemma passes_filters_bad_date: "\<not> passes_filters None False (DFin 10) send_bad_date r"
  by (simp add: passes_filters_def send_bad_date_def Decimal_of_str_5)

lemma format_transfers_df_two:
  "format_transfers_df utc_platform [dict_A_B, dict_C_D] = Inr [transfer_A_B, transfer_C_D]"
  by (simp add: format_transfers_df_def dict_A_B_def dict_C_D_def to_decimal_def
      Decimal_of_str_5 Decimal_of_str_50 utc_platform_def trunc_def tz_localize_None_def
      strip_def is_space_def transfer_A_B_def transfer_C_D_def)

theorem transfers_paired_by_position_witness:
  "transfers_page None False (DFin 0) 0 [send_A, send_C] [receive_B, receive_D] []
     = Inr [dict_A_B, dict_C_D]
   \<and> zip [send_A, send_C] [receive_B, receive_D] ! 1 = (send_C, receive_D)
   \<and> transfers_page None False (DFin 10) 0 [send_bad_date, send_C] [receive_B, receive_D] []
       = Inr [dict_C_D]
   \<and> events_loop (explorer ''SOUL'' [] [] [receive_B] [] [])
        (transfers_page None False (DFin 0) 0) PNone PNone ''SOUL'' 0 [] 0 = Some (Inr [], 0)
   \<and> fetch_transfers utc_platform
        (explorer ''SOUL'' [] [send_A, send_C] [receive_B, receive_D] [] []) ''P2K''
        None None None False (DFin 0) 0 = Some (Some [transfer_A_B, transfer_C_D], 0)"
proof -
  let ?none = "explorer ''SOUL'' [] [] [receive_B] [] [] :: nat transport"
  let ?two = "explorer ''SOUL'' [] [send_A, send_C] [receive_B, receive_D] [] [] :: nat transport"
  have distinct: "send_C \<noteq> send_A" "send_C \<noteq> send_bad_date"
    by (simp_all add: send_A_def send_C_def send_bad_date_def)
  have converts: "\<forall>s\<in>set [send_A, send_C].
                  \<exists>v below. Decimal (ev_value s) = Inr v \<and> dec_less v (DFin 0) = Inr below"
    by (auto simp: send_A_def send_C_def Decimal_of_str_5 Decimal_of_str_50)
  have dates: "\<forall>(s, r)\<in>set (zip [send_A, send_C] [receive_B, receive_D]).
                 passes_filters None False (DFin 0) s r
                 \<longrightarrow> py_int (ev_date s) = Inr ((\<lambda>s. if s = send_A then 100 else 200) s)"
    using distinct by (simp add: send_A_def send_C_def int_of_str_200)
  have converts': "\<forall>s\<in>set [send_bad_date, send_C].
                   \<exists>v below. Decimal (ev_value s) = Inr v \<and> dec_less v (DFin 10) = Inr below"
    by (auto simp: send_bad_date_def send_C_def Decimal_of_str_5 Decimal_of_str_50)
  have dates': "\<forall>(s, r)\<in>set (zip [send_bad_date, send_C] [receive_B, receive_D]).
                  passes_filters None False (DFin 10) s r
                  \<longrightarrow> py_int (ev_date s) = Inr ((\<lambda>s. 200) s)"
    by (simp add: passes_filters_bad_date send_C_def int_of_str_200)
  have len: "length [send_A, send_C] \<le> length [receive_B, receive_D]"
    "length [send_bad_date, send_C] \<le> length [receive_B, receive_D]"
    by simp_all
  have rows: "map (\<lambda>(s, r). \<lparr>tr_timestamp = PInt (if s = send_A then 100 else 200),
                     tr_from_address = PStr (ev_address s), tr_to_address = PStr (ev_address r),
                     tr_quantity = ev_value s,
                     tr_transaction_hash = PStr (ev_transaction_hash s)\<rparr>)
               [(send_A, receive_B), (send_C, receive_D)] = [dict_A_B, dict_C_D]"
    using distinct
    by (simp add: dict_A_B_def dict_C_D_def send_A_def send_C_def receive_B_def receive_D_def)
  have rows': "map (\<lambda>(s, r). \<lparr>tr_timestamp = PInt 200,
                     tr_from_address = PStr (ev_address s), tr_to_address = PStr (ev_address r),
                     tr_quantity = ev_value s,
                     tr_transaction_hash = PStr (ev_transaction_hash s)\<rparr>)
                [(send_C, receive_D)] = [dict_C_D]"
    by (simp add: dict_C_D_def send_C_def receive_D_def)
  have "transfers_page None False (DFin 0) 0 [send_A, send_C] [receive_B, receive_D] []
          = Inr (map (\<lambda>(s, r). \<lparr>tr_timestamp = PInt (if s = send_A then 100 else 200),
                     tr_from_address = PStr (ev_address s), tr_to_address = PStr (ev_address r),
                     tr_quantity = ev_value s,
                     tr_transaction_hash = PStr (ev_transaction_hash s)\<rparr>)
               [(send_A, receive_B), (send_C, receive_D)])"
    using transfers_paired_by_position
      [where addresses = None and from_address_only = False and min_value = "DFin 0"
         and sends = "[send_A, send_C]" and receives = "[receive_B, receive_D]"
         and all_transfers = "[]" and ts = "\<lambda>s. if s = send_A then 100 else 200",
       THEN conjunct2, THEN conjunct1, rule_format, OF conjI [OF converts conjI [OF dates len(1)]]]
    by (simp add: passes_filters_A passes_filters_C del: transfers_page.simps)
  then have page: "transfers_page None False (DFin 0) 0 [send_A, send_C] [receive_B, receive_D] []
                     = Inr [dict_A_B, dict_C_D]"
    by (simp only: rows)
  have "transfers_page None False (DFin 10) 0 [send_bad_date, send_C] [receive_B, receive_D] []
          = Inr (map (\<lambda>(s, r). \<lparr>tr_timestamp = PInt 200,
                     tr_from_address = PStr (ev_address s), tr_to_address = PStr (ev_address r),
                     tr_quantity = ev_value s,
                     tr_transaction_hash = PStr (ev_transaction_hash s)\<rparr>)
                [(send_C, receive_D)])"
    using transfers_paired_by_position
      [where addresses = None and from_address_only = False and min_value = "DFin 10"
         and sends = "[send_bad_date, send_C]" and receives = "[receive_B, receive_D]"
         and all_transfers = "[]" and ts = "\<lambda>s. 200",
       THEN conjunct2, THEN conjunct1, rule_format,
       OF conjI [OF converts' conjI [OF dates' len(2)]]]
    by (simp add: passes_filters_bad_date passes_filters_C del: transfers_page.simps)
  then have filtered: "transfers_page None False (DFin 10) 0 [send_bad_date, send_C]
                         [receive_B, receive_D] [] = Inr [dict_C_D]"
    by (simp only: rows')
  have first: "make_request ?none 0 ''events''
                 (events_params ''TokenSend'' PNone PNone 0 ''SOUL'') = (Inr (Events []), 0)"
    by (simp add: make_request_explorer_events)
  have second: "make_request ?none 0 ''events''
                  (events_params ''TokenReceive'' PNone PNone 0 ''SOUL'')
                 = (Inr (Events [receive_B]), 0)"
    by (simp add: make_request_explorer_events)
  have stops: "events_loop ?none (transfers_page None False (DFin 0) 0) PNone PNone ''SOUL'' 0 []
                 0 = Some (Inr [], 0)"
    using transfers_paired_by_position
      [where get = ?none and w = 0 and dg = PNone and dl = PNone and offset = 0
         and symb = "''SOUL''" and ss = "[]" and ?w1.0 = 0 and rs = "[receive_B]" and ?w2.0 = 0
         and page = "transfers_page None False (DFin 0) 0" and all_transfers = "[]",
       THEN conjunct2, THEN conjunct2, THEN conjunct2]
      first second
    by simp
  have loop: "events_loop ?two (transfers_page None False (DFin 0) 0) PNone PNone ''SOUL'' 0 [] 0
                = Some (Inr [dict_A_B, dict_C_D], 0)"
    by (subst events_loop.simps)
       (simp add: make_request_explorer_events page page_limit_def del: transfers_page.simps)
  have fetch: "fetch_transfers utc_platform ?two ''P2K'' None None None False (DFin 0) 0
                 = Some (Some [transfer_A_B, transfer_C_D], 0)"
    by (simp add: fetch_transfers_def fetch_events_try_def get_symbol_explorer date_param_def
        loop format_transfers_df_two except_return_None_def)
  from page filtered stops fetch show ?thesis
    by simp
qed

subsection \<open>The filters of \<open>fetch_transfers\<close>\<close>

lemma passes_filters_iff:
  "passes_filters addresses fo mv s r \<longleftrightarrow>
     (\<exists>v. Decimal (ev_value s) = Inr v \<and> dec_less v mv = Inr False)
     \<and> (case addresses of
          None \<Rightarrow> True
        | Some A \<Rightarrow> A = {} \<or> (if fo then ev_address s \<in> A
                              else ev_address s \<in> A \<or> ev_address r \<in> A))"
  by (auto simp: passes_filters_def address_filter_skips_def split: sum.splits option.splits)

lemma transfers_page_emits:
  assumes "index < length receives"
    and "passes_filters addresses fo mv s (receives ! index)"
    and "py_int (ev_date s) = Inr n"
  shows "transfers_page addresses fo mv index (s # rest) receives acc
         = transfers_page addresses fo mv (index + 1) rest receives
             (acc @ [\<lparr>tr_timestamp = PInt n,
                      tr_from_address = PStr (ev_address s),
                      tr_to_address = PStr (ev_address (receives ! index)),
                      tr_quantity = ev_value s,
                      tr_transaction_hash = PStr (ev_transaction_hash s)\<rparr>])"
  using assms
  by (auto simp: passes_filters_def transfer_of_def Let_def split: sum.splits)

lemma transfers_page_skips:
  assumes "index < length receives"
    and "Decimal (ev_value s) = Inr v" and "dec_less v mv = Inr below"
    and "\<not> passes_filters addresses fo mv s (receives ! index)"
  shows "transfers_page addresses fo mv index (s # rest) receives acc
         = transfers_page addresses fo mv (index + 1) rest receives acc"
  using assms
  by (auto simp: passes_filters_def Let_def split: sum.splits)

lemma transfers_page_raises:
  assumes "index < length receives"
    and "Decimal (ev_value s) = Inl e
         \<or> (\<exists>v. Decimal (ev_value s) = Inr v \<and> dec_less v mv = Inl e)
         \<or> (passes_filters addresses fo mv s (receives ! index) \<and> py_int (ev_date s) = Inl e)"
  shows "transfers_page addresses fo mv index (s # rest) receives acc = Inl e"
  using assms
  by (auto simp: passes_filters_def transfer_of_def Let_def split: sum.splits)

lemma list_all2_map_eq:
  "list_all2 (\<lambda>x y. f x = g y) xs ys \<Longrightarrow> map f xs = map g ys"
  by (induction rule: list_all2_induct) simp_all


text \<open>
  Claim C2, amended. A pair of a send event and the receive event at the same index passes
  the filters of \<open>fetch_transfers\<close> if and only if the send value converts to a decimal that
  is not strictly less than \<open>min_value\<close> and, when a non-empty set of addresses is given, the
  send address is in the set (with \<open>from_address_only\<close>) or the send address or the receive
  address is in the set (without); with no set, or the empty set, only the value condition
  applies. The loop appends the record of a pair if and only if the pair passes the
  filters and the date of its send event converts to an integer; it goes on without a
  record when the pair does not pass; and it raises when the send value does not convert
  or does not compare with \<open>min_value\<close>, or when the pair passes and the date does not
  convert. So a page that returns has appended exactly the records of its pairs that pass
  the filters, in order, and the operation, which returns \<open>None\<close> when a page raises,
  returns a table that ends with exactly one row for each such pair of its last page.
\<close>

theorem transfer_pair_emitted_iff:
  "(passes_filters addresses from_address_only min_value event_send event_receive \<longleftrightarrow>
      (\<exists>v. Decimal (ev_value event_send) = Inr v \<and> dec_less v min_value = Inr False)
      \<and> (case addresses of
           None \<Rightarrow> True
         | Some A \<Rightarrow> A = {} \<or> (if from_address_only then ev_address event_send \<in> A
                               else ev_address event_send \<in> A
                                    \<or> ev_address event_receive \<in> A)))
   \<and> (Decimal (ev_value event_send) = Inr (DFin x)
       \<longrightarrow> (passes_filters None from_address_only (DFin m) event_send event_receive
              \<longleftrightarrow> \<not> x < m)
           \<and> (passes_filters (Some {}) from_address_only (DFin m) event_send event_receive
              \<longleftrightarrow> \<not> x < m))
   \<and> (index < length receives
       \<and> passes_filters addresses from_address_only min_value event_send (receives ! index)
       \<and> py_int (ev_date event_send) = Inr n
       \<longrightarrow> transfers_page addresses from_address_only min_value index (event_send # rest)
             receives all_transfers
           = transfers_page addresses from_address_only min_value (index + 1) rest receives
               (all_transfers
                @ [\<lparr>tr_timestamp = PInt n,
                    tr_from_address = PStr (ev_address event_send),
                    tr_to_address = PStr (ev_address (receives ! index)),
                    tr_quantity = ev_value event_send,
                    tr_transaction_hash = PStr (ev_transaction_hash event_send)\<rparr>]))
   \<and> (index < length receives
       \<and> Decimal (ev_value event_send) = Inr sent \<and> dec_less sent min_value = Inr below
       \<and> \<not> passes_filters addresses from_address_only min_value event_send (receives ! index)
       \<longrightarrow> transfers_page addresses from_address_only min_value index (event_send # rest)
             receives all_transfers
           = transfers_page addresses from_address_only min_value (index + 1) rest receives
               all_transfers)
   \<and> (index < length receives
       \<and> (Decimal (ev_value event_send) = Inl e
           \<or> (\<exists>v. Decimal (ev_value event_send) = Inr v \<and> dec_less v min_value = Inl e)
           \<or> (passes_filters addresses from_address_only min_value event_send
                 (receives ! index)
               \<and> py_int (ev_date event_send) = Inl e))
       \<longrightarrow> transfers_page addresses from_address_only min_value index (event_send # rest)
             receives all_transfers = Inl e)
   \<and> (transfers_page addresses from_address_only min_value 0 sends receives all_transfers
         = Inr out
       \<longrightarrow> (\<exists>rows. out = all_transfers @ rows
                 \<and> list_all2 (\<lambda>(s, r) t. transfer_of s r = Inr t)
                      (filter (\<lambda>(s, r). passes_filters addresses from_address_only min_value s r)
                         (zip sends receives))
                      rows))
   \<and> (get_symbol_by_token_address get w0 token_address = (Inr symb, wa)
       \<and> date_param pf start_date = Inr dg \<and> date_param pf end_date = Inr dl
       \<and> events_after_pages get (transfers_page addresses from_address_only min_value 0) dg dl
           symb pages (0, [], wa) = Some (offset, acc, w)
       \<and> make_request get w ''events'' (events_params ''TokenSend'' dg dl offset symb)
         = (Inr (Events sends), wb)
       \<and> make_request get wb ''events'' (events_params ''TokenReceive'' dg dl offset symb)
         = (Inr (Events receives), wc)
       \<and> sends \<noteq> [] \<and> receives \<noteq> [] \<and> length sends < page_limit
       \<longrightarrow> fetch_transfers pf get token_address addresses start_date end_date
             from_address_only min_value w0
           = Some (case transfers_page addresses from_address_only min_value 0 sends receives acc
                   of Inl e \<Rightarrow> None
                    | Inr rows \<Rightarrow> except_return_None (format_transfers_df pf rows), wc)
          \<and> (\<forall>table w'.
                fetch_transfers pf get token_address addresses start_date end_date
                  from_address_only min_value w0 = Some (Some table, w')
                \<longrightarrow> (\<exists>earlier latest.
                       table = earlier @ latest \<and> length earlier = length acc
                       \<and> map (\<lambda>t. (from_address t, to_address t, transaction_hash t)) latest
                         = map (\<lambda>(s, r). (strip (ev_address s), strip (ev_address r),
                                           strip (ev_transaction_hash s)))
                             (filter (\<lambda>(s, r). passes_filters addresses from_address_only
                                                 min_value s r)
                                (zip sends receives)))))"
proof (intro conjI impI)
  show "passes_filters addresses from_address_only min_value event_send event_receive \<longleftrightarrow>
      (\<exists>v. Decimal (ev_value event_send) = Inr v \<and> dec_less v min_value = Inr False)
      \<and> (case addresses of
           None \<Rightarrow> True
         | Some A \<Rightarrow> A = {} \<or> (if from_address_only then ev_address event_send \<in> A
                               else ev_address event_send \<in> A
                                    \<or> ev_address event_receive \<in> A))"
    by (rule passes_filters_iff)
next
  assume "Decimal (ev_value event_send) = Inr (DFin x)"
  then show "passes_filters None from_address_only (DFin m) event_send event_receive
               \<longleftrightarrow> \<not> x < m"
    by (simp add: passes_filters_iff)
next
  assume "Decimal (ev_value event_send) = Inr (DFin x)"
  then show "passes_filters (Some {}) from_address_only (DFin m) event_send event_receive
               \<longleftrightarrow> \<not> x < m"
    by (simp add: passes_filters_iff)
next
  assume "index < length receives
       \<and> passes_filters addresses from_address_only min_value event_send (receives ! index)
       \<and> py_int (ev_date event_send) = Inr n"
  then show "transfers_page addresses from_address_only min_value index (event_send # rest)
             receives all_transfers
           = transfers_page addresses from_address_only min_value (index + 1) rest receives
               (all_transfers
                @ [\<lparr>tr_timestamp = PInt n,
                    tr_from_address = PStr (ev_address event_send),
                    tr_to_address = PStr (ev_address (receives ! index)),
                    tr_quantity = ev_value event_send,
                    tr_transaction_hash = PStr (ev_transaction_hash event_send)\<rparr>])"
    by (intro transfers_page_emits) blast+
next
  assume "index < length receives
       \<and> Decimal (ev_value event_send) = Inr sent \<and> dec_less sent min_value = Inr below
       \<and> \<not> passes_filters addresses from_address_only min_value event_send (receives ! index)"
  then show "transfers_page addresses from_address_only min_value index (event_send # rest)
             receives all_transfers
           = transfers_page addresses from_address_only min_value (index + 1) rest receives
               all_transfers"
    by (intro transfers_page_skips [where v = sent and below = below]) blast+
next
  assume "index < length receives
       \<and> (Decimal (ev_value event_send) = Inl e
           \<or> (\<exists>v. Decimal (ev_value event_send) = Inr v \<and> dec_less v min_value = Inl e)
           \<or> (passes_filters addresses from_address_only min_value event_send
                 (receives ! index)
               \<and> py_int (ev_date event_send) = Inl e))"
  then show "transfers_page addresses from_address_only min_value index (event_send # rest)
             receives all_transfers = Inl e"
    by (intro transfers_page_raises) blast+
next
  assume "transfers_page addresses from_address_only min_value 0 sends receives all_transfers
            = Inr out"
  from transfers_page_sound [OF this]
  show "\<exists>rows. out = all_transfers @ rows
          \<and> list_all2 (\<lambda>(s, r) t. transfer_of s r = Inr t)
               (filter (\<lambda>(s, r). passes_filters addresses from_address_only min_value s r)
                  (zip sends receives))
               rows"
    by simp
next
  assume h: "get_symbol_by_token_address get w0 token_address = (Inr symb, wa)
       \<and> date_param pf start_date = Inr dg \<and> date_param pf end_date = Inr dl
       \<and> events_after_pages get (transfers_page addresses from_address_only min_value 0) dg dl
           symb pages (0, [], wa) = Some (offset, acc, w)
       \<and> make_request get w ''events'' (events_params ''TokenSend'' dg dl offset symb)
         = (Inr (Events sends), wb)
       \<and> make_request get wb ''events'' (events_params ''TokenReceive'' dg dl offset symb)
         = (Inr (Events receives), wc)
       \<and> sends \<noteq> [] \<and> receives \<noteq> [] \<and> length sends < page_limit"
  then have last: "fetch_transfers pf get token_address addresses start_date end_date
             from_address_only min_value w0
           = Some (case transfers_page addresses from_address_only min_value 0 sends receives acc
                   of Inl e \<Rightarrow> None
                    | Inr rows \<Rightarrow> except_return_None (format_transfers_df pf rows), wc)"
    by (intro fetch_transfers_last_page
          [where wb = wb and w = w and n = pages and offset = offset])
       blast+
  then show "fetch_transfers pf get token_address addresses start_date end_date
             from_address_only min_value w0
           = Some (case transfers_page addresses from_address_only min_value 0 sends receives acc
                   of Inl e \<Rightarrow> None
                    | Inr rows \<Rightarrow> except_return_None (format_transfers_df pf rows), wc)" .
  show "\<forall>table w'.
          fetch_transfers pf get token_address addresses start_date end_date
            from_address_only min_value w0 = Some (Some table, w')
          \<longrightarrow> (\<exists>earlier latest.
                 table = earlier @ latest \<and> length earlier = length acc
                 \<and> map (\<lambda>t. (from_address t, to_address t, transaction_hash t)) latest
                   = map (\<lambda>(s, r). (strip (ev_address s), strip (ev_address r),
                                     strip (ev_transaction_hash s)))
                       (filter (\<lambda>(s, r). passes_filters addresses from_address_only
                                           min_value s r)
                          (zip sends receives)))"
  proof (intro allI impI)
    fix table w'
    assume ret: "fetch_transfers pf get token_address addresses start_date end_date
                   from_address_only min_value w0 = Some (Some table, w')"
    with last obtain rows where
      page: "transfers_page addresses from_address_only min_value 0 sends receives acc
               = Inr rows"
      and table: "format_transfers_df pf rows = Inr table"
      by (auto simp: except_return_None_def split: sum.splits)
    from fetch_transfers_table_rows [OF page table] obtain earlier latest where
      split: "table = earlier @ latest" "length earlier = length acc" and
      rel: "list_all2
              (\<lambda>(s, r) t.
                  (\<exists>n st. py_int (ev_date s) = Inr n
                          \<and> to_timestamp pf (PInt n) = Inr st
                          \<and> timestamp t = replace_tzinfo_None st)
                  \<and> from_address t = strip (ev_address s)
                  \<and> to_address t = strip (ev_address r)
                  \<and> to_decimal pf (ev_value s) = Inr (quantity t)
                  \<and> transaction_hash t = strip (ev_transaction_hash s))
              (filter (\<lambda>(s, r). passes_filters addresses from_address_only min_value s r)
                 (zip sends receives))
              latest"
      by blast
    have "list_all2
            (\<lambda>p t. (\<lambda>(s, r). (strip (ev_address s), strip (ev_address r),
                               strip (ev_transaction_hash s))) p
                    = (from_address t, to_address t, transaction_hash t))
            (filter (\<lambda>(s, r). passes_filters addresses from_address_only min_value s r)
               (zip sends receives))
            latest"
      using rel by (rule list_all2_mono) auto
    then have "map (\<lambda>(s, r). (strip (ev_address s), strip (ev_address r),
                               strip (ev_transaction_hash s)))
                 (filter (\<lambda>(s, r). passes_filters addresses from_address_only min_value s r)
                    (zip sends receives))
               = map (\<lambda>t. (from_address t, to_address t, transaction_hash t)) latest"
      by (rule list_all2_map_eq)
    with split show "\<exists>earlier latest.
                 table = earlier @ latest \<and> length earlier = length acc
                 \<and> map (\<lambda>t. (from_address t, to_address t, transaction_hash t)) latest
                   = map (\<lambda>(s, r). (strip (ev_address s), strip (ev_address r),
                                     strip (ev_transaction_hash s)))
                       (filter (\<lambda>(s, r). passes_filters addresses from_address_only
                                           min_value s r)
                          (zip sends receives))"
      by metis
  qed
qed


theorem transfer_pair_emitted_iff_witness:
  "transfers_page (Some {''B''}) False (DFin 0) 0 [send_A, send_C] [receive_B, receive_D] []
     = Inr [dict_A_B]
   \<and> transfers_page (Some {''B''}) True (DFin 0) 0 [send_A, send_C] [receive_B, receive_D] []
     = Inr []
   \<and> transfers_page None False (DFin 10) 0 [send_A, send_C] [receive_B, receive_D] []
     = Inr [dict_C_D]
   \<and> transfers_page (Some {}) True (DFin 0) 0 [send_A, send_C] [receive_B, receive_D] []
     = Inr [dict_A_B, dict_C_D]
   \<and> transfers_page None False (DFin 0) 0 [send_bad_date, send_C] [receive_B, receive_D] []
     = Inl ValueError
   \<and> fetch_transfers utc_platform
        (explorer ''SOUL'' [] [send_A, send_C] [receive_B, receive_D] [] []) ''P2K''
        (Some {''B''}) None None False (DFin 0) 0 = Some (Some [transfer_A_B], 0)"
proof -
  let ?two = "explorer ''SOUL'' [] [send_A, send_C] [receive_B, receive_D] [] [] :: nat transport"
  have passes_A: "passes_filters (Some {''B''}) False (DFin 0) send_A
                    ([receive_B, receive_D] ! 0)"
    by (simp add: passes_filters_def address_filter_skips_def send_A_def receive_B_def
        Decimal_of_str_5)
  have fails_C: "\<not> passes_filters (Some {''B''}) False (DFin 0) send_C
                     ([receive_B, receive_D] ! 1)"
    by (simp add: passes_filters_def address_filter_skips_def send_C_def receive_D_def
        Decimal_of_str_50)
  have passes_bad: "passes_filters None False (DFin 0) send_bad_date
                      ([receive_B, receive_D] ! 0)"
    by (simp add: passes_filters_def address_filter_skips_def send_bad_date_def
        Decimal_of_str_5)
  have date_A: "py_int (ev_date send_A) = Inr 100"
    by (simp add: send_A_def)
  have date_bad: "py_int (ev_date send_bad_date) = Inl ValueError"
    by (simp add: send_bad_date_def int_of_str_abc)
  have value_C: "Decimal (ev_value send_C) = Inr (DFin 50)"
    by (simp add: send_C_def Decimal_of_str_50)
  have row: "\<lparr>tr_timestamp = PInt 100, tr_from_address = PStr (ev_address send_A),
              tr_to_address = PStr (ev_address ([receive_B, receive_D] ! 0)),
              tr_quantity = ev_value send_A,
              tr_transaction_hash = PStr (ev_transaction_hash send_A)\<rparr> = dict_A_B"
    by (simp add: dict_A_B_def send_A_def receive_B_def)
  have "transfers_page (Some {''B''}) False (DFin 0) 0 (send_A # [send_C])
          [receive_B, receive_D] []
        = transfers_page (Some {''B''}) False (DFin 0) (0 + 1) [send_C] [receive_B, receive_D]
            ([] @ [dict_A_B])"
    using transfer_pair_emitted_iff
      [where addresses = "Some {''B''}" and from_address_only = False and min_value = "DFin 0"
         and index = 0 and receives = "[receive_B, receive_D]" and event_send = send_A
         and n = 100 and rest = "[send_C]" and all_transfers = "[]",
       THEN conjunct2, THEN conjunct2, THEN conjunct1, rule_format,
       OF conjI [OF _ conjI [OF passes_A date_A]]]
    by (simp only: row length_Cons list.size)
  also have "\<dots> = transfers_page (Some {''B''}) False (DFin 0) (1 + 1) [] [receive_B, receive_D]
                     [dict_A_B]"
    using transfer_pair_emitted_iff
      [where addresses = "Some {''B''}" and from_address_only = False and min_value = "DFin 0"
         and index = 1 and receives = "[receive_B, receive_D]" and event_send = send_C
         and sent = "DFin 50" and below = False and rest = "[]"
         and all_transfers = "[dict_A_B]",
       THEN conjunct2, THEN conjunct2, THEN conjunct2, THEN conjunct1, rule_format,
       OF conjI [OF _ conjI [OF value_C conjI [OF _ fails_C]]]]
    by (simp del: transfers_page.simps)
  finally have by_receiver:
    "transfers_page (Some {''B''}) False (DFin 0) 0 [send_A, send_C] [receive_B, receive_D] []
       = Inr [dict_A_B]"
    by simp
  have raises:
    "transfers_page None False (DFin 0) 0 [send_bad_date, send_C] [receive_B, receive_D] []
       = Inl ValueError"
    using transfer_pair_emitted_iff
      [where addresses = None and from_address_only = False and min_value = "DFin 0"
         and index = 0 and receives = "[receive_B, receive_D]" and event_send = send_bad_date
         and e = ValueError and rest = "[send_C]" and all_transfers = "[]",
       THEN conjunct2, THEN conjunct2, THEN conjunct2, THEN conjunct2, THEN conjunct1,
       rule_format, OF conjI [OF _ disjI2 [OF disjI2 [OF conjI [OF passes_bad date_bad]]]]]
    by (simp del: transfers_page.simps)
  have sender_only:
    "transfers_page (Some {''B''}) True (DFin 0) 0 [send_A, send_C] [receive_B, receive_D] []
       = Inr []"
    by (simp add: address_filter_skips_def send_A_def send_C_def Decimal_of_str_5
        Decimal_of_str_50)
  have too_small:
    "transfers_page None False (DFin 10) 0 [send_A, send_C] [receive_B, receive_D] []
       = Inr [dict_C_D]"
    by (simp add: address_filter_skips_def transfer_of_def send_A_def send_C_def receive_D_def
        Decimal_of_str_5 Decimal_of_str_50 int_of_str_200 dict_C_D_def)
  have empty_set:
    "transfers_page (Some {}) True (DFin 0) 0 [send_A, send_C] [receive_B, receive_D] []
       = Inr [dict_A_B, dict_C_D]"
    by (simp add: address_filter_skips_def transfer_of_def send_A_def send_C_def receive_B_def
        receive_D_def Decimal_of_str_5 Decimal_of_str_50 int_of_str_200 dict_A_B_def
        dict_C_D_def)
  have loop: "events_loop ?two (transfers_page (Some {''B''}) False (DFin 0) 0) PNone PNone
                ''SOUL'' 0 [] 0 = Some (Inr [dict_A_B], 0)"
    by (subst events_loop.simps)
       (simp add: make_request_explorer_events by_receiver page_limit_def
          del: transfers_page.simps)
  have fetch: "fetch_transfers utc_platform ?two ''P2K'' (Some {''B''}) None None False (DFin 0) 0
                 = Some (Some [transfer_A_B], 0)"
    by (simp add: fetch_transfers_def fetch_events_try_def get_symbol_explorer date_param_def
        loop format_transfers_df_A_B [folded dict_A_B_def] except_return_None_def)
  from by_receiver sender_only too_small empty_set raises fetch show ?thesis
    by simp
qed

lemma events_loop_bad_date:
  "events_loop (explorer ''SOUL'' [] [send_bad_date, send_C] [receive_B, receive_D] [] [])
     (transfers_page None False (DFin 0) 0) PNone PNone ''SOUL'' 0 [] 0
   = Some (Inl ValueError, 0)"
  by (subst events_loop.simps)
     (simp add: make_request_explorer_events page_limit_def transfer_of_def
        address_filter_skips_def send_bad_date_def Decimal_of_str_5 int_of_str_abc)

theorem transfer_pair_emitted_iff_counterexample:
  "Decimal (ev_value send_bad_date) = Inr (DFin 5)
   \<and> dec_less (DFin 5) (DFin 0) = Inr False
   \<and> address_filter_skips None False send_bad_date receive_B = False
   \<and> Decimal (ev_value send_C) = Inr (DFin 50)
   \<and> dec_less (DFin 50) (DFin 0) = Inr False
   \<and> address_filter_skips None False send_C receive_D = False
   \<and> transfers_page None False (DFin 0) 0 [send_bad_date, send_C] [receive_B, receive_D] []
     = Inl ValueError
   \<and> fetch_transfers utc_platform
        (explorer ''SOUL'' [] [send_bad_date, send_C] [receive_B, receive_D] [] []) ''P2K''
        None None None False (DFin 0) 0 = Some (None, 0)"
proof -
  have fetch: "fetch_transfers utc_platform
        (explorer ''SOUL'' [] [send_bad_date, send_C] [receive_B, receive_D] [] []) ''P2K''
        None None None False (DFin 0) 0 = Some (None, 0)"
    by (simp add: fetch_transfers_def fetch_events_try_def get_symbol_explorer date_param_def
        events_loop_bad_date except_return_None_def)
  have page: "transfers_page None False (DFin 0) 0 [send_bad_date, send_C]
                [receive_B, receive_D] [] = Inl ValueError"
    by (simp add: transfer_of_def address_filter_skips_def send_bad_date_def Decimal_of_str_5
        int_of_str_abc)
  from fetch page show ?thesis
    by (simp add: address_filter_skips_def send_bad_date_def send_C_def Decimal_of_str_5
        Decimal_of_str_50 del: transfers_page.simps)
qed

subsection \<open>The balance filter of \<open>fetch_holders\<close>\<close>

lemma keeps_holder_iff:
  "keeps_holder symb mb h \<longleftrightarrow>
     (\<exists>d. Decimal (holder_balance symb h) = Inr d \<and> dec_ge d mb = Inr True)"
  by (auto simp: keeps_holder_def split: sum.splits)

lemma holders_page_sound:
  "holders_page symb mb hs acc = Inr out \<Longrightarrow>
     out = acc @ map (\<lambda>h. \<lparr>hd_owner_address = PStr (address h),
                             hd_balance = holder_balance symb h\<rparr>)
                   (filter (keeps_holder symb mb) hs)
     \<and> (\<forall>h\<in>set hs. \<exists>d keep. Decimal (holder_balance symb h) = Inr d
                              \<and> dec_ge d mb = Inr keep)"
proof (induction hs arbitrary: acc)
  case Nil
  then show ?case by simp
next
  case (Cons h rest)
  from Cons.prems obtain d keep where
    d: "Decimal (holder_balance symb h) = Inr d" and
    keep: "dec_ge d mb = Inr keep" and
    rest: "holders_page symb mb rest
             (if keep then acc @ [\<lparr>hd_owner_address = PStr (address h),
                                    hd_balance = holder_balance symb h\<rparr>]
              else acc) = Inr out"
    by (auto simp: Let_def split: sum.splits)
  have k: "keeps_holder symb mb h \<longleftrightarrow> keep"
    using d keep by (simp add: keeps_holder_def)
  from Cons.IH [OF rest] d keep k show ?case
    by auto
qed

lemma holders_page_returns:
  "\<forall>h\<in>set hs. \<exists>d keep. Decimal (holder_balance symb h) = Inr d \<and> dec_ge d mb = Inr keep \<Longrightarrow>
     holders_page symb mb hs acc
       = Inr (acc @ map (\<lambda>h. \<lparr>hd_owner_address = PStr (address h),
                                hd_balance = holder_balance symb h\<rparr>)
                      (filter (keeps_holder symb mb) hs))"
proof (induction hs arbitrary: acc)
  case Nil
  then show ?case by simp
next
  case (Cons h rest)
  from Cons.prems obtain d keep where
    d: "Decimal (holder_balance symb h) = Inr d" and keep: "dec_ge d mb = Inr keep"
    by auto
  have k: "keeps_holder symb mb h \<longleftrightarrow> keep"
    using d keep by (simp add: keeps_holder_def)
  have rest: "\<forall>h\<in>set rest. \<exists>d keep. Decimal (holder_balance symb h) = Inr d
                                   \<and> dec_ge d mb = Inr keep"
    using Cons.prems by simp
  show ?case
    using d keep k by (simp add: Let_def Cons.IH [OF rest])
qed

lemma holders_page_raises:
  assumes "h \<in> set hs"
    and "Decimal (holder_balance symb h) = Inl e
         \<or> (\<exists>d. Decimal (holder_balance symb h) = Inr d \<and> dec_ge d mb = Inl e)"
  shows "\<exists>e'. holders_page symb mb hs acc = Inl e'"
proof (cases "holders_page symb mb hs acc")
  case (Inl e')
  then show ?thesis by simp
next
  case (Inr out)
  from holders_page_sound [OF Inr] assms show ?thesis
    by auto
qed

lemma holders_after_pages_loop:
  "holders_after_pages get symb mb n (offset, acc, w) = Some (offset', acc', w') \<Longrightarrow>
     holders_loop get symb mb offset acc w = holders_loop get symb mb offset' acc' w'"
proof (induction n arbitrary: offset acc w)
  case 0
  then show ?case by simp
next
  case (Suc n)
  from Suc.prems obtain page w1 acc1 where
    p: "make_request get w ''addresses'' (holders_params offset symb)
          = (Inr (Addresses page), w1)" and
    full: "\<not> length page < page_limit" and
    a: "holders_page symb mb page acc = Inr acc1" and
    rest: "holders_after_pages get symb mb n (offset + page_limit, acc1, w1)
             = Some (offset', acc', w')"
    by (auto split: prod.splits sum.splits response.splits if_splits)
  have ne: "page \<noteq> []"
    using full by (auto simp: page_limit_def)
  have "holders_loop get symb mb offset acc w
          = holders_loop get symb mb (offset + page_limit) acc1 w1"
    using p full a ne by (subst holders_loop.simps) simp
  also have "\<dots> = holders_loop get symb mb offset' acc' w'"
    using rest by (rule Suc.IH)
  finally show ?case .
qed

lemma fetch_holders_last_page:
  assumes "get_symbol_by_token_address get w0 token_address = (Inr symb, wa)"
    and "holders_after_pages get symb min_balance n (0, [], wa) = Some (offset, acc, w)"
    and "make_request get w ''addresses'' (holders_params offset symb)
           = (Inr (Addresses page), wb)"
    and "page \<noteq> []" and "length page < page_limit"
  shows "fetch_holders pf get token_address min_balance w0
         = Some (case holders_page symb min_balance page acc of
                   Inl e \<Rightarrow> None
                 | Inr rows \<Rightarrow> except_return_None (format_holders_df pf rows), wb)"
proof -
  have "holders_loop get symb min_balance 0 [] wa
          = holders_loop get symb min_balance offset acc w"
    using assms(2) by (rule holders_after_pages_loop)
  also have "\<dots> = Some (holders_page symb min_balance page acc, wb)"
    using assms(3-5)
    by (subst holders_loop.simps) (simp split: sum.splits del: holders_page.simps)
  finally show ?thesis
    using assms(1)
    by (simp add: fetch_holders_def fetch_holders_try_def except_return_None_def
        split: sum.splits del: holders_page.simps)
qed

lemma format_holders_df_rows:
  assumes "format_holders_df pf df = Inr table"
  shows "list_all2
           (\<lambda>d t. owner_address t = strip (py_str pf (hd_owner_address d))
                   \<and> to_decimal pf (hd_balance d) = Inr (balance t))
           df table"
proof -
  from assms obtain bs where
    bs: "series_apply (to_decimal pf) (map hd_balance df) = Inr bs" and
    table: "table = map (\<lambda>(r, b). \<lparr>owner_address = strip (py_str pf (hd_owner_address r)),
                                     balance = b\<rparr>)
                    (zip df bs)"
    by (auto simp: format_holders_df_def split: if_splits sum.splits)
  have lbs: "list_all2 (\<lambda>x y. to_decimal pf x = Inr y) (map hd_balance df) bs"
    using bs by (rule series_apply_list_all2)
  then have len: "length bs = length df"
    by (auto dest: list_all2_lengthD)
  show ?thesis
    unfolding list_all2_conv_all_nth
  proof (rule conjI; (intro allI impI)?)
    show "length df = length table"
      using len by (simp add: table)
  next
    fix i
    assume i: "i < length df"
    have "to_decimal pf (hd_balance (df ! i)) = Inr (bs ! i)"
      using lbs i by (auto simp: list_all2_conv_all_nth)
    then show "owner_address (table ! i) = strip (py_str pf (hd_owner_address (df ! i)))
               \<and> to_decimal pf (hd_balance (df ! i)) = Inr (balance (table ! i))"
      using i len by (simp add: table)
  qed
qed

lemma fetch_holders_table_rows:
  assumes page: "holders_page symb min_balance hs acc = Inr rows"
    and table: "format_holders_df pf rows = Inr table"
  shows "\<exists>earlier latest. table = earlier @ latest \<and> length earlier = length acc
           \<and> list_all2
                (\<lambda>h t. owner_address t = strip (address h)
                        \<and> to_decimal pf (holder_balance symb h) = Inr (balance t))
                (filter (keeps_holder symb min_balance) hs)
                latest"
proof -
  from holders_page_sound [OF page] have
    rows: "rows = acc @ map (\<lambda>h. \<lparr>hd_owner_address = PStr (address h),
                                    hd_balance = holder_balance symb h\<rparr>)
                          (filter (keeps_holder symb min_balance) hs)"
    by simp
  from format_holders_df_rows [OF table] rows obtain earlier latest where
    split: "table = earlier @ latest" "length earlier = length acc" and
    formatted: "list_all2
           (\<lambda>d t. owner_address t = strip (py_str pf (hd_owner_address d))
                   \<and> to_decimal pf (hd_balance d) = Inr (balance t))
           (map (\<lambda>h. \<lparr>hd_owner_address = PStr (address h),
                       hd_balance = holder_balance symb h\<rparr>)
              (filter (keeps_holder symb min_balance) hs))
           latest"
    by (auto simp: list_all2_append1)
  from formatted have "list_all2
          (\<lambda>h t. owner_address t = strip (address h)
                  \<and> to_decimal pf (holder_balance symb h) = Inr (balance t))
          (filter (keeps_holder symb min_balance) hs)
          latest"
    by (simp add: list_all2_map1)
  with split show ?thesis
    by blast
qed

lemma series_apply_map:
  "\<forall>x\<in>set xs. f (g x) = Inr (v x) \<Longrightarrow> series_apply f (map g xs) = Inr (map v xs)"
  by (induction xs) simp_all

lemma format_holders_df_kept:
  assumes "hs \<noteq> []"
    and "\<forall>h\<in>set hs. to_decimal pf (holder_balance symb h) = Inr (val h)"
  shows "format_holders_df pf (map (\<lambda>h. \<lparr>hd_owner_address = PStr (address h),
                                           hd_balance = holder_balance symb h\<rparr>) hs)
         = Inr (map (\<lambda>h. \<lparr>owner_address = strip (address h), balance = val h\<rparr>) hs)"
proof -
  have "series_apply (to_decimal pf)
          (map hd_balance (map (\<lambda>h. \<lparr>hd_owner_address = PStr (address h),
                                       hd_balance = holder_balance symb h\<rparr>) hs))
        = Inr (map val hs)"
    using assms(2) series_apply_map [of hs "to_decimal pf" "holder_balance symb" val]
    by (simp add: comp_def)
  then show ?thesis
    using assms(1)
    by (simp add: format_holders_df_def zip_map_map zip_same_conv_map comp_def)
qed

lemma fetch_holders_first_page:
  assumes resolved: "get_symbol_by_token_address get w0 token_address = (Inr symb, wa)"
    and request: "make_request get wa ''addresses'' (holders_params 0 symb)
                    = (Inr (Addresses page), wb)"
    and short: "length page < page_limit"
    and converts: "\<forall>h\<in>set page. \<exists>s keep. holder_balance symb h = PStr s
                      \<and> Decimal_of_str s = Inr (val h)
                      \<and> dec_ge (val h) min_balance = Inr keep"
    and some: "\<exists>h\<in>set page. keeps_holder symb min_balance h"
  shows "fetch_holders pf get token_address min_balance w0
         = Some (Some (map (\<lambda>h. \<lparr>owner_address = strip (address h), balance = val h\<rparr>)
                         (filter (keeps_holder symb min_balance) page)), wb)"
proof -
  have ne: "page \<noteq> []"
    using some by auto
  have kept: "filter (keeps_holder symb min_balance) page \<noteq> []"
    using some by (auto simp: filter_empty_conv)
  have conv: "\<forall>h\<in>set page. \<exists>d keep. Decimal (holder_balance symb h) = Inr d
                               \<and> dec_ge d min_balance = Inr keep"
    using converts by fastforce
  have rows: "holders_page symb min_balance page []
                = Inr (map (\<lambda>h. \<lparr>hd_owner_address = PStr (address h),
                                   hd_balance = holder_balance symb h\<rparr>)
                         (filter (keeps_holder symb min_balance) page))"
    using holders_page_returns [OF conv, of "[]"] by simp
  have dec: "\<forall>h\<in>set (filter (keeps_holder symb min_balance) page).
               to_decimal pf (holder_balance symb h) = Inr (val h)"
    using converts by (fastforce simp: to_decimal_def)
  have start: "holders_after_pages get symb min_balance 0 (0, [], wa) = Some (0, [], wa)"
    by simp
  show ?thesis
    using fetch_holders_last_page [OF resolved start request ne short, of pf]
    by (simp add: rows format_holders_df_kept [OF kept dec] except_return_None_def)
qed

text \<open>
  Claim C5, amended. The balance of a raw holder entry is the amount of the first entry of
  its balance list whose token has the token's own symbol, and the string \<open>0\<close> when there
  is no such entry. \<open>fetch_holders\<close> keeps a holder if and only if that balance converts to
  a decimal that is at least \<open>min_balance\<close>; the bound is inclusive, so a holder with
  balance \<open>0\<close> is kept with \<open>min_balance\<close> 0 and dropped with \<open>min_balance\<close> 1. A page whose
  balances all convert and compare appends exactly the holders it keeps, in order; a page
  with a balance that does not convert or does not compare raises. After any number of
  full pages, on a last page that is not empty the operation returns the table formatted
  from what was accumulated and the holders kept of that page, \<open>None\<close> when the page or the
  formatting raises, and a returned table ends with one row for each holder kept of the
  page, in order, with its address and its balance as a decimal. When the first page is the
  last, its balances are strings that convert and compare, and it keeps a holder, the
  operation returns the table of exactly the holders kept.
\<close>

theorem holders_filtered_by_balance:
  "((\<forall>b\<in>set (balances h). bal_token_symbol b \<noteq> symb) \<longrightarrow>
      holder_balance symb h = PStr ''0'')
   \<and> (balances h = pre @ b # post \<and> bal_token_symbol b = symb
        \<and> (\<forall>b'\<in>set pre. bal_token_symbol b' \<noteq> symb)
        \<longrightarrow> holder_balance symb h = amount b)
   \<and> (keeps_holder symb min_balance h \<longleftrightarrow>
        (\<exists>d. Decimal (holder_balance symb h) = Inr d \<and> dec_ge d min_balance = Inr True))
   \<and> (Decimal (holder_balance symb h) = Inr (DFin x)
        \<longrightarrow> (keeps_holder symb (DFin m) h \<longleftrightarrow> m \<le> x))
   \<and> (holder_balance symb h = PStr ''0''
        \<longrightarrow> keeps_holder symb (DFin 0) h \<and> \<not> keeps_holder symb (DFin 1) h)
   \<and> (holders_page symb min_balance page all_holders = Inr out
        \<longrightarrow> out = all_holders
                  @ map (\<lambda>h. \<lparr>hd_owner_address = PStr (address h),
                                hd_balance = holder_balance symb h\<rparr>)
                      (filter (keeps_holder symb min_balance) page))
   \<and> ((\<forall>h\<in>set page. \<exists>d keep. Decimal (holder_balance symb h) = Inr d
                                \<and> dec_ge d min_balance = Inr keep)
        \<longrightarrow> holders_page symb min_balance page all_holders
            = Inr (all_holders
                   @ map (\<lambda>h. \<lparr>hd_owner_address = PStr (address h),
                                 hd_balance = holder_balance symb h\<rparr>)
                       (filter (keeps_holder symb min_balance) page)))
   \<and> (bad \<in> set page
        \<and> (Decimal (holder_balance symb bad) = Inl e
            \<or> (\<exists>d. Decimal (holder_balance symb bad) = Inr d \<and> dec_ge d min_balance = Inl e))
        \<longrightarrow> (\<exists>e'. holders_page symb min_balance page all_holders = Inl e'))
   \<and> (get_symbol_by_token_address get w0 token_address = (Inr symb, wa)
        \<and> holders_after_pages get symb min_balance n (0, [], wa) = Some (offset, acc, w)
        \<and> make_request get w ''addresses'' (holders_params offset symb)
          = (Inr (Addresses page), wb)
        \<and> page \<noteq> [] \<and> length page < page_limit
        \<longrightarrow> fetch_holders pf get token_address min_balance w0
            = Some (case holders_page symb min_balance page acc of
                      Inl e \<Rightarrow> None
                    | Inr rows \<Rightarrow> except_return_None (format_holders_df pf rows), wb)
           \<and> (\<forall>table w'.
                 fetch_holders pf get token_address min_balance w0 = Some (Some table, w')
                 \<longrightarrow> (\<exists>earlier latest.
                        table = earlier @ latest \<and> length earlier = length acc
                        \<and> list_all2
                             (\<lambda>h t. owner_address t = strip (address h)
                                     \<and> to_decimal pf (holder_balance symb h)
                                       = Inr (balance t))
                             (filter (keeps_holder symb min_balance) page)
                             latest)))
   \<and> (get_symbol_by_token_address get w0 token_address = (Inr symb, wa)
        \<and> make_request get wa ''addresses'' (holders_params 0 symb)
          = (Inr (Addresses page), wb)
        \<and> length page < page_limit
        \<and> (\<forall>h\<in>set page. \<exists>s keep. holder_balance symb h = PStr s
                \<and> Decimal_of_str s = Inr (val h)
                \<and> dec_ge (val h) min_balance = Inr keep)
        \<and> (\<exists>h\<in>set page. keeps_holder symb min_balance h)
        \<longrightarrow> fetch_holders pf get token_address min_balance w0
            = Some (Some (map (\<lambda>h. \<lparr>owner_address = strip (address h), balance = val h\<rparr>)
                            (filter (keeps_holder symb min_balance) page)), wb))"
proof (intro conjI impI)
  assume "\<forall>b\<in>set (balances h). bal_token_symbol b \<noteq> symb"
  then show "holder_balance symb h = PStr ''0''"
    by (rule holder_balance_default)
next
  assume "balances h = pre @ b # post \<and> bal_token_symbol b = symb
        \<and> (\<forall>b'\<in>set pre. bal_token_symbol b' \<noteq> symb)"
  then show "holder_balance symb h = amount b"
    by (simp add: holder_balance_first)
next
  show "keeps_holder symb min_balance h \<longleftrightarrow>
        (\<exists>d. Decimal (holder_balance symb h) = Inr d \<and> dec_ge d min_balance = Inr True)"
    by (rule keeps_holder_iff)
next
  assume "Decimal (holder_balance symb h) = Inr (DFin x)"
  then show "keeps_holder symb (DFin m) h \<longleftrightarrow> m \<le> x"
    by (simp add: keeps_holder_def)
next
  assume "holder_balance symb h = PStr ''0''"
  then show "keeps_holder symb (DFin 0) h"
    by (simp add: keeps_holder_def Decimal_of_str_0)
next
  assume "holder_balance symb h = PStr ''0''"
  then show "\<not> keeps_holder symb (DFin 1) h"
    by (simp add: keeps_holder_def Decimal_of_str_0)
next
  assume "holders_page symb min_balance page all_holders = Inr out"
  from holders_page_sound [OF this]
  show "out = all_holders
                @ map (\<lambda>h. \<lparr>hd_owner_address = PStr (address h),
                              hd_balance = holder_balance symb h\<rparr>)
                    (filter (keeps_holder symb min_balance) page)"
    by simp
next
  assume "\<forall>h\<in>set page. \<exists>d keep. Decimal (holder_balance symb h) = Inr d
                                \<and> dec_ge d min_balance = Inr keep"
  then show "holders_page symb min_balance page all_holders
            = Inr (all_holders
                   @ map (\<lambda>h. \<lparr>hd_owner_address = PStr (address h),
                                 hd_balance = holder_balance symb h\<rparr>)
                       (filter (keeps_holder symb min_balance) page))"
    by (rule holders_page_returns)
next
  assume "bad \<in> set page
        \<and> (Decimal (holder_balance symb bad) = Inl e
            \<or> (\<exists>d. Decimal (holder_balance symb bad) = Inr d \<and> dec_ge d min_balance = Inl e))"
  then show "\<exists>e'. holders_page symb min_balance page all_holders = Inl e'"
    by (intro holders_page_raises [where h = bad and e = e]) blast+
next
  assume h: "get_symbol_by_token_address get w0 token_address = (Inr symb, wa)
        \<and> holders_after_pages get symb min_balance n (0, [], wa) = Some (offset, acc, w)
        \<and> make_request get w ''addresses'' (holders_params offset symb)
          = (Inr (Addresses page), wb)
        \<and> page \<noteq> [] \<and> length page < page_limit"
  then have last: "fetch_holders pf get token_address min_balance w0
            = Some (case holders_page symb min_balance page acc of
                      Inl e \<Rightarrow> None
                    | Inr rows \<Rightarrow> except_return_None (format_holders_df pf rows), wb)"
    by (intro fetch_holders_last_page [where w = w and n = n and offset = offset]) blast+
  then show "fetch_holders pf get token_address min_balance w0
            = Some (case holders_page symb min_balance page acc of
                      Inl e \<Rightarrow> None
                    | Inr rows \<Rightarrow> except_return_None (format_holders_df pf rows), wb)" .
  show "\<forall>table w'.
          fetch_holders pf get token_address min_balance w0 = Some (Some table, w')
          \<longrightarrow> (\<exists>earlier latest.
                 table = earlier @ latest \<and> length earlier = length acc
                 \<and> list_all2
                      (\<lambda>h t. owner_address t = strip (address h)
                              \<and> to_decimal pf (holder_balance symb h) = Inr (balance t))
                      (filter (keeps_holder symb min_balance) page)
                      latest)"
  proof (intro allI impI)
    fix table w'
    assume "fetch_holders pf get token_address min_balance w0 = Some (Some table, w')"
    with last obtain rows where
      page: "holders_page symb min_balance page acc = Inr rows"
      and table: "format_holders_df pf rows = Inr table"
      by (auto simp: except_return_None_def split: sum.splits)
    then show "\<exists>earlier latest.
                 table = earlier @ latest \<and> length earlier = length acc
                 \<and> list_all2
                      (\<lambda>h t. owner_address t = strip (address h)
                              \<and> to_decimal pf (holder_balance symb h) = Inr (balance t))
                      (filter (keeps_holder symb min_balance) page)
                      latest"
      by (rule fetch_holders_table_rows)
  qed
next
  assume "get_symbol_by_token_address get w0 token_address = (Inr symb, wa)
        \<and> make_request get wa ''addresses'' (holders_params 0 symb)
          = (Inr (Addresses page), wb)
        \<and> length page < page_limit
        \<and> (\<forall>h\<in>set page. \<exists>s keep. holder_balance symb h = PStr s
                \<and> Decimal_of_str s = Inr (val h)
                \<and> dec_ge (val h) min_balance = Inr keep)
        \<and> (\<exists>h\<in>set page. keeps_holder symb min_balance h)"
  then show "fetch_holders pf get token_address min_balance w0
            = Some (Some (map (\<lambda>h. \<lparr>owner_address = strip (address h), balance = val h\<rparr>)
                            (filter (keeps_holder symb min_balance) page)), wb)"
    by (intro fetch_holders_first_page [where wa = wa]) blast+
qed


lemma holder_balance_none: "holder_balance ''SOUL'' holder_none = PStr ''0''"
  by (simp add: holder_balance_def holder_none_def)

lemma holder_balance_malformed: "holder_balance ''SOUL'' holder_malformed = PStr ''abc''"
  by (simp add: holder_balance_def holder_malformed_def)

lemma keeps_holder_5: "keeps_holder ''SOUL'' (DFin m) holder_5 \<longleftrightarrow> m \<le> 5"
  by (simp add: keeps_holder_def holder_balance_5 Decimal_of_str_5)

lemma keeps_holder_none: "keeps_holder ''SOUL'' (DFin m) holder_none \<longleftrightarrow> m \<le> 0"
  by (simp add: keeps_holder_def holder_balance_none Decimal_of_str_0)

theorem holders_filtered_by_balance_witness:
  "holder_balance ''SOUL'' holder_none = PStr ''0''
   \<and> holder_balance ''SOUL'' holder_5 = PStr ''5''
   \<and> fetch_holders utc_platform (explorer ''SOUL'' [holder_5, holder_none] [] [] [] []) ''P2K''
        (DFin 0) 0 = Some (Some [holder_row_5, holder_row_0], 0)
   \<and> fetch_holders utc_platform (explorer ''SOUL'' [holder_5, holder_none] [] [] [] []) ''P2K''
        (DFin 1) 0 = Some (Some [holder_row_5], 0)
   \<and> fetch_holders utc_platform (explorer ''SOUL'' [holder_none] [] [] [] []) ''P2K''
        (DFin 0) 0 = Some (Some [holder_row_0], 0)
   \<and> fetch_holders utc_platform (explorer ''SOUL'' [holder_none] [] [] [] []) ''P2K''
        (DFin 1) 0 = Some (None, 0)
   \<and> holders_page ''SOUL'' (DFin 1) [holder_5, holder_none] []
       = Inr [\<lparr>hd_owner_address = PStr ''P2KA'', hd_balance = PStr ''5''\<rparr>]"
proof -
  let ?both = "explorer ''SOUL'' [holder_5, holder_none] [] [] [] [] :: nat transport"
  let ?one = "explorer ''SOUL'' [holder_none] [] [] [] [] :: nat transport"
  let ?val = "\<lambda>h. if h = holder_5 then DFin 5 else DFin 0"
  have neq: "holder_none \<noteq> holder_5"
    by (simp add: holder_5_def holder_none_def)
  have addr: "address holder_5 = ''P2KA''" "address holder_none = ''P2KB''"
    by (simp_all add: holder_5_def holder_none_def)
  have bal: "balances holder_5 = [\<lparr>amount = PStr ''7'', bal_token_symbol = ''KCAL''\<rparr>,
                  \<lparr>amount = PStr ''5'', bal_token_symbol = ''SOUL''\<rparr>]"
    "balances holder_none = [\<lparr>amount = PStr ''7'', bal_token_symbol = ''KCAL''\<rparr>]"
    by (simp_all add: holder_5_def holder_none_def)
  have none: "holder_balance ''SOUL'' holder_none = PStr ''0''"
    using holders_filtered_by_balance [where h = holder_none and symb = "''SOUL''",
        THEN conjunct1] bal
    by simp
  have five: "holder_balance ''SOUL'' holder_5 = PStr ''5''"
    using holders_filtered_by_balance
      [where h = holder_5 and symb = "''SOUL''"
         and pre = "[\<lparr>amount = PStr ''7'', bal_token_symbol = ''KCAL''\<rparr>]"
         and b = "\<lparr>amount = PStr ''5'', bal_token_symbol = ''SOUL''\<rparr>" and post = "[]",
       THEN conjunct2, THEN conjunct1] bal
    by simp
  have resolved: "get_symbol_by_token_address ?both 0 ''P2K'' = (Inr ''SOUL'', 0)"
    "get_symbol_by_token_address ?one 0 ''P2K'' = (Inr ''SOUL'', 0)"
    by (simp_all add: get_symbol_explorer)
  have request: "make_request ?both 0 ''addresses'' (holders_params 0 ''SOUL'')
                   = (Inr (Addresses [holder_5, holder_none]), 0)"
    "make_request ?one 0 ''addresses'' (holders_params 0 ''SOUL'')
       = (Inr (Addresses [holder_none]), 0)"
    by (simp_all add: make_request_explorer_holders)
  have short: "length [holder_5, holder_none] < page_limit" "length [holder_none] < page_limit"
    by (simp_all add: page_limit_def)
  have converts: "\<forall>h\<in>set [holder_5, holder_none].
                    \<exists>s keep. holder_balance ''SOUL'' h = PStr s
                       \<and> Decimal_of_str s = Inr (?val h)
                       \<and> dec_ge (?val h) (DFin m) = Inr keep" for m
    using neq by (auto simp: five none Decimal_of_str_5 Decimal_of_str_0)
  have converts_one: "\<forall>h\<in>set [holder_none].
                    \<exists>s keep. holder_balance ''SOUL'' h = PStr s
                       \<and> Decimal_of_str s = Inr (?val h)
                       \<and> dec_ge (?val h) (DFin 0) = Inr keep"
    using neq by (auto simp: none Decimal_of_str_0)
  have some: "\<exists>h\<in>set [holder_5, holder_none]. keeps_holder ''SOUL'' (DFin 0) h"
    "\<exists>h\<in>set [holder_5, holder_none]. keeps_holder ''SOUL'' (DFin 1) h"
    "\<exists>h\<in>set [holder_none]. keeps_holder ''SOUL'' (DFin 0) h"
    by (simp_all add: keeps_holder_5 keeps_holder_none)
  note first_page = holders_filtered_by_balance
    [THEN conjunct2, THEN conjunct2, THEN conjunct2, THEN conjunct2, THEN conjunct2,
     THEN conjunct2, THEN conjunct2, THEN conjunct2, THEN conjunct2, rule_format]
  have all: "fetch_holders utc_platform ?both ''P2K'' (DFin 0) 0
               = Some (Some [holder_row_5, holder_row_0], 0)"
    using first_page
      [where get = ?both and ?w0.0 = 0 and token_address = "''P2K''" and symb = "''SOUL''"
         and wa = 0 and page = "[holder_5, holder_none]" and wb = 0 and val = ?val
         and min_balance = "DFin 0" and pf = utc_platform,
       OF conjI [OF resolved(1) conjI [OF request(1) conjI [OF short(1)
            conjI [OF converts some(1)]]]]]
      neq
    by (simp add: keeps_holder_5 keeps_holder_none addr holder_row_5_def holder_row_0_def
        strip_def is_space_def)
  have above: "fetch_holders utc_platform ?both ''P2K'' (DFin 1) 0
                 = Some (Some [holder_row_5], 0)"
    using first_page
      [where get = ?both and ?w0.0 = 0 and token_address = "''P2K''" and symb = "''SOUL''"
         and wa = 0 and page = "[holder_5, holder_none]" and wb = 0 and val = ?val
         and min_balance = "DFin 1" and pf = utc_platform,
       OF conjI [OF resolved(1) conjI [OF request(1) conjI [OF short(1)
            conjI [OF converts some(2)]]]]]
      neq
    by (simp add: keeps_holder_5 keeps_holder_none addr holder_row_5_def strip_def is_space_def)
  have zero: "fetch_holders utc_platform ?one ''P2K'' (DFin 0) 0
                = Some (Some [holder_row_0], 0)"
    using first_page
      [where get = ?one and ?w0.0 = 0 and token_address = "''P2K''" and symb = "''SOUL''"
         and wa = 0 and page = "[holder_none]" and wb = 0 and val = ?val
         and min_balance = "DFin 0" and pf = utc_platform,
       OF conjI [OF resolved(2) conjI [OF request(2) conjI [OF short(2)
            conjI [OF converts_one some(3)]]]]]
      neq
    by (simp add: keeps_holder_none addr holder_row_0_def strip_def is_space_def)
  have page_none: "holders_page ''SOUL'' (DFin 1) [holder_none] [] = Inr []"
    by (simp add: none Decimal_of_str_0)
  have start: "holders_after_pages ?one ''SOUL'' (DFin 1) 0 (0, [], 0) = Some (0, [], 0)"
    by simp
  have dropped: "fetch_holders utc_platform ?one ''P2K'' (DFin 1) 0 = Some (None, 0)"
    using holders_filtered_by_balance
      [where get = ?one and ?w0.0 = 0 and token_address = "''P2K''" and symb = "''SOUL''"
         and wa = 0 and n = 0 and offset = 0 and acc = "[]" and w = 0
         and page = "[holder_none]" and wb = 0 and min_balance = "DFin 1"
         and pf = utc_platform,
       THEN conjunct2, THEN conjunct2, THEN conjunct2, THEN conjunct2, THEN conjunct2,
       THEN conjunct2, THEN conjunct2, THEN conjunct2, THEN conjunct1, rule_format,
       THEN conjunct1,
       OF conjI [OF resolved(2) conjI [OF start conjI [OF request(2) conjI [OF _ short(2)]]]]]
    by (simp add: page_none format_holders_df_def except_return_None_def
        del: holders_page.simps)
  have page_both: "holders_page ''SOUL'' (DFin 1) [holder_5, holder_none] []
                     = Inr [\<lparr>hd_owner_address = PStr ''P2KA'', hd_balance = PStr ''5''\<rparr>]"
    by (simp add: none five addr Decimal_of_str_0 Decimal_of_str_5)
  from none five all above zero dropped page_both show ?thesis
    by simp
qed

lemma holders_loop_malformed:
  "holders_loop (explorer ''SOUL'' [holder_5, holder_malformed] [] [] [] []) ''SOUL'' (DFin 0)
     0 [] 0 = Some (Inl InvalidOperation, 0)"
  by (subst holders_loop.simps)
     (simp add: make_request_explorer_holders holder_balance_5 holder_balance_malformed
        Decimal_of_str_5 Decimal_of_str_abc)

theorem holders_filtered_by_balance_counterexample:
  "holder_balance ''SOUL'' holder_5 = PStr ''5''
   \<and> Decimal (PStr ''5'') = Inr (DFin 5)
   \<and> dec_ge (DFin 5) (DFin 0) = Inr True
   \<and> holders_page ''SOUL'' (DFin 0) [holder_5, holder_malformed] [] = Inl InvalidOperation
   \<and> fetch_holders utc_platform
        (explorer ''SOUL'' [holder_5, holder_malformed] [] [] [] []) ''P2K'' (DFin 0) 0
       = Some (None, 0)"
proof -
  have fetch: "fetch_holders utc_platform
        (explorer ''SOUL'' [holder_5, holder_malformed] [] [] [] []) ''P2K'' (DFin 0) 0
       = Some (None, 0)"
    by (simp add: fetch_holders_def fetch_holders_try_def get_symbol_explorer
        holders_loop_malformed except_return_None_def)
  have page: "holders_page ''SOUL'' (DFin 0) [holder_5, holder_malformed] []
                = Inl InvalidOperation"
    by (simp add: holder_balance_5 holder_balance_malformed Decimal_of_str_5
        Decimal_of_str_abc)
  from fetch page show ?thesis
    by (simp add: holder_balance_5 Decimal_of_str_5 del: holders_page.simps)
qed

subsection \<open>Pages of unequal length\<close>

lemma transfers_page_short:
  "sends \<noteq> [] \<Longrightarrow> length receives < index + length sends \<Longrightarrow>
     \<exists>e. transfers_page addresses fo mv index sends receives acc = Inl e"
proof (induction sends arbitrary: index acc)
  case Nil
  then show ?case by simp
next
  case (Cons s rest)
  show ?case
  proof (cases "index < length receives")
    case False
    then show ?thesis by simp
  next
    case True
    with Cons.prems have "rest \<noteq> []" "length receives < Suc index + length rest"
      by auto
    then have "\<exists>e. transfers_page addresses fo mv (Suc index) rest receives acc' = Inl e" for acc'
      by (rule Cons.IH)
    then show ?thesis
      using True by (auto simp: Let_def split: sum.splits)
  qed
qed

lemma early_transfers_page_short:
  "sends \<noteq> [] \<Longrightarrow> length receives < index + length sends \<Longrightarrow>
     \<exists>e. early_transfers_page symb index sends receives acc = Inl e"
proof (induction sends arbitrary: index acc)
  case Nil
  then show ?case by simp
next
  case (Cons s rest)
  show ?case
  proof (cases "index < length receives")
    case False
    then show ?thesis by simp
  next
    case True
    with Cons.prems have "rest \<noteq> []" "length receives < Suc index + length rest"
      by auto
    then have "\<exists>e. early_transfers_page symb (Suc index) rest receives acc' = Inl e" for acc'
      by (rule Cons.IH)
    then show ?thesis
      using True by (auto simp: Let_def split: sum.splits)
  qed
qed

lemma transfers_page_take:
  "transfers_page addresses fo mv index sends (take (index + length sends) receives) acc
     = transfers_page addresses fo mv index sends receives acc"
proof (induction sends arbitrary: index acc receives)
  case Nil
  then show ?case by simp
next
  case (Cons s rest)
  have IH: "transfers_page addresses fo mv (Suc index) rest
              (take (Suc (index + length rest)) receives) acc'
            = transfers_page addresses fo mv (Suc index) rest receives acc'" for acc'
    using Cons.IH [of "Suc index" receives acc'] by simp
  show ?case
    using IH by (auto simp: Let_def split: sum.splits)
qed

lemma early_transfers_page_take:
  "early_transfers_page symb index sends (take (index + length sends) receives) acc
     = early_transfers_page symb index sends receives acc"
proof (induction sends arbitrary: index acc receives)
  case Nil
  then show ?case by simp
next
  case (Cons s rest)
  have IH: "early_transfers_page symb (Suc index) rest
              (take (Suc (index + length rest)) receives) acc'
            = early_transfers_page symb (Suc index) rest receives acc'" for acc'
    using Cons.IH [of "Suc index" receives acc'] by simp
  show ?case
    using IH by (auto simp: Let_def split: sum.splits)
qed

lemma events_loop_page_raises:
  assumes "make_request get w ''events'' (events_params ''TokenSend'' dg dl offset symb)
             = (Inr (Events sends), w1)"
    and "make_request get w1 ''events'' (events_params ''TokenReceive'' dg dl offset symb)
             = (Inr (Events receives), w2)"
    and "sends \<noteq> []" and "receives \<noteq> []"
    and "page sends receives acc = Inl e"
  shows "events_loop get page dg dl symb offset acc w = Some (Inl e, w2)"
  using assms by (subst events_loop.simps) simp

lemma Decimal_float_0_005:
  "Decimal (PFloat float_0_005) = Inr (DFin (5764607523034235 / 2 ^ 60))"
  by (simp add: float_0_005_def)

lemma early_transfers_page_zip:
  assumes "\<forall>s\<in>set sends. py_int (ev_date s) = Inr (ts s)
                             \<and> (symb = ''KCAL'' \<longrightarrow> Decimal (ev_value s) = Inr (DFin (val s)))"
  shows "early_transfers_page symb index sends receives acc =
           (if sends = [] \<or> index + length sends \<le> length receives
            then Inr (acc @ map (\<lambda>(s, r). \<lparr>tr_timestamp = PInt (ts s),
                                            tr_from_address = PStr (ev_address s),
                                            tr_to_address = PStr (ev_address r),
                                            tr_quantity = ev_value s,
                                            tr_transaction_hash = PStr (ev_transaction_hash s)\<rparr>)
                           (filter (\<lambda>(s, r). \<not> (symb = ''KCAL''
                                                  \<and> val s < 5764607523034235 / 2 ^ 60))
                              (zip sends (drop index receives))))
            else Inl IndexError)"
  using assms
proof (induction sends arbitrary: index acc)
  case Nil
  then show ?case by simp
next
  case (Cons s rest)
  show ?case
  proof (cases "index < length receives")
    case False
    then show ?thesis by simp
  next
    case True
    have dr: "drop index receives = receives ! index # drop (Suc index) receives"
      using True by (simp add: Cons_nth_drop_Suc)
    have conv: "py_int (ev_date s) = Inr (ts s)"
      "symb = ''KCAL'' \<longrightarrow> Decimal (ev_value s) = Inr (DFin (val s))"
      using Cons.prems by simp_all
    have rest: "\<forall>s\<in>set rest. py_int (ev_date s) = Inr (ts s)
                  \<and> (symb = ''KCAL'' \<longrightarrow> Decimal (ev_value s) = Inr (DFin (val s)))"
      using Cons.prems by simp
    note IH = Cons.IH [OF rest, of "Suc index"]
    show ?thesis
    proof (cases "symb = ''KCAL''")
      case kcal: True
      then have "Decimal (ev_value s) = Inr (DFin (val s))"
        using conv(2) by simp
      then show ?thesis
        using True conv(1) kcal IH
        by (auto simp: Let_def transfer_of_def dr float_0_005_def)
    next
      case False
      then show ?thesis
        using True conv(1) IH
        by (auto simp: Let_def transfer_of_def dr)
    qed
  qed
qed

lemma fetch_events_try_raises:
  assumes "get_symbol_by_token_address get w0 a = (Inr symb, w1)"
    and "date_param pf sd = Inr dg" and "date_param pf ed = Inr dl"
    and "events_loop get (page symb) dg dl symb 0 [] w1 = Some (Inl e, w2)"
  shows "fetch_events_try pf get page a sd ed w0 = Some (Inl e, w2)"
  using assms by (simp add: fetch_events_try_def)

text \<open>
  Claim C9. In \<open>fetch_transfers\<close> and \<open>fetch_early_transfers\<close>, when the loop, after any
  number of full pages, gets a page whose receive list is not empty and shorter than its
  send list, the page raises and the operation returns \<open>None\<close>: whatever was accumulated
  is discarded, nothing is truncated to the shorter list. When no conversion of the page
  fails first, the exception is the \<open>IndexError\<close> of the read past the end of the receive
  list. Receive events at positions past the length of the send list have no influence
  on what a page gives.
\<close>

theorem short_receive_list_fails:
  assumes resolved: "get_symbol_by_token_address get w0 token_address = (Inr symb, w1)"
    and dates: "date_param pf start_date = Inr dg" "date_param pf end_date = Inr dl"
    and send_page: "make_request get w ''events'' (events_params ''TokenSend'' dg dl offset symb)
                      = (Inr (Events sends), w')"
    and receive_page: "make_request get w' ''events''
                         (events_params ''TokenReceive'' dg dl offset symb)
                      = (Inr (Events receives), w2)"
    and shorter: "receives \<noteq> []" "length receives < length sends"
  shows "(events_after_pages get (transfers_page addresses fo mv 0) dg dl symb n (0, [], w1)
            = Some (offset, acc, w)
          \<longrightarrow> fetch_transfers pf get token_address addresses start_date end_date fo mv w0
                = Some (None, w2))
       \<and> (events_after_pages get (early_transfers_page symb 0) dg dl symb n (0, [], w1)
            = Some (offset, acc, w)
          \<longrightarrow> fetch_early_transfers pf get token_address start_date end_date w0
                = Some (None, w2))
       \<and> ((\<forall>s\<in>set sends. Decimal (ev_value s) = Inr (DFin (val s))
                              \<and> py_int (ev_date s) = Inr (ts s))
          \<longrightarrow> transfers_page addresses fo (DFin m) 0 sends receives acc = Inl IndexError
              \<and> early_transfers_page symb 0 sends receives acc = Inl IndexError)
       \<and> transfers_page addresses fo mv 0 ss (take (length ss) rs) acc'
           = transfers_page addresses fo mv 0 ss rs acc'
       \<and> early_transfers_page symb 0 ss (take (length ss) rs) acc'
           = early_transfers_page symb 0 ss rs acc'"
proof (intro conjI impI)
  have ne: "sends \<noteq> []"
    using shorter by auto
  have len: "length receives < 0 + length sends"
    using shorter by simp
  {
    fix page :: "string \<Rightarrow> event_json list \<Rightarrow> event_json list \<Rightarrow> transfer_dict list
                   \<Rightarrow> exn + transfer_dict list"
    assume raises: "\<exists>e. page symb sends receives acc = Inl e"
      and before: "events_after_pages get (page symb) dg dl symb n (0, [], w1)
                     = Some (offset, acc, w)"
    from raises obtain e where e: "page symb sends receives acc = Inl e" ..
    have "events_loop get (page symb) dg dl symb 0 [] w1
            = events_loop get (page symb) dg dl symb offset acc w"
      using before by (rule events_after_pages_loop)
    also have "\<dots> = Some (Inl e, w2)"
      using send_page receive_page ne shorter(1) e by (rule events_loop_page_raises)
    finally have "fetch_events_try pf get page token_address start_date end_date w0
                    = Some (Inl e, w2)"
      using resolved dates by (simp add: fetch_events_try_raises)
    then have "\<exists>e. fetch_events_try pf get page token_address start_date end_date w0
                    = Some (Inl e, w2)" ..
  }
  note failing = this
  {
    assume "events_after_pages get (transfers_page addresses fo mv 0) dg dl symb n (0, [], w1)
              = Some (offset, acc, w)"
    with failing [of "\<lambda>token_symbol. transfers_page addresses fo mv 0"]
      transfers_page_short [OF ne len, of addresses fo mv acc]
    show "fetch_transfers pf get token_address addresses start_date end_date fo mv w0
            = Some (None, w2)"
      by (auto simp: fetch_transfers_def except_return_None_def)
  }
  {
    assume "events_after_pages get (early_transfers_page symb 0) dg dl symb n (0, [], w1)
              = Some (offset, acc, w)"
    with failing [of "\<lambda>token_symbol. early_transfers_page token_symbol 0"]
      early_transfers_page_short [OF ne len, of symb acc]
    show "fetch_early_transfers pf get token_address start_date end_date w0 = Some (None, w2)"
      by (auto simp: fetch_early_transfers_def except_return_None_def)
  }
  {
    assume conv: "\<forall>s\<in>set sends. Decimal (ev_value s) = Inr (DFin (val s))
                                 \<and> py_int (ev_date s) = Inr (ts s)"
    show "transfers_page addresses fo (DFin m) 0 sends receives acc = Inl IndexError"
      using transfers_page_zip [OF conv, of addresses fo m 0 receives acc] ne shorter(2)
      by simp
    have conv': "\<forall>s\<in>set sends. py_int (ev_date s) = Inr (ts s)
                   \<and> (symb = ''KCAL'' \<longrightarrow> Decimal (ev_value s) = Inr (DFin (val s)))"
      using conv by simp
    show "early_transfers_page symb 0 sends receives acc = Inl IndexError"
      using early_transfers_page_zip [OF conv', of 0 receives acc] ne shorter(2)
      by simp
  }
  show "transfers_page addresses fo mv 0 ss (take (length ss) rs) acc'
           = transfers_page addresses fo mv 0 ss rs acc'"
    using transfers_page_take [of addresses fo mv 0 ss rs acc'] by simp
  show "early_transfers_page symb 0 ss (take (length ss) rs) acc'
           = early_transfers_page symb 0 ss rs acc'"
    using early_transfers_page_take [of symb 0 ss rs acc'] by simp
qed

theorem short_receive_list_fails_witness:
  "fetch_transfers utc_platform (explorer ''SOUL'' [] [send_A, send_A] [receive_B] [] [])
       ''P2K'' None None None False (DFin 0) 0 = Some (None, 0)
   \<and> fetch_early_transfers utc_platform
       (explorer ''SOUL'' [] [send_A, send_A] [receive_B] [] []) ''P2K'' None None 0
       = Some (None, 0)
   \<and> transfers_page None False (DFin 0) 0 [send_A, send_A] [receive_B] [] = Inl IndexError
   \<and> early_transfers_page ''SOUL'' 0 [send_A, send_A] [receive_B] [] = Inl IndexError
   \<and> transfers_page None False (DFin 0) 0 [send_A] [receive_B, send_A] [] = Inr [dict_A_B]
   \<and> early_transfers_page ''SOUL'' 0 [send_A] [receive_B, send_A] [] = Inr [dict_A_B]"
proof -
  let ?get = "explorer ''SOUL'' [] [send_A, send_A] [receive_B] [] [] :: nat transport"
  have resolved: "get_symbol_by_token_address ?get 0 ''P2K'' = (Inr ''SOUL'', 0)"
    by (rule get_symbol_explorer)
  have dates: "date_param utc_platform None = Inr PNone"
    by (simp add: date_param_def)
  have send_page: "make_request ?get 0 ''events''
                     (events_params ''TokenSend'' PNone PNone 0 ''SOUL'')
                   = (Inr (Events [send_A, send_A]), 0)"
    by (simp add: make_request_explorer_events)
  have receive_page: "make_request ?get 0 ''events''
                        (events_params ''TokenReceive'' PNone PNone 0 ''SOUL'')
                      = (Inr (Events [receive_B]), 0)"
    by (simp add: make_request_explorer_events)
  have shorter: "[receive_B] \<noteq> []" "length [receive_B] < length [send_A, send_A]"
    by simp_all
  have conv: "\<forall>s\<in>set [send_A, send_A]. Decimal (ev_value s) = Inr (DFin 5)
                                         \<and> py_int (ev_date s) = Inr 100"
    by (simp add: send_A_def Decimal_of_str_5)
  have page: "transfers_page None False (DFin 0) 0 [send_A] [receive_B] [] = Inr [dict_A_B]"
    using transfers_page_A_B by (simp add: dict_A_B_def)
  have early_page: "early_transfers_page ''SOUL'' 0 [send_A] [receive_B] [] = Inr [dict_A_B]"
    using early_transfers_page_A_B by (simp add: dict_A_B_def)
  note inst = short_receive_list_fails
    [OF resolved dates dates send_page receive_page shorter,
     where addresses = None and fo = False and mv = "DFin 0" and m = 0 and n = 0
       and acc = "[]" and val = "\<lambda>s. 5" and ts = "\<lambda>s. 100"
       and ss = "[send_A]" and rs = "[receive_B, send_A]" and acc' = "[]"]
  note fails = inst [THEN conjunct1]
    and early_fails = inst [THEN conjunct2, THEN conjunct1]
    and index_error = inst [THEN conjunct2, THEN conjunct2, THEN conjunct1]
    and extra = inst [THEN conjunct2, THEN conjunct2, THEN conjunct2, THEN conjunct1]
    and early_extra = inst [THEN conjunct2, THEN conjunct2, THEN conjunct2, THEN conjunct2]
  have a: "fetch_transfers utc_platform ?get ''P2K'' None None None False (DFin 0) 0
             = Some (None, 0)"
    using fails by simp
  have b: "fetch_early_transfers utc_platform ?get ''P2K'' None None 0 = Some (None, 0)"
    using early_fails by simp
  have c: "transfers_page None False (DFin 0) 0 [send_A, send_A] [receive_B] [] = Inl IndexError
           \<and> early_transfers_page ''SOUL'' 0 [send_A, send_A] [receive_B] [] = Inl IndexError"
    using index_error conv by (simp del: transfers_page.simps early_transfers_page.simps)
  have "transfers_page None False (DFin 0) 0 [send_A] [receive_B, send_A] []
          = transfers_page None False (DFin 0) 0 [send_A]
              (take (length [send_A]) [receive_B, send_A]) []"
    by (rule extra [symmetric])
  also have "\<dots> = Inr [dict_A_B]"
    using page by (simp del: transfers_page.simps)
  finally have d: "transfers_page None False (DFin 0) 0 [send_A] [receive_B, send_A] []
                     = Inr [dict_A_B]" .
  have "early_transfers_page ''SOUL'' 0 [send_A] [receive_B, send_A] []
          = early_transfers_page ''SOUL'' 0 [send_A]
              (take (length [send_A]) [receive_B, send_A]) []"
    by (rule early_extra [symmetric])
  also have "\<dots> = Inr [dict_A_B]"
    using early_page by (simp del: early_transfers_page.simps)
  finally have e: "early_transfers_page ''SOUL'' 0 [send_A] [receive_B, send_A] []
                     = Inr [dict_A_B]" .
  from a b c d e show ?thesis
    by (simp del: transfers_page.simps early_transfers_page.simps)
qed

subsection \<open>The dust filter of the early transfers\<close>

lemma Decimal_of_str_0_005: "Decimal_of_str ''0.005'' = Inr (DFin (5 / 1000))"
  by (simp add: Decimal_of_str_def strip_def is_space_def lower_def lower_char_def
      parse_decimal_literal_def is_digit_def digit_val_def nat_of_digits_def scale10_def)

text \<open>
  Claim C7. \<open>fetch_early_transfers\<close> applies no address and no minimum-value filter.
  For every token symbol other than \<open>KCAL\<close> each pair is appended. For \<open>KCAL\<close> a pair is
  skipped if and only if its send value is strictly below \<open>Decimal(0.005)\<close>, which is the
  exact value of the binary float nearest to 0.005 and lies strictly above 0.005: a send
  value of exactly 0.005 is skipped, although it is not strictly below 0.005.
\<close>

theorem early_transfers_dust_filter:
  assumes "index < length receives"
    and "py_int (ev_date event_send) = Inr ts"
    and "t = \<lparr>tr_timestamp = PInt ts,
              tr_from_address = PStr (ev_address event_send),
              tr_to_address = PStr (ev_address (receives ! index)),
              tr_quantity = ev_value event_send,
              tr_transaction_hash = PStr (ev_transaction_hash event_send)\<rparr>"
  shows "(Decimal (ev_value event_send) = Inr (DFin v) \<longrightarrow>
            early_transfers_page ''KCAL'' index (event_send # rest) receives all_transfers
            = early_transfers_page ''KCAL'' (index + 1) rest receives
                (if v < 5764607523034235 / 2 ^ 60 then all_transfers else all_transfers @ [t]))
       \<and> (token_symbol \<noteq> ''KCAL'' \<longrightarrow>
            early_transfers_page token_symbol index (event_send # rest) receives all_transfers
            = early_transfers_page token_symbol (index + 1) rest receives (all_transfers @ [t]))
       \<and> (5 :: rat) / 1000 < 5764607523034235 / 2 ^ 60"
  using assms by (simp add: Let_def transfer_of_def float_0_005_def)

theorem early_transfers_dust_filter_witness:
  "Decimal (ev_value send_0_005) = Inr (DFin (5 / 1000))
   \<and> \<not> (5 :: rat) / 1000 < 5 / 1000
   \<and> early_transfers_page ''KCAL'' 0 [send_0_005] [receive_B] [] = Inr []"
proof -
  have idx: "0 < length [receive_B]"
    by simp
  have date: "py_int (ev_date send_0_005) = Inr 100"
    by (simp add: send_0_005_def)
  have val: "Decimal (ev_value send_0_005) = Inr (DFin (5 / 1000))"
    by (simp add: send_0_005_def Decimal_of_str_0_005)
  note inst = early_transfers_dust_filter
    [OF idx date refl, where v = "5 / 1000" and rest = "[]" and all_transfers = "[]",
     THEN conjunct1]
  have "early_transfers_page ''KCAL'' 0 [send_0_005] [receive_B] [] = Inr []"
    using inst val by (simp del: early_transfers_page.simps(2))
  with val show ?thesis by simp
qed

subsection \<open>Exceptions at the boundary of an operation\<close>

lemma unresolved_symbol_returns_None:
  assumes "get_symbol_by_token_address get w a = (Inl e, w')"
  shows "fetch_token_info pf get a w = (None, w')"
    and "fetch_holders pf get a mb w = Some (None, w')"
    and "fetch_transfers pf get a A sd ed fo mv w = Some (None, w')"
    and "fetch_early_transfers pf get a sd ed w = Some (None, w')"
    and "fetch_prices pf get a w = (None, w')"
  using assms
  by (simp_all add: fetch_token_info_def fetch_token_info_try_def fetch_holders_def
      fetch_holders_try_def fetch_transfers_def fetch_early_transfers_def fetch_events_try_def
      fetch_prices_def fetch_prices_try_def except_return_None_def)

lemma holders_loop_request_raises:
  "make_request get w ''addresses'' (holders_params offset symb) = (Inl e, w') \<Longrightarrow>
     holders_loop get symb mb offset acc w = Some (Inl e, w')"
  by (subst holders_loop.simps) simp

lemma events_loop_send_request_raises:
  "make_request get w ''events'' (events_params ''TokenSend'' dg dl offset symb) = (Inl e, w') \<Longrightarrow>
     events_loop get page dg dl symb offset acc w = Some (Inl e, w')"
  by (subst events_loop.simps) simp

lemma events_loop_receive_request_raises:
  "make_request get w ''events'' (events_params ''TokenSend'' dg dl offset symb) = (Inr r, w1) \<Longrightarrow>
   make_request get w1 ''events'' (events_params ''TokenReceive'' dg dl offset symb) = (Inl e, w')
     \<Longrightarrow> events_loop get page dg dl symb offset acc w = Some (Inl e, w')"
  by (subst events_loop.simps) simp

text \<open>
  Claim C4. Each fetch operation (token info, holders, transfers, early transfers,
  prices) runs its whole body under \<open>except Exception\<close>: whenever the body raises, the
  operation returns \<open>None\<close>, with the world as the body left it. So it does when the
  transport raises on the symbol request, when that request does not succeed (a status
  other than 200, a body that is not JSON) or resolves no token, when a page request of
  a loop raises, and when a page cannot be parsed. In the model an operation has no way
  to raise: its result is a table, \<open>None\<close>, or no return at all for a loop that never ends.
\<close>

theorem fetch_operations_return_None_on_exceptions:
  "(fetch_token_info_try pf get a w = (Inl e, w') \<longrightarrow> fetch_token_info pf get a w = (None, w'))
   \<and> (fetch_holders_try pf get a mb w = Some (Inl e, w') \<longrightarrow>
        fetch_holders pf get a mb w = Some (None, w'))
   \<and> (fetch_events_try pf get (\<lambda>token_symbol. transfers_page A fo mv 0) a sd ed w
          = Some (Inl e, w') \<longrightarrow>
        fetch_transfers pf get a A sd ed fo mv w = Some (None, w'))
   \<and> (fetch_events_try pf get (\<lambda>token_symbol. early_transfers_page token_symbol 0) a sd ed w
          = Some (Inl e, w') \<longrightarrow>
        fetch_early_transfers pf get a sd ed w = Some (None, w'))
   \<and> (fetch_prices_try pf get a w = (Inl e, w') \<longrightarrow> fetch_prices pf get a w = (None, w'))
   \<and> ((get w (base_url @ ''/addresses'') [(''address'', PStr a)] = (Inl e, w')
         \<or> (\<exists>resp. get w (base_url @ ''/addresses'') [(''address'', PStr a)] = (Inr resp, w')
                    \<and> (status_code resp \<noteq> 200 \<or> (\<exists>e'. json resp = Inl e')
                        \<or> json resp = Inr (Addresses []))))
        \<longrightarrow> fetch_token_info pf get a w = (None, w')
            \<and> fetch_holders pf get a mb w = Some (None, w')
            \<and> fetch_transfers pf get a A sd ed fo mv w = Some (None, w')
            \<and> fetch_early_transfers pf get a sd ed w = Some (None, w')
            \<and> fetch_prices pf get a w = (None, w'))
   \<and> (get_symbol_by_token_address get w a = (Inr symb, w1) \<longrightarrow>
        (holders_loop get symb mb 0 [] w1 = Some (Inl e, w') \<longrightarrow>
           fetch_holders pf get a mb w = Some (None, w'))
        \<and> (date_param pf sd = Inr dg \<and> date_param pf ed = Inr dl
             \<and> events_loop get (transfers_page A fo mv 0) dg dl symb 0 [] w1 = Some (Inl e, w')
            \<longrightarrow> fetch_transfers pf get a A sd ed fo mv w = Some (None, w'))
        \<and> (date_param pf sd = Inr dg \<and> date_param pf ed = Inr dl
             \<and> events_loop get (early_transfers_page symb 0) dg dl symb 0 [] w1
                 = Some (Inl e, w')
            \<longrightarrow> fetch_early_transfers pf get a sd ed w = Some (None, w')))
   \<and> (make_request get w2 ''addresses'' (holders_params offset symb) = (Inl e, w3) \<longrightarrow>
        holders_loop get symb mb offset hs w2 = Some (Inl e, w3))
   \<and> (make_request get w2 ''events'' (events_params ''TokenSend'' dg dl offset symb)
         = (Inl e, w3) \<longrightarrow>
        events_loop get page dg dl symb offset ts w2 = Some (Inl e, w3))
   \<and> (make_request get w2 ''events'' (events_params ''TokenSend'' dg dl offset symb)
         = (Inr r, w3)
        \<and> make_request get w3 ''events'' (events_params ''TokenReceive'' dg dl offset symb)
           = (Inl e, w4) \<longrightarrow>
        events_loop get page dg dl symb offset ts w2 = Some (Inl e, w4))"
proof (intro conjI impI)
  assume "fetch_token_info_try pf get a w = (Inl e, w')"
  then show "fetch_token_info pf get a w = (None, w')"
    by (simp add: fetch_token_info_def except_return_None_def)
next
  assume "fetch_holders_try pf get a mb w = Some (Inl e, w')"
  then show "fetch_holders pf get a mb w = Some (None, w')"
    by (simp add: fetch_holders_def except_return_None_def)
next
  assume "fetch_events_try pf get (\<lambda>token_symbol. transfers_page A fo mv 0) a sd ed w
          = Some (Inl e, w')"
  then show "fetch_transfers pf get a A sd ed fo mv w = Some (None, w')"
    by (simp add: fetch_transfers_def except_return_None_def)
next
  assume "fetch_events_try pf get (\<lambda>token_symbol. early_transfers_page token_symbol 0) a sd ed w
          = Some (Inl e, w')"
  then show "fetch_early_transfers pf get a sd ed w = Some (None, w')"
    by (simp add: fetch_early_transfers_def except_return_None_def)
next
  assume "fetch_prices_try pf get a w = (Inl e, w')"
  then show "fetch_prices pf get a w = (None, w')"
    by (simp add: fetch_prices_def except_return_None_def)
next
  assume failure: "get w (base_url @ ''/addresses'') [(''address'', PStr a)] = (Inl e, w')
         \<or> (\<exists>resp. get w (base_url @ ''/addresses'') [(''address'', PStr a)] = (Inr resp, w')
                    \<and> (status_code resp \<noteq> 200 \<or> (\<exists>e'. json resp = Inl e')
                        \<or> json resp = Inr (Addresses [])))"
  have "\<exists>e'. get_symbol_by_token_address get w a = (Inl e', w')"
    using failure
    by (auto simp: get_symbol_by_token_address_def make_request_def)
  then obtain e' where unresolved: "get_symbol_by_token_address get w a = (Inl e', w')" ..
  show "fetch_token_info pf get a w = (None, w')"
    and "fetch_holders pf get a mb w = Some (None, w')"
    and "fetch_transfers pf get a A sd ed fo mv w = Some (None, w')"
    and "fetch_early_transfers pf get a sd ed w = Some (None, w')"
    and "fetch_prices pf get a w = (None, w')"
    by (rule unresolved_symbol_returns_None [OF unresolved])+
next
  assume "get_symbol_by_token_address get w a = (Inr symb, w1)"
    and "holders_loop get symb mb 0 [] w1 = Some (Inl e, w')"
  then show "fetch_holders pf get a mb w = Some (None, w')"
    by (simp add: fetch_holders_def fetch_holders_try_def except_return_None_def)
next
  assume "get_symbol_by_token_address get w a = (Inr symb, w1)"
    and "date_param pf sd = Inr dg \<and> date_param pf ed = Inr dl
             \<and> events_loop get (transfers_page A fo mv 0) dg dl symb 0 [] w1 = Some (Inl e, w')"
  then show "fetch_transfers pf get a A sd ed fo mv w = Some (None, w')"
    by (simp add: fetch_transfers_def fetch_events_try_def except_return_None_def)
next
  assume "get_symbol_by_token_address get w a = (Inr symb, w1)"
    and "date_param pf sd = Inr dg \<and> date_param pf ed = Inr dl
             \<and> events_loop get (early_transfers_page symb 0) dg dl symb 0 [] w1
                 = Some (Inl e, w')"
  then show "fetch_early_transfers pf get a sd ed w = Some (None, w')"
    by (simp add: fetch_early_transfers_def fetch_events_try_def except_return_None_def)
next
  assume "make_request get w2 ''addresses'' (holders_params offset symb) = (Inl e, w3)"
  then show "holders_loop get symb mb offset hs w2 = Some (Inl e, w3)"
    by (rule holders_loop_request_raises)
next
  assume "make_request get w2 ''events'' (events_params ''TokenSend'' dg dl offset symb)
         = (Inl e, w3)"
  then show "events_loop get page dg dl symb offset ts w2 = Some (Inl e, w3)"
    by (rule events_loop_send_request_raises)
next
  assume "make_request get w2 ''events'' (events_params ''TokenSend'' dg dl offset symb)
         = (Inr r, w3)
        \<and> make_request get w3 ''events'' (events_params ''TokenReceive'' dg dl offset symb)
           = (Inl e, w4)"
  then show "events_loop get page dg dl symb offset ts w2 = Some (Inl e, w4)"
    by (blast intro: events_loop_receive_request_raises)
qed

lemma events_loop_malformed:
  "events_loop (explorer symb hs [send_malformed] [receive_B] toks pts)
     (transfers_page None False (DFin 0) 0) PNone PNone symb 0 [] w
   = Some (Inl InvalidOperation, w)"
  by (subst events_loop.simps)
     (simp add: make_request_explorer_events send_malformed_def Decimal_of_str_abc)

theorem fetch_operations_return_None_on_exceptions_witness:
  "fetch_token_info utc_platform unreachable ''P2K'' 0 = (None, 0)
   \<and> fetch_holders utc_platform unreachable ''P2K'' (DFin 0) 0 = Some (None, 0)
   \<and> fetch_transfers utc_platform unreachable ''P2K'' None None None False (DFin 0) 0
       = Some (None, 0)
   \<and> fetch_early_transfers utc_platform unreachable ''P2K'' None None 0 = Some (None, 0)
   \<and> fetch_prices utc_platform unreachable ''P2K'' 0 = (None, 0)
   \<and> fetch_holders utc_platform unknown_token ''P2K'' (DFin 0) 0 = Some (None, 0)
   \<and> events_loop (explorer ''SOUL'' [] [send_malformed] [receive_B] [] [])
        (transfers_page None False (DFin 0) 0) PNone PNone ''SOUL'' 0 [] 0
       = Some (Inl InvalidOperation, 0)
   \<and> fetch_transfers utc_platform (explorer ''SOUL'' [] [send_malformed] [receive_B] [] [])
        ''P2K'' None None None False (DFin 0) 0 = Some (None, 0)"
proof -
  let ?get = "explorer ''SOUL'' [] [send_malformed] [receive_B] [] [] :: nat transport"
  have down: "unreachable 0 (base_url @ ''/addresses'') [(''address'', PStr ''P2K'')]
                = (Inl RequestException, 0)"
    by (simp add: unreachable_def)
  have unknown: "unknown_token 0 (base_url @ ''/addresses'') [(''address'', PStr ''P2K'')]
                   = (Inr \<lparr>status_code = 200, json = Inr (Addresses [])\<rparr>, 0)"
    by (simp add: unknown_token_def ok_response_def)
  have resolved: "get_symbol_by_token_address ?get 0 ''P2K'' = (Inr ''SOUL'', 0)"
    by (rule get_symbol_explorer)
  have dates: "date_param utc_platform None = Inr PNone"
    by (simp add: date_param_def)
  have raised: "events_loop ?get (transfers_page None False (DFin 0) 0) PNone PNone ''SOUL'' 0 []
                  0 = Some (Inl InvalidOperation, 0)"
    by (rule events_loop_malformed)
  note transport = fetch_operations_return_None_on_exceptions
    [where pf = utc_platform and get = unreachable and a = "''P2K''" and w = 0 and w' = 0
       and e = RequestException and mb = "DFin 0" and A = None and sd = None and ed = None
       and fo = False and mv = "DFin 0",
     THEN conjunct2, THEN conjunct2, THEN conjunct2, THEN conjunct2, THEN conjunct2,
     THEN conjunct1]
  note resolution = fetch_operations_return_None_on_exceptions
    [where pf = utc_platform and get = unknown_token and a = "''P2K''" and w = 0 and w' = 0
       and mb = "DFin 0",
     THEN conjunct2, THEN conjunct2, THEN conjunct2, THEN conjunct2, THEN conjunct2,
     THEN conjunct1]
  note parsing = fetch_operations_return_None_on_exceptions
    [where pf = utc_platform and get = ?get and a = "''P2K''" and w = 0 and ?w1.0 = 0
       and w' = 0 and symb = "''SOUL''" and e = InvalidOperation and A = None and sd = None
       and ed = None and dg = PNone and dl = PNone and fo = False and mv = "DFin 0",
     THEN conjunct2, THEN conjunct2, THEN conjunct2, THEN conjunct2, THEN conjunct2,
     THEN conjunct2, THEN conjunct1]
  have a: "fetch_token_info utc_platform unreachable ''P2K'' 0 = (None, 0)
           \<and> fetch_holders utc_platform unreachable ''P2K'' (DFin 0) 0 = Some (None, 0)
           \<and> fetch_transfers utc_platform unreachable ''P2K'' None None None False (DFin 0) 0
               = Some (None, 0)
           \<and> fetch_early_transfers utc_platform unreachable ''P2K'' None None 0 = Some (None, 0)
           \<and> fetch_prices utc_platform unreachable ''P2K'' 0 = (None, 0)"
    using transport down by blast
  have b: "fetch_holders utc_platform unknown_token ''P2K'' (DFin 0) 0 = Some (None, 0)"
    using resolution unknown by simp
  have c: "fetch_transfers utc_platform ?get ''P2K'' None None None False (DFin 0) 0
             = Some (None, 0)"
    using parsing resolved dates raised by simp
  from a b c raised show ?thesis by simp
qed

end
